(* ===== verification/Prelude.thy ===== *)
theory Prelude
  imports Main "HOL-Library.Multiset"
begin

text \<open>
  Shared vocabulary of the ticketing development: how JavaScript values
  that the server reads from request bodies are represented (\<open>undefined\<close>
  as \<open>None\<close>, truthiness, template-literal rendering), the decimal rendering
  of JavaScript numbers used in ids and user names together with its
  inverse, the wall clock read by \<open>new Date()\<close>, and list lemmas that
  the component theories share.
\<close>

named_theorems js_simps "evaluation rules of the JavaScript value helpers"

section \<open>JavaScript values\<close>

text \<open>
  A request-body field the server destructures is a string or
  \<open>undefined\<close>: \<open>jstr\<close>. An ISO-8601 timestamp from
  \<open>new Date().toISOString()\<close> is represented by the millisecond count it
  encodes; the encoding is order preserving, so comparing the numbers is
  comparing the strings.
\<close>

type_synonym jstr = "string option"
type_synonym timestamp = nat

text \<open>\<open>if (x)\<close> on a string-or-undefined: \<open>undefined\<close> and \<open>''''\<close> are falsy.\<close>

definition truthy :: "jstr \<Rightarrow> bool" where
  "truthy v = (case v of None \<Rightarrow> False | Some s \<Rightarrow> s \<noteq> [])"

text \<open>\<open>`${x}`\<close>: a template literal renders \<open>undefined\<close> as the text \<open>undefined\<close>.\<close>

definition js_show :: "jstr \<Rightarrow> string" where
  "js_show v = (case v of None \<Rightarrow> ''undefined'' | Some s \<Rightarrow> s)"

section \<open>Decimal rendering of numbers\<close>

text \<open>
  \<open>`T-${1000 + n}`\<close> and \<open>`user${i}`\<close> render a non-negative integer
  JavaScript number in decimal, most significant digit first.
\<close>

definition digit_char :: "nat \<Rightarrow> char" where
  "digit_char d = ''0123456789'' ! d"

fun dec :: "nat \<Rightarrow> string" where
  "dec n = (if n < 10 then [digit_char n] else dec (n div 10) @ [digit_char (n mod 10)])"

declare dec.simps [simp del]

text \<open>The inverse, reading decimal digits left to right.\<close>

definition digit_val :: "char \<Rightarrow> nat" where
  "digit_val c = of_char c - 48"

definition parse_dec :: "string \<Rightarrow> nat" where
  "parse_dec s = foldl (\<lambda>acc c. 10 * acc + digit_val c) 0 s"

section \<open>The wall clock\<close>

text \<open>
  Every \<open>new Date()\<close> of the server is one read of the wall clock. The
  environment is a function from the number of reads made so far to the time
  returned; a real clock never runs backwards, which is \<open>mono\<close>.
\<close>

type_synonym clock = "nat \<Rightarrow> timestamp"

section \<open>Lists\<close>

text \<open>\<open>Array.prototype.findIndex\<close>: the first index whose element satisfies
  the predicate; the source's \<open>-1\<close> is \<open>None\<close>.\<close>

fun findIndex :: "('a \<Rightarrow> bool) \<Rightarrow> 'a list \<Rightarrow> nat option" where
  "findIndex p [] = None"
| "findIndex p (x # xs) = (if p x then Some 0 else map_option Suc (findIndex p xs))"

text \<open>The counting loop \<open>for (let i = lo; i <= n; i++) acc = body(i, acc)\<close>: it
  stops once the counter passes \<open>n\<close>, which \<open>Suc n - i\<close> measures.\<close>

function for_upto :: "nat \<Rightarrow> nat \<Rightarrow> (nat \<Rightarrow> 'a \<Rightarrow> 'a) \<Rightarrow> 'a \<Rightarrow> 'a" where
  "for_upto i n body acc = (if i \<le> n then for_upto (Suc i) n body (body i acc) else acc)"
  by pat_completeness auto
termination
  by (relation "measure (\<lambda>(i, n, body, acc). Suc n - i)") auto

declare for_upto.simps [simp del]

section \<open>Lemmas\<close>

lemma truthy_simps [simp, js_simps]:
  "truthy None = False"
  "truthy (Some s) = (s \<noteq> [])"
  by (simp_all add: truthy_def)

lemma js_show_simps [simp, js_simps]:
  "js_show None = ''undefined''"
  "js_show (Some s) = s"
  by (simp_all add: js_show_def)

lemma truthy_Some_E [elim]:
  assumes "truthy v"
  obtains s where "v = Some s" and "s \<noteq> []"
  using assms by (cases v) auto

lemma digit_val_digit_char [simp]: "d < 10 \<Longrightarrow> digit_val (digit_char d) = d"
proof -
  assume "d < 10"
  then have "d \<in> set [0..<10]" by simp
  then show ?thesis by (simp add: upt_rec digit_val_def digit_char_def) (elim disjE; simp)
qed

lemma parse_dec_snoc [simp]: "parse_dec (s @ [c]) = 10 * parse_dec s + digit_val c"
  by (simp add: parse_dec_def)

lemma dec_small [simp]: "n < 10 \<Longrightarrow> dec n = [digit_char n]"
  by (simp add: dec.simps)

lemma dec_large: "\<not> n < 10 \<Longrightarrow> dec n = dec (n div 10) @ [digit_char (n mod 10)]"
  by (subst dec.simps) simp

lemma dec_nonempty [simp]: "dec n \<noteq> []"
  by (subst dec.simps) simp

lemma parse_dec_dec: "parse_dec (dec n) = n"
proof (induction n rule: dec.induct)
  case (1 n)
  show ?case
  proof (cases "n < 10")
    case True
    then show ?thesis by (simp add: parse_dec_def)
  next
    case False
    with "1.IH" have "parse_dec (dec (n div 10)) = n div 10" by simp
    with False show ?thesis by (simp add: dec_large)
  qed
qed

lemma dec_inj: "dec m = dec n \<longleftrightarrow> m = n"
  by (metis parse_dec_dec)

lemma digit_char_is_digit: "d < 10 \<Longrightarrow> (48::nat) \<le> of_char (digit_char d) \<and> of_char (digit_char d) \<le> (57::nat)"
proof -
  assume "d < 10"
  then have "d \<in> set [0..<10]" by simp
  then show ?thesis by (simp add: upt_rec digit_char_def) (elim disjE; simp)
qed

lemma dec_digits: "\<forall>c \<in> set (dec n). (48::nat) \<le> of_char c \<and> of_char c \<le> (57::nat)"
proof (induction n rule: dec.induct)
  case (1 n)
  then show ?case
    by (cases "n < 10") (simp_all add: dec_large digit_char_is_digit)
qed

lemma findIndex_None: "findIndex p xs = None \<longleftrightarrow> (\<forall>x \<in> set xs. \<not> p x)"
  by (induction xs) auto

lemma findIndex_Some:
  "findIndex p xs = Some i \<Longrightarrow> i < length xs \<and> p (xs ! i) \<and> (\<forall>j < i. \<not> p (xs ! j))"
proof (induction xs arbitrary: i)
  case Nil
  then show ?case by simp
next
  case (Cons x xs)
  show ?case
  proof (cases "p x")
    case True
    with Cons.prems show ?thesis by simp
  next
    case False
    with Cons.prems obtain k where k: "findIndex p xs = Some k" and i: "i = Suc k"
      by auto
    from Cons.IH [OF k] have ih: "k < length xs" "p (xs ! k)" "\<forall>j < k. \<not> p (xs ! j)"
      by blast+
    have all: "\<forall>j < i. \<not> p ((x # xs) ! j)"
    proof (intro allI impI)
      fix j assume "j < i"
      then show "\<not> p ((x # xs) ! j)"
        using False ih(3) i by (cases j) auto
    qed
    from ih(1,2) i have "i < length (x # xs)" "p ((x # xs) ! i)" by simp_all
    with all show ?thesis by blast
  qed
qed

lemma findIndex_distinct:
  assumes "distinct (map f xs)" and "i < length xs"
  shows "findIndex (\<lambda>x. f x = f (xs ! i)) xs = Some i"
proof -
  have "findIndex (\<lambda>x. f x = f (xs ! i)) xs \<noteq> None"
    using assms(2) by (auto simp: findIndex_None)
  then obtain j where j: "findIndex (\<lambda>x. f x = f (xs ! i)) xs = Some j"
    by blast
  from findIndex_Some [OF j] have jl: "j < length xs" and "f (xs ! j) = f (xs ! i)"
    by blast+
  then have "map f xs ! j = map f xs ! i"
    using assms(2) by simp
  then have "j = i"
    using nth_eq_iff_index_eq [OF assms(1), of j i] assms(2) jl by simp
  with j show ?thesis by simp
qed

lemma sorted_append_single:
  "sorted xs \<Longrightarrow> (\<forall>x \<in> set xs. x \<le> y) \<Longrightarrow> sorted (xs @ [y])"
  by (simp add: sorted_append)

lemma length_filter_disj:
  "\<forall>x \<in> set xs. \<not> (P x \<and> Q x) \<Longrightarrow>
   length (filter (\<lambda>x. P x \<or> Q x) xs) = length (filter P xs) + length (filter Q xs)"
  by (induction xs) auto

lemma length_filter_mset: "length (filter P xs) = size (filter_mset P (mset xs))"
  by (metis mset_filter size_mset)

lemma map_of_list_update_distinct:
  "distinct (map fst xs) \<Longrightarrow> i < length xs \<Longrightarrow> fst (xs ! i) = k \<Longrightarrow>
   map_of (xs[i := (k, v)]) = (map_of xs)(k \<mapsto> v)"
proof (induction xs arbitrary: i)
  case Nil
  then show ?case by simp
next
  case (Cons a xs)
  obtain x y where a: "a = (x, y)" by (cases a)
  show ?case
  proof (cases i)
    case 0
    with Cons.prems a show ?thesis by (simp add: fun_eq_iff)
  next
    case (Suc j)
    with Cons.prems have j: "j < length xs" "fst (xs ! j) = k" by simp_all
    from Cons.prems(1) a have dx: "distinct (map fst xs)" and "x \<notin> set (map fst xs)" by simp_all
    moreover from j have "k \<in> set (map fst xs)" by (metis nth_map nth_mem length_map)
    ultimately have xk: "x \<noteq> k" by blast
    have "map_of (xs[j := (k, v)]) = (map_of xs)(k \<mapsto> v)"
      using Cons.IH [OF dx j] .
    then show ?thesis
      using Suc a xk by (auto simp: fun_eq_iff)
  qed
qed
lemma mono_clock_le: "mono (clk :: clock) \<Longrightarrow> m \<le> n \<Longrightarrow> clk m \<le> clk n"
  by (simp add: monoD)

lemma list_all_update: "list_all P xs \<Longrightarrow> P x \<Longrightarrow> list_all P (xs[i := x])"
  by (induction xs arbitrary: i) (auto split: nat.split)

lemma list_all_le_clock:
  assumes "mono clk" and "n \<le> n'" and "list_all (\<lambda>x. x \<le> clk n) xs"
  shows "list_all (\<lambda>x. x \<le> clk n') xs"
proof -
  from assms(1,2) have "clk n \<le> clk n'" by (rule monoD)
  with assms(3) show ?thesis by (auto simp: list_all_iff)
qed
lemma sorted_hd_last: "sorted (xs :: 'a :: linorder list) \<Longrightarrow> xs \<noteq> [] \<Longrightarrow> hd xs \<le> last xs"
proof (cases xs)
  case (Cons x ys)
  moreover assume "sorted xs"
  ultimately show ?thesis by (cases "ys = []") (auto simp: last_in_set)
qed simp

lemma for_upto_fold: "for_upto i n body acc = fold body [i..<Suc n] acc"
proof (induction i n body acc rule: for_upto.induct)
  case (1 i n body acc)
  show ?case
  proof (cases "i \<le> n")
    case True
    then have "[i..<Suc n] = i # [Suc i..<Suc n]" by (simp add: upt_rec)
    with True "1.IH" show ?thesis by (simp add: for_upto.simps [of i n body acc])
  next
    case False
    then show ?thesis by (simp add: for_upto.simps [of i n body acc])
  qed
qed

end
