(* ===== verification/Data_Model.thy ===== *)
theory Data_Model
  imports Prelude
begin

text \<open>
  The data of \<open>src/src/types.ts\<close>: the three enums as datatypes with the
  strings they stand for, the \<open>User\<close>, \<open>TicketComment\<close> and \<open>Ticket\<close>
  interfaces as records, and the in-memory state of \<open>src/server.ts\<close>
  (the \<open>tickets\<close> and \<open>comments\<close> arrays and the number of clock reads made
  so far) as the record \<open>server\<close>.
\<close>

section \<open>Enums\<close>

datatype user_role = USER | AGENT | ADMIN

datatype ticket_status = OPEN | IN_PROGRESS | WAITING | ESCALATED | RESOLVED | CLOSED

datatype ticket_priority = LOW | MEDIUM | HIGH | CRITICAL

text \<open>The string value of each enum member, as TypeScript compiles it.\<close>

fun role_str :: "user_role \<Rightarrow> string" where
  "role_str USER = ''user''"
| "role_str AGENT = ''agent''"
| "role_str ADMIN = ''admin''"

fun status_str :: "ticket_status \<Rightarrow> string" where
  "status_str OPEN = ''Abierto''"
| "status_str IN_PROGRESS = ''En Proceso''"
| "status_str WAITING = ''En Espera del Usuario''"
| "status_str ESCALATED = ''Escalado''"
| "status_str RESOLVED = ''Resuelto''"
| "status_str CLOSED = ''Cerrado''"

text \<open>The string values of \<open>TicketPriority\<close>, byte for byte: the source file
  spells \<open>CRITICAL\<close> as \<open>Cr\<close>, the UTF-8 bytes E2 88 9A E2 89 A0 (a square
  root sign and a not-equal sign), then \<open>tica\<close>; that is the UTF-8 of an
  accented i decoded as Mac Roman and encoded again, not the \<open>Cr\<close> C3 AD
  \<open>tica\<close> of the spec.\<close>

fun priority_str :: "ticket_priority \<Rightarrow> string" where
  "priority_str LOW = ''Baja''"
| "priority_str MEDIUM = ''Media''"
| "priority_str HIGH = ''Alta''"
| "priority_str CRITICAL = ''Cr'' @ [CHR 0xE2, CHR 0x88, CHR 0x9A, CHR 0xE2, CHR 0x89, CHR 0xA0] @ ''tica''"

text \<open>
  \<open>Object.values(TicketPriority)\<close> and \<open>Object.values(TicketStatus)\<close> list the
  members in declaration order; the \<open>enum\<close> class makes that list, and
  quantifiers over the members, executable.
\<close>

instantiation ticket_priority :: enum
begin

definition "enum_ticket_priority = [LOW, MEDIUM, HIGH, CRITICAL]"
definition "enum_all_ticket_priority P = (P LOW \<and> P MEDIUM \<and> P HIGH \<and> P CRITICAL)"
definition "enum_ex_ticket_priority P = (P LOW \<or> P MEDIUM \<or> P HIGH \<or> P CRITICAL)"

instance
proof
  show "(UNIV :: ticket_priority set) = set enum_class.enum"
    using ticket_priority.exhaust by (auto simp: enum_ticket_priority_def)
  show "distinct (enum_class.enum :: ticket_priority list)"
    by (simp add: enum_ticket_priority_def)
  fix P :: "ticket_priority \<Rightarrow> bool"
  show "enum_class.enum_all P = Ball UNIV P"
    by (metis enum_all_ticket_priority_def ticket_priority.exhaust UNIV_I)
  show "enum_class.enum_ex P = Bex UNIV P"
    by (metis enum_ex_ticket_priority_def ticket_priority.exhaust UNIV_I)
qed

end

instantiation ticket_status :: enum
begin

definition "enum_ticket_status = [OPEN, IN_PROGRESS, WAITING, ESCALATED, RESOLVED, CLOSED]"
definition "enum_all_ticket_status P =
  (P OPEN \<and> P IN_PROGRESS \<and> P WAITING \<and> P ESCALATED \<and> P RESOLVED \<and> P CLOSED)"
definition "enum_ex_ticket_status P =
  (P OPEN \<or> P IN_PROGRESS \<or> P WAITING \<or> P ESCALATED \<or> P RESOLVED \<or> P CLOSED)"

instance
proof
  show "(UNIV :: ticket_status set) = set enum_class.enum"
    using ticket_status.exhaust by (auto simp: enum_ticket_status_def)
  show "distinct (enum_class.enum :: ticket_status list)"
    by (simp add: enum_ticket_status_def)
  fix P :: "ticket_status \<Rightarrow> bool"
  show "enum_class.enum_all P = Ball UNIV P"
    by (metis enum_all_ticket_status_def ticket_status.exhaust UNIV_I)
  show "enum_class.enum_ex P = Bex UNIV P"
    by (metis enum_ex_ticket_status_def ticket_status.exhaust UNIV_I)
qed

end

section \<open>Records\<close>

text \<open>\<open>interface User\<close>; the seeded accounts of \<open>server.ts\<close> have the type
  \<open>User & { password: string }\<close>, a record extension.\<close>

record user =
  u_id :: string
  u_username :: string
  u_fullName :: string
  u_role :: user_role
  u_department :: string
  u_email :: string

record mock_user = user +
  u_password :: string

text \<open>\<open>interface TicketComment\<close>. The author and text come from the request
  body and may be \<open>undefined\<close>; the id is the route parameter.\<close>

record comment =
  c_id :: string
  c_ticketId :: string
  c_userId :: jstr
  c_userName :: jstr
  c_text :: jstr
  c_createdAt :: timestamp

text \<open>One element of \<open>Ticket.history\<close>.\<close>

record history_entry =
  h_action :: string
  h_userId :: jstr
  h_userName :: jstr
  h_timestamp :: timestamp

text \<open>
  \<open>interface Ticket\<close>. Fields the \<open>POST /api/tickets\<close> handler copies from the
  body are \<open>jstr\<close> (missing ones propagate as \<open>undefined\<close>); \<open>priority\<close> is
  copied too, so it is optional; \<open>status\<close> is always set by the server.
\<close>

record ticket =
  t_id :: string
  t_title :: jstr
  t_description :: jstr
  t_status :: ticket_status
  t_priority :: "ticket_priority option"
  t_category :: jstr
  t_creatorId :: jstr
  t_creatorName :: jstr
  t_creatorEmail :: jstr
  t_creatorDept :: jstr
  t_station :: jstr
  t_area :: jstr
  t_agentId :: jstr
  t_agentName :: jstr
  t_createdAt :: timestamp
  t_updatedAt :: timestamp
  t_resolvedAt :: "timestamp option"
  t_history :: "history_entry list"

section \<open>Errors\<close>

text \<open>The two error responses of the API: \<open>401\<close> on an unknown user name at
  login and \<open>404\<close> on an unknown ticket id at \<open>PATCH\<close>.\<close>

datatype api_error = Unauthorized | NotFound

fun error_status :: "api_error \<Rightarrow> nat" where
  "error_status Unauthorized = 401"
| "error_status NotFound = 404"

fun error_message :: "api_error \<Rightarrow> string" where
  "error_message Unauthorized = ''Usuario no encontrado''"
| "error_message NotFound = ''Ticket no encontrado''"

section \<open>Server state\<close>

text \<open>
  The module-level \<open>let tickets\<close> and \<open>let comments\<close> of \<open>server.ts\<close>, and
  \<open>reads\<close>, the number of \<open>new Date()\<close> calls made so far: the next call
  returns \<open>clk (reads s)\<close>.
\<close>

record server =
  tickets :: "ticket list"
  comments :: "comment list"
  reads :: nat

text \<open>\<open>new Date().toISOString()\<close> evaluated as the \<open>k\<close>-th read of this request.\<close>

abbreviation now :: "clock \<Rightarrow> server \<Rightarrow> nat \<Rightarrow> timestamp" where
  "now clk s k \<equiv> clk (reads s + k)"

text \<open>The module-level seed ticket \<open>T-1001\<close>, whose object literal reads the
  clock three times (\<open>createdAt\<close>, \<open>updatedAt\<close>, the history entry).\<close>

definition seed_ticket :: "clock \<Rightarrow> ticket" where
  "seed_ticket clk =
    \<lparr>t_id = ''T-1001'',
     t_title = Some ''Problema con acceso a VPN'',
     t_description = Some ''No puedo conectar a la VPN desde mi casa. Sale error de tiempo de espera.'',
     t_status = OPEN, t_priority = Some HIGH, t_category = Some ''Red'',
     t_creatorId = Some ''u1'', t_creatorName = Some ''Usuario 1'',
     t_creatorEmail = Some ''user1@enterprise.com'', t_creatorDept = Some ''Marketing'',
     t_station = None, t_area = None, t_agentId = None, t_agentName = None,
     t_createdAt = clk 0, t_updatedAt = clk 1, t_resolvedAt = None,
     t_history = [\<lparr>h_action = ''Ticket creado'', h_userId = Some ''u1'',
                   h_userName = Some ''Usuario 1'', h_timestamp = clk 2\<rparr>]\<rparr>"

definition init_server :: "clock \<Rightarrow> server" where
  "init_server clk = \<lparr>tickets = [seed_ticket clk], comments = [], reads = 3\<rparr>"

section \<open>Lemmas\<close>

lemma role_str_inj: "role_str a = role_str b \<longleftrightarrow> a = b"
  by (cases a; cases b) simp_all

lemma status_str_inj: "status_str a = status_str b \<longleftrightarrow> a = b"
  by (cases a; cases b) simp_all

end
