(* ===== verification/Tickets.thy ===== *)
theory Tickets
  imports Data_Model "HOL-Library.Multiset"
begin

text \<open>
  The ticket store of \<open>src/server.ts\<close>: the handlers of
  \<open>GET /api/tickets\<close> (\<open>list_tickets\<close>), \<open>POST /api/tickets\<close>
  (\<open>create_ticket\<close>), \<open>PATCH /api/tickets/:id\<close> (\<open>patch_ticket\<close>, built
  from \<open>apply_patch\<close> and \<open>patch_action\<close>) and \<open>GET /api/stats\<close>
  (\<open>get_stats\<close>), each as a function of the server state, with the
  functional behaviour of every branch, the bounds of the statistics, and a
  refinement of the array store by a map keyed by ticket id.
\<close>

section \<open>Requests\<close>

text \<open>The fields \<open>POST /api/tickets\<close> destructures from \<open>req.body\<close>.\<close>

record create_req =
  cr_title :: jstr
  cr_description :: jstr
  cr_priority :: "ticket_priority option"
  cr_category :: jstr
  cr_creatorId :: jstr
  cr_creatorName :: jstr
  cr_creatorEmail :: jstr
  cr_creatorDept :: jstr
  cr_agentId :: jstr
  cr_agentName :: jstr
  cr_station :: jstr
  cr_area :: jstr

text \<open>The fields \<open>PATCH /api/tickets/:id\<close> destructures from \<open>req.body\<close>.\<close>

record patch_req =
  p_status :: "ticket_status option"
  p_agentId :: jstr
  p_agentName :: jstr
  p_priority :: "ticket_priority option"
  p_userId :: jstr
  p_userName :: jstr

section \<open>Operations\<close>

text \<open>\<open>GET /api/tickets\<close>: the role policy on the query parameters.\<close>

definition list_tickets :: "jstr \<Rightarrow> jstr \<Rightarrow> server \<Rightarrow> ticket list" where
  "list_tickets userId role s =
    (if role = Some (role_str ADMIN) then tickets s
     else if role = Some (role_str AGENT) then filter (\<lambda>t. t_agentId t = userId) (tickets s)
     else filter (\<lambda>t. t_creatorId t = userId) (tickets s))"

text \<open>\<open>`T-${1000 + tickets.length + 1}`\<close>.\<close>

definition ticket_id_of :: "nat \<Rightarrow> string" where
  "ticket_id_of n = ''T-'' @ dec (1000 + n + 1)"

text \<open>
  \<open>POST /api/tickets\<close>: the object literal reads the clock three times
  (\<open>createdAt\<close>, \<open>updatedAt\<close>, the creation entry), the pre-assignment entry
  a fourth time; the new ticket is pushed at the end of the array.
\<close>

definition new_ticket :: "clock \<Rightarrow> create_req \<Rightarrow> server \<Rightarrow> ticket" where
  "new_ticket clk b s =
    \<lparr>t_id = ticket_id_of (length (tickets s)),
     t_title = cr_title b, t_description = cr_description b,
     t_status = (if truthy (cr_agentId b) then IN_PROGRESS else OPEN),
     t_priority = cr_priority b, t_category = cr_category b,
     t_creatorId = cr_creatorId b, t_creatorName = cr_creatorName b,
     t_creatorEmail = cr_creatorEmail b, t_creatorDept = cr_creatorDept b,
     t_station = cr_station b, t_area = cr_area b,
     t_agentId = cr_agentId b, t_agentName = cr_agentName b,
     t_createdAt = now clk s 0, t_updatedAt = now clk s 1, t_resolvedAt = None,
     t_history = [\<lparr>h_action = ''Ticket creado'', h_userId = cr_creatorId b,
                   h_userName = cr_creatorName b, h_timestamp = now clk s 2\<rparr>]\<rparr>"

definition create_ticket :: "clock \<Rightarrow> create_req \<Rightarrow> server \<Rightarrow> ticket \<times> server" where
  "create_ticket clk b s =
    (let t = new_ticket clk b s;
         t' = (if truthy (cr_agentId b)
               then t\<lparr>t_history := t_history t @
                      [\<lparr>h_action = ''Asignado a '' @ js_show (cr_agentName b) @ '' al crear'',
                        h_userId = cr_creatorId b, h_userName = cr_creatorName b,
                        h_timestamp = now clk s 3\<rparr>]\<rparr>
               else t);
         used = (if truthy (cr_agentId b) then 4 else 3)
     in (t', s\<lparr>tickets := tickets s @ [t'], reads := reads s + used\<rparr>))"

text \<open>
  The history message of a \<open>PATCH\<close>, written as the code writes it: the
  default, overwritten when the status changes, overwritten again when an
  agent is assigned.
\<close>

definition patch_action :: "ticket_status \<Rightarrow> patch_req \<Rightarrow> string" where
  "patch_action oldStatus b =
    (let a0 = ''Ticket actualizado'';
         a1 = (case p_status b of
                 Some st \<Rightarrow> if st \<noteq> oldStatus then ''Estado cambiado a '' @ status_str st else a0
               | None \<Rightarrow> a0)
     in if truthy (p_agentId b) then ''Asignado a '' @ js_show (p_agentName b) else a1)"

definition resolves :: "patch_req \<Rightarrow> bool" where
  "resolves b \<longleftrightarrow> p_status b = Some RESOLVED \<or> p_status b = Some CLOSED"

text \<open>
  The in-place mutation of \<open>tickets[ticketIndex]\<close>: status, assignment (as a
  pair), priority, \<open>updatedAt\<close> (clock read 0), one history entry (read 1),
  and \<open>resolvedAt\<close> (read 2) when the requested status is resolved or closed.
\<close>

definition apply_patch :: "clock \<Rightarrow> server \<Rightarrow> patch_req \<Rightarrow> ticket \<Rightarrow> ticket" where
  "apply_patch clk s b t =
    (let oldStatus = t_status t;
         t1 = (case p_status b of Some st \<Rightarrow> t\<lparr>t_status := st\<rparr> | None \<Rightarrow> t);
         t2 = (if truthy (p_agentId b)
               then t1\<lparr>t_agentId := p_agentId b, t_agentName := p_agentName b\<rparr> else t1);
         t3 = (case p_priority b of Some p \<Rightarrow> t2\<lparr>t_priority := Some p\<rparr> | None \<Rightarrow> t2);
         t4 = t3\<lparr>t_updatedAt := now clk s 0\<rparr>;
         t5 = t4\<lparr>t_history := t_history t4 @
                 [\<lparr>h_action = patch_action oldStatus b, h_userId = p_userId b,
                   h_userName = p_userName b, h_timestamp = now clk s 1\<rparr>]\<rparr>
     in if resolves b then t5\<lparr>t_resolvedAt := Some (now clk s 2)\<rparr> else t5)"

text \<open>\<open>PATCH /api/tickets/:id\<close>: \<open>findIndex\<close> on the id, \<open>404\<close> when absent
  (no clock read, no change), otherwise the mutated ticket and the new state.\<close>

definition patch_ticket :: "clock \<Rightarrow> string \<Rightarrow> patch_req \<Rightarrow> server \<Rightarrow> api_error + ticket \<times> server" where
  "patch_ticket clk tid b s =
    (case findIndex (\<lambda>t. t_id t = tid) (tickets s) of
       None \<Rightarrow> Inl NotFound
     | Some i \<Rightarrow>
         (let t' = apply_patch clk s b (tickets s ! i)
          in Inr (t', s\<lparr>tickets := (tickets s)[i := t'],
                       reads := reads s + (if resolves b then 3 else 2)\<rparr>)))"

text \<open>\<open>GET /api/stats\<close>.\<close>

record stats =
  st_total :: nat
  st_open :: nat
  st_inProgress :: nat
  st_resolved :: nat
  st_byPriority :: "ticket_priority \<Rightarrow> nat"

definition get_stats :: "ticket list \<Rightarrow> stats" where
  "get_stats ts =
    \<lparr>st_total = length ts,
     st_open = length (filter (\<lambda>t. t_status t = OPEN) ts),
     st_inProgress = length (filter (\<lambda>t. t_status t = IN_PROGRESS) ts),
     st_resolved = length (filter (\<lambda>t. t_status t = RESOLVED \<or> t_status t = CLOSED) ts),
     st_byPriority = (\<lambda>p. length (filter (\<lambda>t. t_priority t = Some p) ts))\<rparr>"

text \<open>The \<open>byPriority\<close> object of the response, keys in the order of the
  object literal (computed keys \<open>[TicketPriority.LOW]\<close>, ...).\<close>

definition priority_json :: "stats \<Rightarrow> (string \<times> nat) list" where
  "priority_json st = map (\<lambda>p. (priority_str p, st_byPriority st p)) [LOW, MEDIUM, HIGH, CRITICAL]"

section \<open>Visibility policy (specification)\<close>

text \<open>
  The listing policy of the design (an admin sees every ticket, an agent the
  tickets assigned to them, anyone else the tickets they created), stated
  over roles; \<open>query_role\<close> reads the role the way the handler's
  \<open>if\<close>/\<open>else if\<close>/\<open>else\<close> chain does, every other value falling to the user
  branch.
\<close>

definition query_role :: "jstr \<Rightarrow> user_role" where
  "query_role role = (if role = Some (role_str ADMIN) then ADMIN
                      else if role = Some (role_str AGENT) then AGENT else USER)"

fun may_see :: "user_role \<Rightarrow> jstr \<Rightarrow> ticket \<Rightarrow> bool" where
  "may_see ADMIN uid t = True"
| "may_see AGENT uid t = (t_agentId t = uid)"
| "may_see USER uid t = (t_creatorId t = uid)"

section \<open>Abstract store (specification)\<close>

text \<open>
  The design notes ask for a store keyed by ticket id. \<open>store_map\<close> reads the
  array as such a map (the first ticket with an id wins, as \<open>findIndex\<close>
  does), and \<open>abs_patch\<close> is the patch on that map.
\<close>

definition store_map :: "ticket list \<Rightarrow> string \<rightharpoonup> ticket" where
  "store_map ts = map_of (map (\<lambda>t. (t_id t, t)) ts)"

definition abs_patch :: "clock \<Rightarrow> server \<Rightarrow> string \<Rightarrow> patch_req \<Rightarrow> (string \<rightharpoonup> ticket) \<Rightarrow> (string \<rightharpoonup> ticket) option" where
  "abs_patch clk s tid b m =
    (case m tid of None \<Rightarrow> None | Some t \<Rightarrow> Some (m(tid \<mapsto> apply_patch clk s b t)))"

section \<open>Properties\<close>

subsection \<open>Behaviour of the handlers on each branch\<close>

lemma create_ticket_state:
  assumes "create_ticket clk b s = (t, s')"
  shows "tickets s' = tickets s @ [t] \<and> comments s' = comments s \<and>
         reads s' = reads s + (if truthy (cr_agentId b) then 4 else 3)"
  using assms by (auto simp: create_ticket_def Let_def)

lemma create_ticket_ticket:
  "fst (create_ticket clk b s) =
    (if truthy (cr_agentId b)
     then (new_ticket clk b s)\<lparr>t_history := t_history (new_ticket clk b s) @
            [\<lparr>h_action = ''Asignado a '' @ js_show (cr_agentName b) @ '' al crear'',
              h_userId = cr_creatorId b, h_userName = cr_creatorName b,
              h_timestamp = now clk s 3\<rparr>]\<rparr>
     else new_ticket clk b s)"
  by (simp add: create_ticket_def Let_def)

lemma apply_patch_fields [simp]:
  "t_id (apply_patch clk s b t) = t_id t"
  "t_createdAt (apply_patch clk s b t) = t_createdAt t"
  "t_creatorId (apply_patch clk s b t) = t_creatorId t"
  "t_status (apply_patch clk s b t) = (case p_status b of Some st \<Rightarrow> st | None \<Rightarrow> t_status t)"
  "t_agentId (apply_patch clk s b t) = (if truthy (p_agentId b) then p_agentId b else t_agentId t)"
  "t_agentName (apply_patch clk s b t) = (if truthy (p_agentId b) then p_agentName b else t_agentName t)"
  "t_priority (apply_patch clk s b t) = (case p_priority b of Some p \<Rightarrow> Some p | None \<Rightarrow> t_priority t)"
  "t_updatedAt (apply_patch clk s b t) = now clk s 0"
  "t_resolvedAt (apply_patch clk s b t) = (if resolves b then Some (now clk s 2) else t_resolvedAt t)"
  "t_history (apply_patch clk s b t) = t_history t @
     [\<lparr>h_action = patch_action (t_status t) b, h_userId = p_userId b,
       h_userName = p_userName b, h_timestamp = now clk s 1\<rparr>]"
  by (simp_all add: apply_patch_def Let_def split: option.splits)

lemma patch_ticket_Inl:
  "patch_ticket clk tid b s = Inl e \<longleftrightarrow> e = NotFound \<and> (\<forall>t \<in> set (tickets s). t_id t \<noteq> tid)"
proof (cases "findIndex (\<lambda>t. t_id t = tid) (tickets s)")
  case None
  then have "\<forall>t \<in> set (tickets s). t_id t \<noteq> tid" by (simp add: findIndex_None)
  with None show ?thesis by (auto simp: patch_ticket_def)
next
  case (Some i)
  from findIndex_Some [OF Some] have "\<exists>t \<in> set (tickets s). t_id t = tid"
    using nth_mem by blast
  with Some show ?thesis by (simp add: patch_ticket_def Let_def)
qed

lemma patch_ticket_Inr:
  assumes "patch_ticket clk tid b s = Inr (t', s')"
  obtains i where "findIndex (\<lambda>t. t_id t = tid) (tickets s) = Some i"
    and "i < length (tickets s)" and "t_id (tickets s ! i) = tid"
    and "t' = apply_patch clk s b (tickets s ! i)"
    and "tickets s' = (tickets s)[i := t']" and "comments s' = comments s"
    and "reads s' = reads s + (if resolves b then 3 else 2)"
proof -
  obtain i where i: "findIndex (\<lambda>t. t_id t = tid) (tickets s) = Some i"
    using assms by (auto simp: patch_ticket_def split: option.splits)
  with findIndex_Some [OF i] assms show ?thesis
    by (intro that [of i]) (auto simp: patch_ticket_def Let_def)
qed

lemma store_map_update:
  assumes "distinct (map t_id ts)" and "i < length ts" and "t_id t' = t_id (ts ! i)"
  shows "store_map (ts[i := t']) = (store_map ts)(t_id t' \<mapsto> t')"
proof -
  have "map (\<lambda>t. (t_id t, t)) (ts[i := t']) = (map (\<lambda>t. (t_id t, t)) ts)[i := (t_id t', t')]"
    by (simp add: map_update)
  moreover have "distinct (map fst (map (\<lambda>t. (t_id t, t)) ts))"
    using assms(1) by (simp add: comp_def)
  ultimately show ?thesis
    using assms(2,3) by (simp add: store_map_def map_of_list_update_distinct)
qed

lemma store_map_lookup:
  assumes "distinct (map t_id ts)" and "i < length ts"
  shows "store_map ts (t_id (ts ! i)) = Some (ts ! i)"
  using assms by (simp add: store_map_def comp_def)

lemma create_ticket_new:
  assumes "create_ticket clk b s = (t, s')"
  shows "t_id t = ticket_id_of (length (tickets s)) \<and> t_createdAt t = clk (reads s) \<and>
         t_updatedAt t = clk (reads s + 1) \<and> t_resolvedAt t = None \<and>
         t_status t = (if truthy (cr_agentId b) then IN_PROGRESS else OPEN) \<and>
         h_action (hd (t_history t)) = ''Ticket creado'' \<and>
         map h_timestamp (t_history t) =
           clk (reads s + 2) # (if truthy (cr_agentId b) then [clk (reads s + 3)] else [])"
  using assms by (auto simp: create_ticket_def new_ticket_def Let_def)

lemma ticket_id_of_inj: "ticket_id_of m = ticket_id_of n \<longleftrightarrow> m = n"
  by (simp add: ticket_id_of_def dec_inj)

text \<open>(C1) Creating a ticket with a truthy \<open>agentId\<close> gives status \<open>En Proceso\<close> and a two-entry history; without one, status \<open>Abierto\<close> and a one-entry history; the first entry is always the creation entry.\<close>

theorem create_ticket_assignment:
  assumes "create_ticket clk b s = (t, s')"
  shows "t_status t = (if truthy (cr_agentId b) then IN_PROGRESS else OPEN) \<and>
         length (t_history t) = (if truthy (cr_agentId b) then 2 else 1) \<and>
         h_action (hd (t_history t)) = ''Ticket creado''"
  using assms by (auto simp: create_ticket_def new_ticket_def Let_def)

theorem create_ticket_assignment_witness:
  "let b = \<lparr>cr_title = Some ''VPN'', cr_description = None, cr_priority = Some LOW,
            cr_category = None, cr_creatorId = Some ''u5'', cr_creatorName = Some ''Usuario 5'',
            cr_creatorEmail = None, cr_creatorDept = None, cr_agentId = Some ''a1'',
            cr_agentName = Some ''Agente IT 1'', cr_station = None, cr_area = None\<rparr>;
       t = fst (create_ticket (\<lambda>n. n) b (init_server (\<lambda>n. n)))
   in t_status t = IN_PROGRESS \<and> length (t_history t) = 2 \<and> h_action (hd (t_history t)) = ''Ticket creado''"
  unfolding Let_def
  using create_ticket_assignment [OF surjective_pairing] by simp

text \<open>(C2) The three-branch role check of \<open>GET /api/tickets\<close> implements the visibility policy: the response is the store filtered by what the role read from the query may see, in insertion order.\<close>

theorem list_tickets_policy:
  "list_tickets uid role s = filter (may_see (query_role role) uid) (tickets s)"
  by (auto simp: list_tickets_def query_role_def intro: filter_cong)

text \<open>Listing after a create returns the previous listing followed by the new ticket exactly when the caller may see it: creation never reorders or hides earlier results.\<close>

theorem list_tickets_create:
  assumes "create_ticket clk b s = (t, s')"
  shows "list_tickets uid role s' =
           list_tickets uid role s @ (if may_see (query_role role) uid t then [t] else [])"
  using assms create_ticket_state [OF assms]
  by (auto simp: list_tickets_def query_role_def)

theorem list_tickets_create_witness:
  "let b = \<lparr>cr_title = Some ''Impresora'', cr_description = None, cr_priority = Some MEDIUM,
            cr_category = Some ''Impresoras'', cr_creatorId = Some ''u5'', cr_creatorName = Some ''Usuario 5'',
            cr_creatorEmail = None, cr_creatorDept = None, cr_agentId = None,
            cr_agentName = None, cr_station = None, cr_area = None\<rparr>;
       c = create_ticket (\<lambda>n. n) b (init_server (\<lambda>n. n))
   in list_tickets (Some ''u5'') (Some ''user'') (snd c) = [fst c]"
proof -
  let ?b = "\<lparr>cr_title = Some ''Impresora'', cr_description = None, cr_priority = Some MEDIUM,
            cr_category = Some ''Impresoras'', cr_creatorId = Some ''u5'', cr_creatorName = Some ''Usuario 5'',
            cr_creatorEmail = None, cr_creatorDept = None, cr_agentId = None,
            cr_agentName = None, cr_station = None, cr_area = None\<rparr>"
  let ?c = "create_ticket (\<lambda>n. n) ?b (init_server (\<lambda>n. n))"
  from list_tickets_create [where clk = "\<lambda>n. n" and b = ?b and s = "init_server (\<lambda>n. n)"
      and uid = "Some ''u5''" and role = "Some ''user''", OF surjective_pairing]
  show ?thesis
    by (simp add: Let_def list_tickets_def init_server_def seed_ticket_def query_role_def
                  create_ticket_def new_ticket_def)
qed

text \<open>(C3) A successful \<open>PATCH\<close> appends exactly one entry to the history of the ticket found by id, carrying the computed action, the caller identity and the second clock read of the request: the history is append-only.\<close>

theorem patch_ticket_history:
  assumes "patch_ticket clk tid b s = Inr (t', s')"
  shows "\<exists>i < length (tickets s). t_id (tickets s ! i) = tid \<and> tickets s' ! i = t' \<and>
           t_history t' = t_history (tickets s ! i) @
             [\<lparr>h_action = patch_action (t_status (tickets s ! i)) b, h_userId = p_userId b,
               h_userName = p_userName b, h_timestamp = clk (reads s + 1)\<rparr>]"
proof -
  from assms obtain i where "i < length (tickets s)" "t_id (tickets s ! i) = tid"
      "t' = apply_patch clk s b (tickets s ! i)" "tickets s' = (tickets s)[i := t']"
    by (rule patch_ticket_Inr)
  then show ?thesis by auto
qed

theorem patch_ticket_history_witness:
  "let b = \<lparr>p_status = None, p_agentId = None, p_agentName = None, p_priority = Some LOW,
            p_userId = Some ''admin1'', p_userName = Some ''Administrador 1''\<rparr>;
       r = patch_ticket (\<lambda>n. n) ''T-1001'' b (init_server (\<lambda>n. n))
   in r = Inr (fst (projr r), snd (projr r)) \<and>
      map h_action (t_history (fst (projr r))) = [''Ticket creado'', ''Ticket actualizado'']"
proof -
  let ?b = "\<lparr>p_status = None, p_agentId = None, p_agentName = None, p_priority = Some LOW,
            p_userId = Some ''admin1'', p_userName = Some ''Administrador 1''\<rparr>"
  let ?r = "patch_ticket (\<lambda>n. n) ''T-1001'' ?b (init_server (\<lambda>n. n))"
  have eq: "?r = Inr (fst (projr ?r), snd (projr ?r))"
    by (simp add: patch_ticket_def init_server_def seed_ticket_def Let_def)
  from patch_ticket_history [OF eq] obtain i where
    "i < length (tickets (init_server (\<lambda>n. n)))" and
    h: "t_history (fst (projr ?r)) = t_history (tickets (init_server (\<lambda>n. n)) ! i) @
         [\<lparr>h_action = patch_action (t_status (tickets (init_server (\<lambda>n. n)) ! i)) ?b,
           h_userId = p_userId ?b, h_userName = p_userName ?b, h_timestamp = 4\<rparr>]"
    by (auto simp: init_server_def)
  then have "i = 0" by (simp add: init_server_def)
  with h eq show ?thesis
    by (simp add: init_server_def seed_ticket_def patch_action_def Let_def)
qed

text \<open>(C4) When one \<open>PATCH\<close> both changes the status and assigns an agent, the status is changed but the single history entry only records the assignment: the status change is not logged.\<close>

theorem patch_status_and_assign_one_entry:
  assumes "patch_ticket clk tid b s = Inr (t', s')"
    and "findIndex (\<lambda>t. t_id t = tid) (tickets s) = Some i"
    and "p_status b = Some st" and "st \<noteq> t_status (tickets s ! i)" and "truthy (p_agentId b)"
  shows "t_history t' = t_history (tickets s ! i) @
           [\<lparr>h_action = ''Asignado a '' @ js_show (p_agentName b), h_userId = p_userId b,
             h_userName = p_userName b, h_timestamp = clk (reads s + 1)\<rparr>] \<and> t_status t' = st"
proof -
  from assms(1) obtain j where "findIndex (\<lambda>t. t_id t = tid) (tickets s) = Some j"
      and t': "t' = apply_patch clk s b (tickets s ! j)"
    by (rule patch_ticket_Inr)
  with assms(2) have "t' = apply_patch clk s b (tickets s ! i)" by simp
  with assms(3,5) show ?thesis by (simp add: patch_action_def)
qed

theorem patch_status_and_assign_one_entry_witness:
  "let b = \<lparr>p_status = Some RESOLVED, p_agentId = Some ''a2'', p_agentName = Some ''Agente IT 2'',
            p_priority = None, p_userId = Some ''a2'', p_userName = Some ''Agente IT 2''\<rparr>;
       r = patch_ticket (\<lambda>n. n) ''T-1001'' b (init_server (\<lambda>n. n))
   in r = Inr (fst (projr r), snd (projr r)) \<and> t_status (fst (projr r)) = RESOLVED \<and>
      map h_action (t_history (fst (projr r))) = [''Ticket creado'', ''Asignado a Agente IT 2'']"
proof -
  let ?b = "\<lparr>p_status = Some RESOLVED, p_agentId = Some ''a2'', p_agentName = Some ''Agente IT 2'',
            p_priority = None, p_userId = Some ''a2'', p_userName = Some ''Agente IT 2''\<rparr>"
  let ?s = "init_server (\<lambda>n. n)"
  let ?r = "patch_ticket (\<lambda>n. n) ''T-1001'' ?b ?s"
  have eq: "?r = Inr (fst (projr ?r), snd (projr ?r))"
    by (simp add: patch_ticket_def init_server_def seed_ticket_def Let_def)
  have fi: "findIndex (\<lambda>t. t_id t = ''T-1001'') (tickets ?s) = Some 0"
    by (simp add: init_server_def seed_ticket_def)
  have ne: "RESOLVED \<noteq> t_status (tickets ?s ! 0)"
    by (simp add: init_server_def seed_ticket_def)
  from patch_status_and_assign_one_entry [OF eq fi _ ne] eq show ?thesis
    by (simp add: init_server_def seed_ticket_def Let_def)
qed

text \<open>(C5) Every \<open>PATCH\<close> requesting \<open>Resuelto\<close> or \<open>Cerrado\<close> overwrites \<open>resolvedAt\<close> with the third clock read of that request, whatever it held before.\<close>

theorem patch_ticket_resolvedAt:
  assumes "patch_ticket clk tid b s = Inr (t', s')" and "resolves b"
  shows "t_resolvedAt t' = Some (clk (reads s + 2)) \<and> reads s' = reads s + 3"
proof -
  from assms(1) obtain i where "t' = apply_patch clk s b (tickets s ! i)"
      "reads s' = reads s + (if resolves b then 3 else 2)"
    by (rule patch_ticket_Inr)
  with assms(2) show ?thesis by simp
qed

theorem patch_ticket_resolvedAt_witness:
  "let b = \<lparr>p_status = Some RESOLVED, p_agentId = None, p_agentName = None, p_priority = None,
            p_userId = Some ''a1'', p_userName = Some ''Agente IT 1''\<rparr>;
       r = patch_ticket (\<lambda>n. n) ''T-1001'' b (init_server (\<lambda>n. n))
   in resolves b \<and> r = Inr (fst (projr r), snd (projr r)) \<and> t_resolvedAt (fst (projr r)) = Some 5"
proof -
  let ?b = "\<lparr>p_status = Some RESOLVED, p_agentId = None, p_agentName = None, p_priority = None,
            p_userId = Some ''a1'', p_userName = Some ''Agente IT 1''\<rparr>"
  let ?r = "patch_ticket (\<lambda>n. n) ''T-1001'' ?b (init_server (\<lambda>n. n))"
  have res: "resolves ?b" by (simp add: resolves_def)
  have eq: "?r = Inr (fst (projr ?r), snd (projr ?r))"
    by (simp add: patch_ticket_def init_server_def seed_ticket_def Let_def)
  have "t_resolvedAt (fst (projr ?r)) = Some ((\<lambda>n. n) (reads (init_server (\<lambda>n. n)) + 2))"
    using patch_ticket_resolvedAt [OF eq res] by simp
  with res eq show ?thesis by (simp add: init_server_def Let_def)
qed

subsection \<open>Statistics\<close>

text \<open>(C27) The open, in-progress and resolved-or-closed counts of \<open>GET /api/stats\<close> fall short of the total by exactly the tickets that are waiting or escalated: those two statuses are counted in no bucket.\<close>

theorem stats_status_bound:
  "st_open (get_stats ts) + st_inProgress (get_stats ts) + st_resolved (get_stats ts) +
   length (filter (\<lambda>t. t_status t = WAITING \<or> t_status t = ESCALATED) ts) = st_total (get_stats ts)"
proof -
  let ?P = "\<lambda>t. t_status t = OPEN" and ?Q = "\<lambda>t. t_status t = IN_PROGRESS"
    and ?R = "\<lambda>t. t_status t = RESOLVED \<or> t_status t = CLOSED"
    and ?W = "\<lambda>t. t_status t = WAITING \<or> t_status t = ESCALATED"
  have all: "length (filter (\<lambda>t. ((?P t \<or> ?Q t) \<or> ?R t) \<or> ?W t) ts) = length ts"
    by (rule arg_cong [where f = length], rule filter_True) (auto intro: ticket_status.exhaust)
  have pqrw: "length (filter (\<lambda>t. ((?P t \<or> ?Q t) \<or> ?R t) \<or> ?W t) ts) =
        length (filter (\<lambda>t. (?P t \<or> ?Q t) \<or> ?R t) ts) + length (filter ?W ts)"
    by (rule length_filter_disj) auto
  have pqr: "length (filter (\<lambda>t. (?P t \<or> ?Q t) \<or> ?R t) ts) =
        length (filter (\<lambda>t. ?P t \<or> ?Q t) ts) + length (filter ?R ts)"
    by (rule length_filter_disj) auto
  have pq: "length (filter (\<lambda>t. ?P t \<or> ?Q t) ts) = length (filter ?P ts) + length (filter ?Q ts)"
    by (rule length_filter_disj) auto
  from all pqrw pqr pq show ?thesis by (simp add: get_stats_def)
qed

text \<open>The per-priority counts of \<open>GET /api/stats\<close> add up to the number of tickets that carry a priority.\<close>

theorem stats_priority_sum:
  "(\<Sum>p \<leftarrow> enum_class.enum. st_byPriority (get_stats ts) p) = length (filter (\<lambda>t. t_priority t \<noteq> None) ts)"
proof (induction ts)
  case Nil
  then show ?case by (simp add: get_stats_def enum_ticket_priority_def)
next
  case (Cons t ts)
  show ?case
  proof (cases "t_priority t")
    case None
    with Cons.IH show ?thesis by (simp add: get_stats_def enum_ticket_priority_def)
  next
    case (Some p)
    with Cons.IH show ?thesis by (cases p) (simp_all add: get_stats_def enum_ticket_priority_def)
  qed
qed

subsection \<open>Refinement of the keyed store\<close>

text \<open>(C6) On a store whose ids are distinct, \<open>PATCH\<close> on the array implements the patch on the map keyed by id: 404 exactly when the id is absent, otherwise the map updated at that id with the patched ticket.\<close>

theorem patch_ticket_refines_store:
  assumes "distinct (map t_id (tickets s))"
  shows "(case patch_ticket clk tid b s of Inl _ \<Rightarrow> None | Inr (t', s') \<Rightarrow> Some (store_map (tickets s')))
         = abs_patch clk s tid b (store_map (tickets s))"
proof (cases "findIndex (\<lambda>t. t_id t = tid) (tickets s)")
  case None
  then have "store_map (tickets s) tid = None"
    by (auto simp: findIndex_None store_map_def map_of_eq_None_iff)
  with None show ?thesis by (simp add: patch_ticket_def abs_patch_def)
next
  case (Some i)
  from findIndex_Some [OF Some] have i: "i < length (tickets s)" and id: "t_id (tickets s ! i) = tid"
    by blast+
  let ?t' = "apply_patch clk s b (tickets s ! i)"
  have "store_map ((tickets s)[i := ?t']) = (store_map (tickets s))(tid \<mapsto> ?t')"
    using store_map_update [OF assms i] id by simp
  moreover have "store_map (tickets s) tid = Some (tickets s ! i)"
    using store_map_lookup [OF assms i] id by simp
  ultimately show ?thesis
    using Some by (simp add: patch_ticket_def abs_patch_def Let_def)
qed

theorem patch_ticket_refines_store_witness:
  "let s = init_server (\<lambda>n. n);
       b = \<lparr>p_status = Some CLOSED, p_agentId = None, p_agentName = None, p_priority = None,
            p_userId = None, p_userName = None\<rparr>
   in distinct (map t_id (tickets s)) \<and>
      (case patch_ticket (\<lambda>n. n) ''T-1001'' b s of Inl _ \<Rightarrow> None | Inr (t', s') \<Rightarrow> Some (store_map (tickets s')))
      = abs_patch (\<lambda>n. n) s ''T-1001'' b (store_map (tickets s))"
proof -
  have d: "distinct (map t_id (tickets (init_server (\<lambda>n. n))))"
    by (simp add: init_server_def)
  from d patch_ticket_refines_store [OF d] show ?thesis by (simp add: Let_def)
qed

text \<open>Reading the byPriority object of the statistics response by the key of a priority gives that priority's count: the four keys are distinct.\<close>

theorem priority_json_lookup: "map_of (priority_json st) (priority_str p) = Some (st_byPriority st p)"
  by (cases p) (simp_all add: priority_json_def)

end
