(* ===== verification/Users.thy ===== *)
theory Users
  imports Data_Model
begin

text \<open>
  The user directory of \<open>src/server.ts\<close>: the object \<open>MOCK_USERS\<close>, filled by
  three \<open>for\<close> loops of property assignments, and the two handlers that read
  it, \<open>POST /api/auth/login\<close> (\<open>login\<close>) and \<open>GET /api/agents\<close>
  (\<open>get_agents\<close>). A plain JavaScript object is an association list in
  insertion order (no key of it is an array index) whose lookups fall back to
  \<open>Object.prototype\<close>; both behaviours are modelled, since the handlers
  depend on them.
\<close>

section \<open>Plain objects\<close>

text \<open>\<open>obj[k] = v\<close>: overwrite in place when the key is present, append
  otherwise (insertion order is what \<open>Object.values\<close> returns).\<close>

definition obj_set :: "string \<Rightarrow> 'v \<Rightarrow> (string \<times> 'v) list \<Rightarrow> (string \<times> 'v) list" where
  "obj_set k v obj =
    (if k \<in> set (map fst obj) then map (\<lambda>(k', v'). if k' = k then (k, v) else (k', v')) obj
     else obj @ [(k, v)])"

text \<open>The properties every object literal \<open>{}\<close> inherits from
  \<open>Object.prototype\<close>; each is truthy (a function, or the prototype object).\<close>

definition object_prototype_keys :: "string list" where
  "object_prototype_keys =
    [''constructor'', ''__defineGetter__'', ''__defineSetter__'', ''hasOwnProperty'',
     ''__lookupGetter__'', ''__lookupSetter__'', ''isPrototypeOf'', ''propertyIsEnumerable'',
     ''toString'', ''valueOf'', ''__proto__'', ''toLocaleString'']"

datatype 'v js_prop = Own 'v | Inherited | Undefined

text \<open>\<open>obj[k]\<close>: an own property, else an inherited one, else \<open>undefined\<close>.\<close>

definition obj_get :: "(string \<times> 'v) list \<Rightarrow> string \<Rightarrow> 'v js_prop" where
  "obj_get obj k =
    (case map_of obj k of
       Some v \<Rightarrow> Own v
     | None \<Rightarrow> if k \<in> set object_prototype_keys then Inherited else Undefined)"

section \<open>The seeded accounts\<close>

definition mk_user :: "nat \<Rightarrow> mock_user" where
  "mk_user i =
    \<lparr>u_id = ''u'' @ dec i, u_username = ''user'' @ dec i, u_fullName = ''Usuario '' @ dec i,
     u_role = USER, u_department = (if i mod 2 = 0 then ''Ventas'' else ''Marketing''),
     u_email = ''user'' @ dec i @ ''@enterprise.com'', u_password = ''password123''\<rparr>"

definition mk_agent :: "nat \<Rightarrow> mock_user" where
  "mk_agent i =
    \<lparr>u_id = ''a'' @ dec i, u_username = ''agente'' @ dec i, u_fullName = ''Agente IT '' @ dec i,
     u_role = AGENT, u_department = ''IT Support'',
     u_email = ''agente'' @ dec i @ ''@enterprise.com'', u_password = ''password123''\<rparr>"

definition mk_admin :: "nat \<Rightarrow> mock_user" where
  "mk_admin i =
    \<lparr>u_id = ''admin'' @ dec i, u_username = ''admin'' @ dec i,
     u_fullName = ''Administrador '' @ dec i, u_role = ADMIN, u_department = ''IT Management'',
     u_email = ''admin'' @ dec i @ ''@enterprise.com'', u_password = ''password123''\<rparr>"

text \<open>The three loops \<open>for (let i = 1; i <= n; i++) MOCK_USERS[key] = ...\<close>,
  run in order on the empty object.\<close>

definition MOCK_USERS :: "(string \<times> mock_user) list" where
  "MOCK_USERS =
    for_upto 1 3 (\<lambda>i obj. obj_set (''admin'' @ dec i) (mk_admin i) obj)
     (for_upto 1 4 (\<lambda>i obj. obj_set (''agente'' @ dec i) (mk_agent i) obj)
       (for_upto 1 20 (\<lambda>i obj. obj_set (''user'' @ dec i) (mk_user i) obj) []))"

section \<open>Handlers\<close>

text \<open>The body of a successful login: the account without its password, or,
  for an inherited property, the empty object that the rest pattern
  \<open>{ password: _, ...rest }\<close> makes of a function.\<close>

datatype login_body = LoggedIn user | EmptyObject

text \<open>\<open>POST /api/auth/login\<close>. The property key is the string the body's
  \<open>username\<close> converts to (\<open>undefined\<close> becomes \<open>''undefined''\<close>).\<close>

definition login :: "jstr \<Rightarrow> api_error + login_body" where
  "login username =
    (case obj_get MOCK_USERS (js_show username) of
       Own u \<Rightarrow> Inr (LoggedIn (user.truncate u))
     | Inherited \<Rightarrow> Inr EmptyObject
     | Undefined \<Rightarrow> Inl Unauthorized)"

text \<open>\<open>GET /api/agents\<close>: \<open>Object.values(MOCK_USERS).filter(...)\<close>, sent as is.\<close>

definition get_agents :: "mock_user list" where
  "get_agents = filter (\<lambda>u. u_role u = AGENT) (map snd MOCK_USERS)"

section \<open>Properties\<close>

subsection \<open>The directory as the loops build it\<close>

lemma obj_set_fresh: "k \<notin> set (map fst obj) \<Longrightarrow> obj_set k v obj = obj @ [(k, v)]"
  by (simp add: obj_set_def)

lemma fold_obj_set_fresh:
  "distinct (map fst obj @ map f xs) \<Longrightarrow>
   fold (\<lambda>i obj. obj_set (f i) (g i) obj) xs obj = obj @ map (\<lambda>i. (f i, g i)) xs"
proof (induction xs arbitrary: obj)
  case Nil
  then show ?case by simp
next
  case (Cons x xs)
  then have "f x \<notin> set (map fst obj)" and "distinct (map fst (obj @ [(f x, g x)]) @ map f xs)"
    by auto
  with Cons.IH show ?case by (simp add: obj_set_fresh)
qed

lemma prefix_dec_inj: "inj (\<lambda>i. p @ dec i)"
  by (rule injI) (simp add: dec_inj)

lemma distinct_prefix_dec: "distinct xs \<Longrightarrow> distinct (map (\<lambda>i. p @ dec i) xs)"
  using prefix_dec_inj [of p] by (simp add: distinct_map inj_on_def)

lemma map_fst_pairs: "map fst (map (\<lambda>i. (f i, g i)) xs) = map f xs"
  by simp

lemma MOCK_USERS_fold:
  "MOCK_USERS =
    fold (\<lambda>i obj. obj_set (''admin'' @ dec i) (mk_admin i) obj) [1..<4]
     (fold (\<lambda>i obj. obj_set (''agente'' @ dec i) (mk_agent i) obj) [1..<5]
       (fold (\<lambda>i obj. obj_set (''user'' @ dec i) (mk_user i) obj) [1..<21] []))"
proof -
  have "Suc 3 = 4" "Suc 4 = 5" "Suc 20 = 21" by simp_all
  then show ?thesis by (simp only: MOCK_USERS_def for_upto_fold)
qed

lemma mock_keys_distinct:
  "distinct (map (\<lambda>i. ''user'' @ dec i) [1..<21] @ map (\<lambda>i. ''agente'' @ dec i) [1..<5] @
             map (\<lambda>i. ''admin'' @ dec i) [1..<4])"
proof -
  have d: "distinct (map (\<lambda>i. p @ dec i) [a..<b])" for p a b
    by (rule distinct_prefix_dec) simp
  have disj1: "set (map (\<lambda>i. ''user'' @ dec i) [1..<21]) \<inter>
      set (map (\<lambda>i. ''agente'' @ dec i) [1..<5] @ map (\<lambda>i. ''admin'' @ dec i) [1..<4]) = {}"
    by (auto simp del: upt_Suc)
  have disj2: "set (map (\<lambda>i. ''agente'' @ dec i) [1..<5]) \<inter> set (map (\<lambda>i. ''admin'' @ dec i) [1..<4]) = {}"
    by (auto simp del: upt_Suc)
  show ?thesis
    unfolding distinct_append using d disj1 disj2 by blast
qed

lemma MOCK_USERS_enum:
  "MOCK_USERS = map (\<lambda>i. (''user'' @ dec i, mk_user i)) [1..<21] @
                map (\<lambda>i. (''agente'' @ dec i, mk_agent i)) [1..<5] @
                map (\<lambda>i. (''admin'' @ dec i, mk_admin i)) [1..<4]"
proof -
  let ?U = "map (\<lambda>i. (''user'' @ dec i, mk_user i)) [1..<21]"
    and ?A = "map (\<lambda>i. (''agente'' @ dec i, mk_agent i)) [1..<5]"
    and ?D = "map (\<lambda>i. (''admin'' @ dec i, mk_admin i)) [1..<4]"
  have d: "distinct (map fst (?U @ ?A) @ map (\<lambda>i. ''admin'' @ dec i) [1..<4])"
    using mock_keys_distinct by (simp only: map_append map_fst_pairs append_assoc)
  then have d2: "distinct (map fst ?U @ map (\<lambda>i. ''agente'' @ dec i) [1..<5])"
    by (simp only: map_append map_fst_pairs distinct_append)
  then have d1: "distinct (map fst ([] :: (string \<times> mock_user) list) @ map (\<lambda>i. ''user'' @ dec i) [1..<21])"
    by (simp only: map_fst_pairs distinct_append list.map append_Nil)
  show ?thesis
    unfolding MOCK_USERS_fold
    by (simp only: fold_obj_set_fresh [OF d1] append_Nil fold_obj_set_fresh [OF d2]
                   fold_obj_set_fresh [OF d] append_assoc)
qed

lemma MOCK_USERS_keys_distinct: "distinct (map fst MOCK_USERS)"
  using mock_keys_distinct by (simp only: MOCK_USERS_enum map_append map_fst_pairs)

lemma get_agents_enum: "get_agents = map mk_agent [1..<5]"
  by (simp add: get_agents_def MOCK_USERS_enum comp_def mk_user_def mk_agent_def mk_admin_def
           del: upt_Suc)

lemma prototype_keys_not_accounts: "k \<in> set object_prototype_keys \<Longrightarrow> k \<notin> set (map fst MOCK_USERS)"
  by (auto simp: object_prototype_keys_def MOCK_USERS_enum simp del: upt_Suc)

lemma login_own: "map_of MOCK_USERS k = Some u \<Longrightarrow> login (Some k) = Inr (LoggedIn (user.truncate u))"
  by (simp add: login_def obj_get_def)

lemma login_inherited:
  assumes "k \<in> set object_prototype_keys"
  shows "login (Some k) = Inr EmptyObject"
proof -
  from prototype_keys_not_accounts [OF assms] have "map_of MOCK_USERS k = None"
    by (simp add: map_of_eq_None_iff image_iff)
  with assms show ?thesis by (simp add: login_def obj_get_def)
qed

subsection \<open>Handlers\<close>

text \<open>(C19) Login with the user name of any seeded account succeeds with that account minus its password.\<close>

theorem login_seeded:
  assumes "(k, u) \<in> set MOCK_USERS"
  shows "login (Some k) = Inr (LoggedIn (user.truncate u))"
  using map_of_is_SomeI [OF MOCK_USERS_keys_distinct assms] by (rule login_own)

theorem login_seeded_witness:
  "login (Some ''agente1'') = Inr (LoggedIn \<lparr>u_id = ''a1'', u_username = ''agente1'',
     u_fullName = ''Agente IT 1'', u_role = AGENT, u_department = ''IT Support'',
     u_email = ''agente1@enterprise.com''\<rparr>)"
proof -
  have m: "(''agente'' @ dec 1, mk_agent 1) \<in> set MOCK_USERS"
    unfolding MOCK_USERS_enum set_append set_map by (intro UnI2 UnI1 imageI) simp
  have k: "''agente'' @ dec 1 = ''agente1''" by (simp add: digit_char_def)
  show ?thesis
    using login_seeded [OF m] k by (simp add: mk_agent_def digit_char_def user.truncate_def)
qed

text \<open>(C20) Login with a name that is neither a seeded account nor a property of \<open>Object.prototype\<close> fails with 401.\<close>

theorem login_unknown:
  assumes "k \<notin> set (map fst MOCK_USERS)" and "k \<notin> set object_prototype_keys"
  shows "login (Some k) = Inl Unauthorized"
proof -
  from assms(1) have "map_of MOCK_USERS k = None"
    by (simp add: map_of_eq_None_iff image_iff)
  with assms(2) show ?thesis by (simp add: login_def obj_get_def)
qed

theorem login_unknown_witness: "login (Some ''user21'') = Inl Unauthorized"
proof (rule login_unknown)
  have k: "''user21'' = ''user'' @ dec 21" by (simp add: dec_large digit_char_def)
  have "''user'' @ dec 21 \<notin> set (map fst MOCK_USERS)"
    by (auto simp: MOCK_USERS_enum dec_inj simp del: upt_Suc)
  with k show "''user21'' \<notin> set (map fst MOCK_USERS)" by simp
  show "''user21'' \<notin> set object_prototype_keys"
    by (simp add: object_prototype_keys_def)
qed

end
