(* ===== verification/Comments.thy ===== *)
theory Comments
  imports Data_Model
begin

text \<open>
  The comment store of \<open>src/server.ts\<close>: \<open>GET /api/tickets/:id/comments\<close>
  (\<open>list_comments\<close>) and \<open>POST /api/tickets/:id/comments\<close>
  (\<open>add_comment\<close>). The id of a new comment,
  \<open>Math.random().toString(36).substr(2, 9)\<close>, is chosen by the environment
  and passed in as \<open>rnd\<close>; the handler checks neither that id nor the ticket id.
\<close>

section \<open>Operations\<close>

text \<open>The fields \<open>POST /api/tickets/:id/comments\<close> destructures from \<open>req.body\<close>.\<close>

record comment_req =
  cm_userId :: jstr
  cm_userName :: jstr
  cm_text :: jstr

definition list_comments :: "string \<Rightarrow> server \<Rightarrow> comment list" where
  "list_comments tid s = filter (\<lambda>c. c_ticketId c = tid) (comments s)"

text \<open>One clock read (\<open>createdAt\<close>), then \<open>comments.push\<close>.\<close>

definition add_comment :: "clock \<Rightarrow> string \<Rightarrow> string \<Rightarrow> comment_req \<Rightarrow> server \<Rightarrow> comment \<times> server" where
  "add_comment clk rnd tid b s =
    (let c = \<lparr>c_id = rnd, c_ticketId = tid, c_userId = cm_userId b, c_userName = cm_userName b,
              c_text = cm_text b, c_createdAt = now clk s 0\<rparr>
     in (c, s\<lparr>comments := comments s @ [c], reads := reads s + 1\<rparr>))"

section \<open>Properties\<close>

lemma add_comment_state:
  assumes "add_comment clk rnd tid b s = (c, s')"
  shows "comments s' = comments s @ [c] \<and> tickets s' = tickets s \<and> reads s' = Suc (reads s) \<and>
         c_ticketId c = tid \<and> c_createdAt c = clk (reads s)"
  using assms by (auto simp: add_comment_def Let_def)

text \<open>(C28) Adding a comment to a ticket id appends it to the listing of that id and leaves every other listing and the ticket store unchanged; the ticket id is not checked.\<close>

theorem add_comment_list:
  assumes "add_comment clk rnd tid b s = (c, s')"
  shows "list_comments tid' s' = list_comments tid' s @ (if tid' = tid then [c] else []) \<and>
         tickets s' = tickets s"
  using add_comment_state [OF assms] by (simp add: list_comments_def)

theorem add_comment_list_witness:
  "let b = \<lparr>cm_userId = Some ''u1'', cm_userName = Some ''Usuario 1'', cm_text = Some ''Sigue sin VPN''\<rparr>;
       r = add_comment (\<lambda>n. n) ''k3x9a1'' ''T-1001'' b (init_server (\<lambda>n. n))
   in list_comments ''T-1001'' (snd r) = [fst r] \<and> list_comments ''T-1002'' (snd r) = []"
  using add_comment_list [OF surjective_pairing] by (simp add: Let_def init_server_def list_comments_def)

end
