(* ===== verification/Api.thy ===== *)
theory Api
  imports Tickets Users Comments
begin

text \<open>
  The request dispatch layer of \<open>src/server.ts\<close>: the eight routes as a
  datatype of requests, \<open>handle\<close> mapping a request and the server state to a
  status code, a JSON body and the next state, \<open>run\<close> for a sequence of
  requests handled one after the other (Node's single-threaded event loop runs
  each synchronous handler to completion), and the states reachable from the
  module's initial state. The invariants of the ticket store (sequential ids,
  creation entry first, \<open>resolvedAt\<close> set on resolved tickets, ordered
  timestamps under a monotone clock) are proved over every reachable state by
  rule induction.
\<close>

section \<open>Requests and responses\<close>

datatype api_request =
    Login jstr
  | GetAgents
  | GetTickets jstr jstr
  | PostTicket create_req
  | PatchTicket string patch_req
  | GetComments string
  | PostComment string comment_req string
  | GetStats

datatype json =
    JUser user
  | JEmptyObject
  | JAgents "mock_user list"
  | JTickets "ticket list"
  | JTicket ticket
  | JComments "comment list"
  | JComment comment
  | JStats stats
  | JMessage string

type_synonym response = "nat \<times> json"

text \<open>An error of a handler, sent as \<open>res.status(code).json({ message })\<close>.\<close>

definition error_response :: "api_error \<Rightarrow> response" where
  "error_response e = (error_status e, JMessage (error_message e))"

fun handle :: "clock \<Rightarrow> api_request \<Rightarrow> server \<Rightarrow> response \<times> server" where
  "handle clk (Login u) s =
    (case login u of
       Inr (LoggedIn usr) \<Rightarrow> ((200, JUser usr), s)
     | Inr EmptyObject \<Rightarrow> ((200, JEmptyObject), s)
     | Inl e \<Rightarrow> (error_response e, s))"
| "handle clk GetAgents s = ((200, JAgents get_agents), s)"
| "handle clk (GetTickets uid role) s = ((200, JTickets (list_tickets uid role s)), s)"
| "handle clk (PostTicket b) s = (case create_ticket clk b s of (t, s') \<Rightarrow> ((201, JTicket t), s'))"
| "handle clk (PatchTicket tid b) s =
    (case patch_ticket clk tid b s of
       Inl e \<Rightarrow> (error_response e, s)
     | Inr (t, s') \<Rightarrow> ((200, JTicket t), s'))"
| "handle clk (GetComments tid) s = ((200, JComments (list_comments tid s)), s)"
| "handle clk (PostComment tid b rnd) s =
    (case add_comment clk rnd tid b s of (c, s') \<Rightarrow> ((201, JComment c), s'))"
| "handle clk GetStats s = ((200, JStats (get_stats (tickets s))), s)"

text \<open>Requests handled in sequence, collecting the responses.\<close>

fun run :: "clock \<Rightarrow> api_request list \<Rightarrow> server \<Rightarrow> response list \<times> server" where
  "run clk [] s = ([], s)"
| "run clk (r # rs) s =
    (case handle clk r s of (resp, s') \<Rightarrow> (case run clk rs s' of (resps, s'') \<Rightarrow> (resp # resps, s'')))"

inductive reachable :: "clock \<Rightarrow> server \<Rightarrow> bool" for clk where
  init: "reachable clk (init_server clk)"
| step: "reachable clk s \<Longrightarrow> handle clk r s = (resp, s') \<Longrightarrow> reachable clk s'"

section \<open>Invariants\<close>

text \<open>Ticket \<open>i\<close> of the array has id \<open>T-(1001 + i)\<close>.\<close>

definition ids_inv :: "server \<Rightarrow> bool" where
  "ids_inv s \<longleftrightarrow> map t_id (tickets s) = map ticket_id_of [0..<length (tickets s)]"

definition hist_inv :: "server \<Rightarrow> bool" where
  "hist_inv s \<longleftrightarrow> list_all (\<lambda>t. t_history t \<noteq> [] \<and> h_action (hd (t_history t)) = ''Ticket creado'') (tickets s)"

definition resolved_inv :: "server \<Rightarrow> bool" where
  "resolved_inv s \<longleftrightarrow>
     list_all (\<lambda>t. (t_status t = RESOLVED \<or> t_status t = CLOSED) \<longrightarrow> t_resolvedAt t \<noteq> None) (tickets s)"

text \<open>Every timestamp a ticket holds.\<close>

definition stamps :: "ticket \<Rightarrow> timestamp list" where
  "stamps t = t_createdAt t # t_updatedAt t # map h_timestamp (t_history t) @
              (case t_resolvedAt t of None \<Rightarrow> [] | Some r \<Rightarrow> [r])"

text \<open>A ticket whose history is in time order, with \<open>createdAt \<le> updatedAt\<close>,
  and holding no timestamp later than read \<open>n\<close> of the clock.\<close>

definition ticket_time_ok :: "clock \<Rightarrow> nat \<Rightarrow> ticket \<Rightarrow> bool" where
  "ticket_time_ok clk n t \<longleftrightarrow>
     sorted (map h_timestamp (t_history t)) \<and> t_createdAt t \<le> t_updatedAt t \<and>
     list_all (\<lambda>x. x \<le> clk n) (stamps t)"

definition time_inv :: "clock \<Rightarrow> server \<Rightarrow> bool" where
  "time_inv clk s \<longleftrightarrow>
     list_all (ticket_time_ok clk (reads s)) (tickets s) \<and>
     list_all (\<lambda>c. c_createdAt c \<le> clk (reads s)) (comments s)"

text \<open>The requests that add a ticket or a comment.\<close>

definition posts_ticket :: "api_request \<Rightarrow> bool" where
  "posts_ticket r = (case r of PostTicket _ \<Rightarrow> True | _ \<Rightarrow> False)"

definition posts_comment :: "api_request \<Rightarrow> bool" where
  "posts_comment r = (case r of PostComment _ _ _ \<Rightarrow> True | _ \<Rightarrow> False)"

section \<open>Properties\<close>

subsection \<open>Each operation keeps each invariant\<close>

lemma ids_inv_create: "create_ticket clk b s = (t, s') \<Longrightarrow> ids_inv s \<Longrightarrow> ids_inv s'"
proof -
  assume c: "create_ticket clk b s = (t, s')" and inv: "ids_inv s"
  from create_ticket_state [OF c] have "tickets s' = tickets s @ [t]" by blast
  moreover from create_ticket_new [OF c] have "t_id t = ticket_id_of (length (tickets s))" by blast
  ultimately show "ids_inv s'" using inv by (simp add: ids_inv_def)
qed

lemma ids_inv_patch: "patch_ticket clk tid b s = Inr (t, s') \<Longrightarrow> ids_inv s \<Longrightarrow> ids_inv s'"
proof -
  assume p: "patch_ticket clk tid b s = Inr (t, s')" and inv: "ids_inv s"
  from p obtain i where "i < length (tickets s)" "t = apply_patch clk s b (tickets s ! i)"
      "tickets s' = (tickets s)[i := t]"
    by (rule patch_ticket_Inr)
  then have "map t_id (tickets s') = map t_id (tickets s)" and "length (tickets s') = length (tickets s)"
    by (simp_all add: map_update) (metis list_update_id nth_map)
  with inv show "ids_inv s'" by (simp add: ids_inv_def)
qed

lemma ids_inv_comment: "add_comment clk rnd tid b s = (c, s') \<Longrightarrow> ids_inv s \<Longrightarrow> ids_inv s'"
  by (drule add_comment_state) (simp add: ids_inv_def)

lemma hist_inv_create: "create_ticket clk b s = (t, s') \<Longrightarrow> hist_inv s \<Longrightarrow> hist_inv s'"
proof -
  assume c: "create_ticket clk b s = (t, s')" and inv: "hist_inv s"
  from create_ticket_new [OF c] have "map h_timestamp (t_history t) \<noteq> []" and
      "h_action (hd (t_history t)) = ''Ticket creado''" by auto
  with inv create_ticket_state [OF c] show "hist_inv s'" by (simp add: hist_inv_def)
qed

lemma hist_inv_patch: "patch_ticket clk tid b s = Inr (t, s') \<Longrightarrow> hist_inv s \<Longrightarrow> hist_inv s'"
proof -
  assume p: "patch_ticket clk tid b s = Inr (t, s')" and inv: "hist_inv s"
  from p obtain i where i: "i < length (tickets s)" "t = apply_patch clk s b (tickets s ! i)"
      "tickets s' = (tickets s)[i := t]"
    by (rule patch_ticket_Inr)
  from inv i(1) have "t_history (tickets s ! i) \<noteq> [] \<and>
      h_action (hd (t_history (tickets s ! i))) = ''Ticket creado''"
    by (simp add: hist_inv_def list_all_length)
  with i(2) have "t_history t \<noteq> [] \<and> h_action (hd (t_history t)) = ''Ticket creado''" by simp
  with inv i(3) show "hist_inv s'" by (simp add: hist_inv_def list_all_update)
qed

lemma hist_inv_comment: "add_comment clk rnd tid b s = (c, s') \<Longrightarrow> hist_inv s \<Longrightarrow> hist_inv s'"
  by (drule add_comment_state) (simp add: hist_inv_def)

lemma resolved_inv_create: "create_ticket clk b s = (t, s') \<Longrightarrow> resolved_inv s \<Longrightarrow> resolved_inv s'"
proof -
  assume c: "create_ticket clk b s = (t, s')" and inv: "resolved_inv s"
  from create_ticket_state [OF c] have "tickets s' = tickets s @ [t]" by blast
  moreover from create_ticket_new [OF c] have "t_resolvedAt t = None"
    and "t_status t = RESOLVED \<or> t_status t = CLOSED \<longleftrightarrow> False" by simp_all
  ultimately show "resolved_inv s'" using inv by (simp add: resolved_inv_def)
qed

lemma resolved_apply_patch:
  "((t_status t = RESOLVED \<or> t_status t = CLOSED) \<longrightarrow> t_resolvedAt t \<noteq> None) \<Longrightarrow>
   (t_status (apply_patch clk s b t) = RESOLVED \<or> t_status (apply_patch clk s b t) = CLOSED) \<longrightarrow>
   t_resolvedAt (apply_patch clk s b t) \<noteq> None"
  by (cases "p_status b") (auto simp: resolves_def)

lemma resolved_inv_patch: "patch_ticket clk tid b s = Inr (t, s') \<Longrightarrow> resolved_inv s \<Longrightarrow> resolved_inv s'"
proof -
  assume p: "patch_ticket clk tid b s = Inr (t, s')" and inv: "resolved_inv s"
  from p obtain i where i: "i < length (tickets s)" "t = apply_patch clk s b (tickets s ! i)"
      "tickets s' = (tickets s)[i := t]"
    by (rule patch_ticket_Inr)
  from inv i(1) have "(t_status (tickets s ! i) = RESOLVED \<or> t_status (tickets s ! i) = CLOSED) \<longrightarrow>
      t_resolvedAt (tickets s ! i) \<noteq> None"
    by (simp add: resolved_inv_def list_all_length)
  then have "(t_status t = RESOLVED \<or> t_status t = CLOSED) \<longrightarrow> t_resolvedAt t \<noteq> None"
    unfolding i(2) by (rule resolved_apply_patch)
  with inv i(3) show "resolved_inv s'" by (simp add: resolved_inv_def list_all_update)
qed

lemma resolved_inv_comment: "add_comment clk rnd tid b s = (c, s') \<Longrightarrow> resolved_inv s \<Longrightarrow> resolved_inv s'"
  by (drule add_comment_state) (simp add: resolved_inv_def)

lemma ticket_time_ok_mono:
  "mono clk \<Longrightarrow> n \<le> n' \<Longrightarrow> ticket_time_ok clk n t \<Longrightarrow> ticket_time_ok clk n' t"
  by (auto simp: ticket_time_ok_def intro: list_all_le_clock)

lemma list_ticket_time_ok_mono:
  "mono clk \<Longrightarrow> n \<le> n' \<Longrightarrow> list_all (ticket_time_ok clk n) ts \<Longrightarrow> list_all (ticket_time_ok clk n') ts"
  by (auto simp: list_all_iff intro: ticket_time_ok_mono)

lemma time_inv_create:
  assumes m: "mono clk" and c: "create_ticket clk b s = (t, s')" and inv: "time_inv clk s"
  shows "time_inv clk s'"
proof -
  let ?n = "reads s" and ?k = "if truthy (cr_agentId b) then 4 else 3 :: nat"
  from create_ticket_state [OF c] have ts: "tickets s' = tickets s @ [t]" "comments s' = comments s"
      and r: "reads s' = ?n + ?k" by blast+
  from create_ticket_new [OF c] have new: "t_createdAt t = clk ?n" "t_updatedAt t = clk (?n + 1)"
      "t_resolvedAt t = None"
      "map h_timestamp (t_history t) = clk (?n + 2) # (if truthy (cr_agentId b) then [clk (?n + 3)] else [])"
    by blast+
  have le: "clk (?n + j) \<le> clk (reads s')" if "j < ?k" for j
    using that r m by (auto intro: monoD)
  have l: "clk ?n \<le> clk (reads s')" "clk (?n + 1) \<le> clk (reads s')" "clk (?n + 2) \<le> clk (reads s')"
    using le [of 0] le [of 1] le [of 2] by simp_all
  have l3: "clk (?n + 3) \<le> clk (reads s')" if "truthy (cr_agentId b)"
    using le [of 3] that by simp
  have mono_steps: "clk ?n \<le> clk (?n + 1)" "clk (?n + 2) \<le> clk (?n + 3)"
    using m by (simp_all add: monoD)
  have new_ok: "ticket_time_ok clk (reads s') t"
  proof (cases "truthy (cr_agentId b)")
    case True
    with new l l3 mono_steps show ?thesis by (simp add: ticket_time_ok_def stamps_def)
  next
    case False
    with new l mono_steps show ?thesis by (simp add: ticket_time_ok_def stamps_def)
  qed
  have rs: "reads s \<le> reads s'" using r by simp
  have old_t: "list_all (ticket_time_ok clk (reads s')) (tickets s)"
    using inv list_ticket_time_ok_mono [OF m rs] by (simp add: time_inv_def)
  have old_c: "list_all (\<lambda>c. c_createdAt c \<le> clk (reads s')) (comments s)"
    using inv monoD [OF m rs] by (auto simp: time_inv_def list_all_iff)
  show ?thesis using new_ok old_t old_c ts by (simp add: time_inv_def)
qed

lemma ticket_time_ok_apply_patch:
  assumes m: "mono clk" and ok: "ticket_time_ok clk (reads s) t"
  shows "ticket_time_ok clk (reads s + (if resolves b then 3 else 2)) (apply_patch clk s b t)"
proof -
  let ?n = "reads s" and ?n' = "reads s + (if resolves b then 3 else 2)"
  from ok have sorted: "sorted (map h_timestamp (t_history t))"
    and st: "list_all (\<lambda>x. x \<le> clk ?n) (stamps t)"
    by (simp_all add: ticket_time_ok_def)
  from st have c: "t_createdAt t \<le> clk ?n" and h: "\<forall>x \<in> set (map h_timestamp (t_history t)). x \<le> clk ?n"
    and rz: "\<forall>r. t_resolvedAt t = Some r \<longrightarrow> r \<le> clk ?n"
    by (auto simp: stamps_def list_all_iff split: option.splits)
  have m1: "clk ?n \<le> clk (?n + 1)" and m2: "clk (?n + 1) \<le> clk ?n'" and m3: "clk ?n \<le> clk ?n'"
    using m by (simp_all add: monoD)
  have m4: "clk (?n + 2) \<le> clk ?n'" if "resolves b"
    using m that by (simp add: monoD)
  have h': "\<forall>x \<in> set (map h_timestamp (t_history t)). x \<le> clk (?n + 1)"
    using h m1 by auto
  have "sorted (map h_timestamp (t_history (apply_patch clk s b t)))"
    using sorted h' by (simp add: sorted_append)
  moreover have "t_createdAt (apply_patch clk s b t) \<le> t_updatedAt (apply_patch clk s b t)"
    using c by simp
  moreover have "list_all (\<lambda>x. x \<le> clk ?n') (stamps (apply_patch clk s b t))"
    using c h rz m1 m2 m3 m4
    by (cases "t_resolvedAt t") (auto simp: stamps_def list_all_iff intro: order_trans)
  ultimately show ?thesis by (simp add: ticket_time_ok_def)
qed

lemma time_inv_patch:
  assumes m: "mono clk" and p: "patch_ticket clk tid b s = Inr (t, s')" and inv: "time_inv clk s"
  shows "time_inv clk s'"
proof -
  from p obtain i where i: "i < length (tickets s)" "t = apply_patch clk s b (tickets s ! i)"
      "tickets s' = (tickets s)[i := t]" "comments s' = comments s"
      "reads s' = reads s + (if resolves b then 3 else 2)"
    by (rule patch_ticket_Inr)
  have rs: "reads s \<le> reads s'" using i(5) by simp
  from inv i(1) have "ticket_time_ok clk (reads s) (tickets s ! i)"
    by (simp add: time_inv_def list_all_length)
  then have new_ok: "ticket_time_ok clk (reads s') t"
    using ticket_time_ok_apply_patch [OF m] i(2,5) by simp
  have old_t: "list_all (ticket_time_ok clk (reads s')) (tickets s)"
    using inv list_ticket_time_ok_mono [OF m rs] by (simp add: time_inv_def)
  have old_c: "list_all (\<lambda>c. c_createdAt c \<le> clk (reads s')) (comments s)"
    using inv monoD [OF m rs] by (auto simp: time_inv_def list_all_iff)
  show ?thesis using new_ok old_t old_c i(3,4) by (simp add: time_inv_def list_all_update)
qed

lemma time_inv_comment:
  assumes m: "mono clk" and a: "add_comment clk rnd tid b s = (c, s')" and inv: "time_inv clk s"
  shows "time_inv clk s'"
proof -
  from add_comment_state [OF a] have st: "comments s' = comments s @ [c]" "tickets s' = tickets s"
      "reads s' = Suc (reads s)" "c_createdAt c = clk (reads s)" by blast+
  have rs: "reads s \<le> reads s'" using st(3) by simp
  have old_t: "list_all (ticket_time_ok clk (reads s')) (tickets s)"
    using inv list_ticket_time_ok_mono [OF m rs] by (simp add: time_inv_def)
  have old_c: "list_all (\<lambda>c. c_createdAt c \<le> clk (reads s')) (comments s)"
    using inv monoD [OF m rs] by (auto simp: time_inv_def list_all_iff)
  have "c_createdAt c \<le> clk (reads s')" using st(4) monoD [OF m rs] by simp
  with old_t old_c st(1,2) show ?thesis by (simp add: time_inv_def)
qed

subsection \<open>Reachable states\<close>

lemma handle_cases:
  assumes "handle clk r s = (resp, s')"
  shows "s' = s \<or> (\<exists>b t. create_ticket clk b s = (t, s')) \<or>
         (\<exists>tid b t. patch_ticket clk tid b s = Inr (t, s')) \<or>
         (\<exists>rnd tid b c. add_comment clk rnd tid b s = (c, s'))"
  using assms by (cases r) (auto split: sum.splits prod.splits login_body.splits)

lemma init_server_invs:
  "ids_inv (init_server clk) \<and> hist_inv (init_server clk) \<and> resolved_inv (init_server clk)"
  by (simp add: init_server_def seed_ticket_def ids_inv_def hist_inv_def resolved_inv_def
                ticket_id_of_def dec_large digit_char_def)

lemma init_server_time_inv: "mono clk \<Longrightarrow> time_inv clk (init_server clk)"
  by (simp add: init_server_def seed_ticket_def time_inv_def ticket_time_ok_def stamps_def monoD)

lemma reachable_invs:
  "reachable clk s \<Longrightarrow> ids_inv s \<and> hist_inv s \<and> resolved_inv s"
proof (induction rule: reachable.induct)
  case init
  show ?case by (rule init_server_invs)
next
  case (step s r resp s')
  from handle_cases [OF step.hyps(2)] step.IH show ?case
    by (elim disjE exE) (auto intro: ids_inv_create ids_inv_patch ids_inv_comment
        hist_inv_create hist_inv_patch hist_inv_comment
        resolved_inv_create resolved_inv_patch resolved_inv_comment)
qed

lemma reachable_time_inv:
  assumes m: "mono clk"
  shows "reachable clk s \<Longrightarrow> time_inv clk s"
proof (induction rule: reachable.induct)
  case init
  show ?case using m by (rule init_server_time_inv)
next
  case (step s r resp s')
  from handle_cases [OF step.hyps(2)] step.IH show ?case
    by (elim disjE exE) (auto intro: time_inv_create [OF m] time_inv_patch [OF m] time_inv_comment [OF m])
qed

lemma reachable_after_create:
  "reachable clk (snd (handle clk (PostTicket b) (init_server clk)))"
  by (rule reachable.step [OF reachable.init]) (rule surjective_pairing)

lemma seed_in_after_create:
  "seed_ticket clk \<in> set (tickets (snd (handle clk (PostTicket b) (init_server clk))))"
  by (simp add: create_ticket_def Let_def init_server_def split: prod.splits)

text \<open>(C7) In every reachable state ticket i of the store has id T-(1001+i), so ids are distinct: under one-at-a-time request handling the length-based id never repeats.\<close>

theorem reachable_ticket_ids:
  assumes "reachable clk s"
  shows "map t_id (tickets s) = map ticket_id_of [0..<length (tickets s)] \<and> distinct (map t_id (tickets s))"
proof -
  from reachable_invs [OF assms] have ids: "ids_inv s" by blast
  have "distinct (map ticket_id_of [0..<n])" for n
    by (simp add: distinct_map inj_on_def ticket_id_of_inj)
  with ids show ?thesis by (simp add: ids_inv_def)
qed

theorem reachable_ticket_ids_witness:
  "map t_id (tickets (snd (handle (\<lambda>n. n) (PostTicket
     \<lparr>cr_title = Some ''Monitor'', cr_description = None, cr_priority = Some LOW,
       cr_category = Some ''Hardware'', cr_creatorId = Some ''u2'', cr_creatorName = Some ''Usuario 2'',
       cr_creatorEmail = None, cr_creatorDept = None, cr_agentId = None, cr_agentName = None,
       cr_station = None, cr_area = None\<rparr>) (init_server (\<lambda>n. n))))) = [''T-1001'', ''T-1002'']"
proof -
  let ?b = "\<lparr>cr_title = Some ''Monitor'', cr_description = None, cr_priority = Some LOW,
       cr_category = Some ''Hardware'', cr_creatorId = Some ''u2'', cr_creatorName = Some ''Usuario 2'',
       cr_creatorEmail = None, cr_creatorDept = None, cr_agentId = None, cr_agentName = None,
       cr_station = None, cr_area = None\<rparr>"
  from reachable_ticket_ids [OF reachable_after_create [of "\<lambda>n. n" ?b]] show ?thesis
    by (simp add: create_ticket_def Let_def init_server_def ticket_id_of_def dec_large digit_char_def
             split: prod.splits)
qed

text \<open>(C8) In every reachable state every ticket has a non-empty history whose first entry is the creation entry.\<close>

theorem reachable_history_creation:
  assumes "reachable clk s" and "t \<in> set (tickets s)"
  shows "t_history t \<noteq> [] \<and> h_action (hd (t_history t)) = ''Ticket creado''"
  using reachable_invs [OF assms(1)] assms(2) by (auto simp: hist_inv_def list_all_iff)

theorem reachable_history_creation_witness:
  "t_history (seed_ticket (\<lambda>n. n)) \<noteq> [] \<and> h_action (hd (t_history (seed_ticket (\<lambda>n. n)))) = ''Ticket creado''"
  by (rule reachable_history_creation [OF reachable_after_create seed_in_after_create])

text \<open>(C9) In every reachable state a ticket whose status is Resuelto or Cerrado has a resolvedAt time.\<close>

theorem reachable_resolved_at:
  assumes "reachable clk s" and "t \<in> set (tickets s)" and "t_status t = RESOLVED \<or> t_status t = CLOSED"
  shows "t_resolvedAt t \<noteq> None"
  using reachable_invs [OF assms(1)] assms(2,3) by (auto simp: resolved_inv_def list_all_iff)

theorem reachable_resolved_at_witness:
  "let b = \<lparr>p_status = Some RESOLVED, p_agentId = None, p_agentName = None, p_priority = None,
            p_userId = Some ''a1'', p_userName = Some ''Agente IT 1''\<rparr>;
       s = snd (handle (\<lambda>n. n) (PatchTicket ''T-1001'' b) (init_server (\<lambda>n. n)))
   in t_status (hd (tickets s)) = RESOLVED \<and> t_resolvedAt (hd (tickets s)) \<noteq> None"
proof -
  let ?b = "\<lparr>p_status = Some RESOLVED, p_agentId = None, p_agentName = None, p_priority = None,
            p_userId = Some ''a1'', p_userName = Some ''Agente IT 1''\<rparr>"
  let ?s = "snd (handle (\<lambda>n. n) (PatchTicket ''T-1001'' ?b) (init_server (\<lambda>n. n)))"
  have r: "reachable (\<lambda>n. n) ?s"
    by (rule reachable.step [OF reachable.init]) (rule surjective_pairing)
  have st: "t_status (hd (tickets ?s)) = RESOLVED" and mem: "hd (tickets ?s) \<in> set (tickets ?s)"
    by (simp_all add: patch_ticket_def init_server_def seed_ticket_def Let_def)
  from reachable_resolved_at [OF r mem] st show ?thesis by (simp add: Let_def)
qed

text \<open>(C10) With a clock that never runs backwards, every ticket of a reachable state has its history in time order (last entry no earlier than the first) and createdAt no later than updatedAt.\<close>

theorem reachable_history_ordered:
  assumes "mono clk" and "reachable clk s" and "t \<in> set (tickets s)"
  shows "sorted (map h_timestamp (t_history t)) \<and> t_createdAt t \<le> t_updatedAt t \<and>
         h_timestamp (hd (t_history t)) \<le> h_timestamp (last (t_history t))"
proof -
  from reachable_time_inv [OF assms(1,2)] assms(3) have ok: "ticket_time_ok clk (reads s) t"
    by (auto simp: time_inv_def list_all_iff)
  from reachable_invs [OF assms(2)] assms(3) have ne: "t_history t \<noteq> []"
    by (auto simp: hist_inv_def list_all_iff)
  from ok have so: "sorted (map h_timestamp (t_history t))" by (simp add: ticket_time_ok_def)
  from ne have "hd (map h_timestamp (t_history t)) \<le> last (map h_timestamp (t_history t))"
    using so by (intro sorted_hd_last) simp_all
  with ok ne show ?thesis by (simp add: ticket_time_ok_def hd_map last_map)
qed

theorem reachable_history_ordered_witness:
  "sorted (map h_timestamp (t_history (seed_ticket (\<lambda>n. n)))) \<and>
   t_createdAt (seed_ticket (\<lambda>n. n)) \<le> t_updatedAt (seed_ticket (\<lambda>n. n)) \<and>
   h_timestamp (hd (t_history (seed_ticket (\<lambda>n. n)))) \<le> h_timestamp (last (t_history (seed_ticket (\<lambda>n. n))))"
proof -
  have m: "mono (\<lambda>n::nat. n)" by (simp add: mono_def)
  show ?thesis by (rule reachable_history_ordered [OF m reachable_after_create seed_in_after_create])
qed

text \<open>PATCH on an id no ticket has answers 404 with the message Ticket no encontrado and leaves the whole server state unchanged.\<close>

theorem patch_unknown_unchanged:
  assumes "\<forall>t \<in> set (tickets s). t_id t \<noteq> tid"
  shows "handle clk (PatchTicket tid b) s = ((404, JMessage ''Ticket no encontrado''), s)"
proof -
  from assms have "patch_ticket clk tid b s = Inl NotFound" by (simp add: patch_ticket_Inl)
  then show ?thesis by (simp add: error_response_def)
qed

theorem patch_unknown_unchanged_witness:
  "handle (\<lambda>n. n) (PatchTicket ''T-9999'' \<lparr>p_status = Some CLOSED, p_agentId = None, p_agentName = None,
       p_priority = None, p_userId = Some ''admin1'', p_userName = Some ''Administrador 1''\<rparr>)
     (init_server (\<lambda>n. n)) = ((404, JMessage ''Ticket no encontrado''), init_server (\<lambda>n. n))"
  by (rule patch_unknown_unchanged) (simp add: init_server_def seed_ticket_def)

text \<open>No request deletes or reorders tickets, changes a ticket id, removes a comment, or moves the clock back.\<close>

theorem handle_append_only:
  assumes "handle clk r s = (resp, s')"
  shows "take (length (tickets s)) (map t_id (tickets s')) = map t_id (tickets s) \<and>
         length (tickets s) \<le> length (tickets s') \<and> (\<exists>cs. comments s' = comments s @ cs) \<and>
         reads s \<le> reads s'"
  using handle_cases [OF assms]
proof (elim disjE exE)
  fix b t assume c: "create_ticket clk b s = (t, s')"
  from create_ticket_state [OF c] show ?thesis by auto
next
  fix tid b t assume p: "patch_ticket clk tid b s = Inr (t, s')"
  then obtain i where "i < length (tickets s)" "t = apply_patch clk s b (tickets s ! i)"
      "tickets s' = (tickets s)[i := t]" "comments s' = comments s"
      "reads s' = reads s + (if resolves b then 3 else 2)"
    by (rule patch_ticket_Inr)
  then show ?thesis by (simp add: map_update) (metis list_update_id nth_map)
next
  fix rnd tid b c assume a: "add_comment clk rnd tid b s = (c, s')"
  from add_comment_state [OF a] show ?thesis by auto
qed simp

theorem handle_append_only_witness:
  "let s = init_server (\<lambda>n. n);
       s' = snd (handle (\<lambda>n. n) (PostTicket
         \<lparr>cr_title = Some ''Monitor'', cr_description = None, cr_priority = Some LOW,
       cr_category = Some ''Hardware'', cr_creatorId = Some ''u2'', cr_creatorName = Some ''Usuario 2'',
       cr_creatorEmail = None, cr_creatorDept = None, cr_agentId = None, cr_agentName = None,
       cr_station = None, cr_area = None\<rparr>) s)
   in take (length (tickets s)) (map t_id (tickets s')) = map t_id (tickets s) \<and>
      length (tickets s) \<le> length (tickets s')"
  unfolding Let_def using handle_append_only [OF surjective_pairing] by blast

text \<open>(C21) Login with the name of a property of \<open>Object.prototype\<close> (\<open>constructor\<close>, \<open>toString\<close>, \<open>__proto__\<close>, ...) is answered with status 200 and an empty object instead of 401, and changes nothing.\<close>

theorem login_prototype_response:
  assumes "k \<in> set object_prototype_keys"
  shows "handle clk (Login (Some k)) s = ((200, JEmptyObject), s)"
  using login_inherited [OF assms] by simp

theorem login_prototype_response_witness:
  "handle (\<lambda>n. n) (Login (Some ''constructor'')) (init_server (\<lambda>n. n)) = ((200, JEmptyObject), init_server (\<lambda>n. n))"
  by (rule login_prototype_response) (simp add: object_prototype_keys_def)

subsection \<open>Bounds along a sequence of requests\<close>

lemma handle_counts:
  assumes "handle clk r s = (resp, s')"
  shows "reads s \<le> reads s' \<and> reads s' \<le> reads s + 4 \<and>
         length (tickets s') = length (tickets s) + (if posts_ticket r then 1 else 0) \<and>
         length (comments s') = length (comments s) + (if posts_comment r then 1 else 0)"
proof (cases r)
  case (PostTicket b)
  obtain t s1 where "create_ticket clk b s = (t, s1)" by (cases "create_ticket clk b s")
  with assms PostTicket show ?thesis
    by (auto simp: posts_ticket_def posts_comment_def dest!: create_ticket_state)
next
  case (PatchTicket tid b)
  show ?thesis
  proof (cases "patch_ticket clk tid b s")
    case (Inr p)
    then obtain t s1 where p: "patch_ticket clk tid b s = Inr (t, s1)" by (cases p) auto
    then obtain i where "tickets s1 = (tickets s)[i := t]" "comments s1 = comments s"
      "reads s1 = reads s + (if resolves b then 3 else 2)"
      by (rule patch_ticket_Inr)
    with assms PatchTicket p show ?thesis by (simp add: posts_ticket_def posts_comment_def)
  qed (use assms PatchTicket in \<open>auto simp: posts_ticket_def posts_comment_def\<close>)
next
  case (PostComment tid b rnd)
  obtain c s1 where "add_comment clk rnd tid b s = (c, s1)" by (cases "add_comment clk rnd tid b s")
  with assms PostComment show ?thesis
    by (auto simp: posts_ticket_def posts_comment_def dest!: add_comment_state)
qed (use assms in \<open>auto simp: posts_ticket_def posts_comment_def split: sum.splits login_body.splits\<close>)

text \<open>(C16) Along any sequence of requests the server answers once per request, its read counter of the clock never goes back and advances by at most four per request (a creation with an agent reads it four times), and the ticket and comment arrays grow by exactly the number of creations and comments posted.\<close>

theorem run_bounds:
  "length (fst (run clk rs s)) = length rs \<and>
   reads s \<le> reads (snd (run clk rs s)) \<and> reads (snd (run clk rs s)) \<le> reads s + 4 * length rs \<and>
   length (tickets (snd (run clk rs s))) = length (tickets s) + length (filter posts_ticket rs) \<and>
   length (comments (snd (run clk rs s))) = length (comments s) + length (filter posts_comment rs)"
proof (induction rs arbitrary: s)
  case (Cons r rs)
  obtain resp s1 where h: "handle clk r s = (resp, s1)" by (cases "handle clk r s")
  from handle_counts [OF h] Cons.IH [of s1] h show ?case
    by (auto split: prod.splits)
qed simp

end
