(* ===== verification/Client.thy ===== *)
theory Client
  imports Api
begin

text \<open>
  The request logic of the single-page client \<open>src/src/App.tsx\<close> and the
  constants it uses from \<open>src/src/constants.ts\<close>. The React state of
  \<open>App\<close> is the record \<open>client\<close>; each handler (\<open>handleLogin\<close>,
  \<open>fetchTickets\<close>, \<open>handleCreateTicket\<close>, \<open>updateTicketStatus\<close>,
  \<open>assignToMe\<close>, \<open>handleAddComment\<close>, ...) is a function of the pair of
  client and server state that sends its request through \<open>Api.handle\<close>,
  awaits the response and applies it, the \<open>useEffect\<close> hooks that a state
  change triggers included. Markup and styling are not modelled.
\<close>

section \<open>Constants\<close>

text \<open>Non-ASCII letters of the source, as their UTF-8 bytes.\<close>

definition o_acute :: string where "o_acute = [CHR 0xC3, CHR 0xB3]"
definition i_acute :: string where "i_acute = [CHR 0xC3, CHR 0xAD]"
definition e_acute :: string where "e_acute = [CHR 0xC3, CHR 0xA9]"

definition CATEGORIES :: "string list" where
  "CATEGORIES = [''Computadora'', ''Sistema Operativo'', ''Internet'', ''Red'', ''Hardware'',
                 ''Software'', ''Impresoras'', ''Accesos / Credenciales'', ''Otro'']"

definition station_name :: "nat \<Rightarrow> string" where
  "station_name i = ''Estaci'' @ o_acute @ ''n '' @ dec i"

definition STATION_AREAS :: "(string \<times> string list) list" where
  "STATION_AREAS =
    [(station_name 1, [''Ventas'', ''Auditor'' @ i_acute @ ''a'', ''Caja'']),
     (station_name 2, [''Almac'' @ e_acute @ ''n'', ''Log'' @ i_acute @ ''stica'', ''Despacho'']),
     (station_name 3, [''Recursos Humanos'', ''Contabilidad'', ''Legal'']),
     (station_name 4, [''Gerencia'', ''Direcci'' @ o_acute @ ''n'', ''IT''])]"

text \<open>The values the station \<open><select>\<close> of the creation form offers.\<close>

definition station_options :: "string list" where
  "station_options = '''' # map station_name [1..<5]"

section \<open>Client state\<close>

datatype view = Landing | LoginView | Dashboard

record client =
  cl_view :: view
  cl_selectedRole :: "user_role option"
  cl_user :: "login_body option"
  cl_tickets :: "ticket list"
  cl_selectedTicket :: "ticket option"
  cl_isCreating :: bool
  cl_stats :: "stats option"
  cl_loading :: bool
  cl_commentText :: string
  cl_comments :: "comment list"
  cl_agents :: "mock_user list"
  cl_selectedStation :: string
  cl_availableAreas :: "string list"

definition init_client :: client where
  "init_client =
    \<lparr>cl_view = Landing, cl_selectedRole = None, cl_user = None, cl_tickets = [],
     cl_selectedTicket = None, cl_isCreating = False, cl_stats = None, cl_loading = False,
     cl_commentText = [], cl_comments = [], cl_agents = [], cl_selectedStation = [],
     cl_availableAreas = []\<rparr>"

type_synonym system = "client \<times> server"

text \<open>\<open>user.id\<close>, \<open>user.fullName\<close>, \<open>user.role\<close>, ... of the stored login
  body: \<open>undefined\<close> on the empty object.\<close>

fun cu_id :: "login_body \<Rightarrow> jstr" where
  "cu_id (LoggedIn u) = Some (u_id u)"
| "cu_id EmptyObject = None"

fun cu_fullName :: "login_body \<Rightarrow> jstr" where
  "cu_fullName (LoggedIn u) = Some (u_fullName u)"
| "cu_fullName EmptyObject = None"

fun cu_email :: "login_body \<Rightarrow> jstr" where
  "cu_email (LoggedIn u) = Some (u_email u)"
| "cu_email EmptyObject = None"

fun cu_department :: "login_body \<Rightarrow> jstr" where
  "cu_department (LoggedIn u) = Some (u_department u)"
| "cu_department EmptyObject = None"

fun cu_role :: "login_body \<Rightarrow> user_role option" where
  "cu_role (LoggedIn u) = Some (u_role u)"
| "cu_role EmptyObject = None"

text \<open>\<open>res.ok\<close>: a status in 200..299.\<close>

definition res_ok :: "response \<Rightarrow> bool" where
  "res_ok r \<longleftrightarrow> 200 \<le> fst r \<and> fst r \<le> 299"

section \<open>Handlers\<close>

text \<open>\<open>handleStationChange\<close>: \<open>STATION_AREAS[station] || []\<close>.\<close>

definition handleStationChange :: "string \<Rightarrow> client \<Rightarrow> client" where
  "handleStationChange station c =
    c\<lparr>cl_selectedStation := station,
      cl_availableAreas := (case map_of STATION_AREAS station of Some as \<Rightarrow> as | None \<Rightarrow> [])\<rparr>"

text \<open>\<open>fetchTickets\<close>: \<open>/api/tickets?userId=${user.id}&role=${user.role}\<close>; a
  body that is not an array becomes \<open>[]\<close>.\<close>

definition fetchTickets :: "clock \<Rightarrow> system \<Rightarrow> system" where
  "fetchTickets clk cs =
    (case cs of (c, s) \<Rightarrow>
      (case cl_user c of
         None \<Rightarrow> (c, s)
       | Some u \<Rightarrow>
           (case handle clk (GetTickets (Some (js_show (cu_id u)))
                                        (Some (js_show (map_option role_str (cu_role u))))) s of
              ((_, JTickets ts), s') \<Rightarrow> (c\<lparr>cl_tickets := ts\<rparr>, s')
            | (_, s') \<Rightarrow> (c\<lparr>cl_tickets := []\<rparr>, s'))))"

text \<open>\<open>fetchStats\<close>: only for an admin.\<close>

definition fetchStats :: "clock \<Rightarrow> system \<Rightarrow> system" where
  "fetchStats clk cs =
    (case cs of (c, s) \<Rightarrow>
      (if map_option cu_role (cl_user c) \<noteq> Some (Some ADMIN) then (c, s)
       else (case handle clk GetStats s of
               ((_, JStats st), s') \<Rightarrow> (c\<lparr>cl_stats := Some st\<rparr>, s')
             | (_, s') \<Rightarrow> (c, s'))))"

definition fetchComments :: "clock \<Rightarrow> string \<Rightarrow> system \<Rightarrow> system" where
  "fetchComments clk tid cs =
    (case cs of (c, s) \<Rightarrow>
      (case handle clk (GetComments tid) s of
         ((_, JComments cms), s') \<Rightarrow> (c\<lparr>cl_comments := cms\<rparr>, s')
       | (_, s') \<Rightarrow> (c\<lparr>cl_comments := []\<rparr>, s')))"

definition fetchAgents :: "clock \<Rightarrow> system \<Rightarrow> system" where
  "fetchAgents clk cs =
    (case cs of (c, s) \<Rightarrow>
      (case handle clk GetAgents s of
         ((_, JAgents ags), s') \<Rightarrow> (c\<lparr>cl_agents := ags\<rparr>, s')
       | (_, s') \<Rightarrow> (c, s')))"

text \<open>The \<open>useEffect\<close> on \<open>[view, user]\<close>: entering the dashboard loads the
  tickets, the statistics and the agents.\<close>

definition dashboard_effect :: "clock \<Rightarrow> system \<Rightarrow> system" where
  "dashboard_effect clk cs =
    (if cl_view (fst cs) = Dashboard then fetchAgents clk (fetchStats clk (fetchTickets clk cs)) else cs)"

text \<open>The \<open>useEffect\<close> on \<open>[selectedTicket]\<close>.\<close>

definition selected_effect :: "clock \<Rightarrow> system \<Rightarrow> system" where
  "selected_effect clk cs =
    (case cl_selectedTicket (fst cs) of None \<Rightarrow> cs | Some t \<Rightarrow> fetchComments clk (t_id t) cs)"

text \<open>\<open>handleLogin\<close> with the text of the user-name field.\<close>

definition handleLogin :: "clock \<Rightarrow> string \<Rightarrow> system \<Rightarrow> system" where
  "handleLogin clk username cs =
    (case cs of (c, s) \<Rightarrow>
      (case handle clk (Login (Some username)) s of
         ((code, JUser u), s') \<Rightarrow>
           if res_ok (code, JUser u)
           then dashboard_effect clk (c\<lparr>cl_user := Some (LoggedIn u), cl_view := Dashboard\<rparr>, s')
           else (c, s')
       | ((code, JEmptyObject), s') \<Rightarrow>
           if res_ok (code, JEmptyObject)
           then dashboard_effect clk (c\<lparr>cl_user := Some EmptyObject, cl_view := Dashboard\<rparr>, s')
           else (c, s')
       | (_, s') \<Rightarrow> (c, s')))"

text \<open>The fields of the creation form (\<open>FormData\<close>); \<open>agentId\<close> is \<open>''''\<close> for
  "Pendiente de Asignaci\<open>\<dots>\<close>n".\<close>

record create_form =
  f_title :: string
  f_description :: string
  f_priority :: ticket_priority
  f_category :: string
  f_station :: string
  f_area :: string
  f_agentId :: string

text \<open>The body \<open>handleCreateTicket\<close> posts: \<open>agents.find\<close> on the selected id,
  creator fields from the logged-in user; \<open>JSON.stringify\<close> drops the
  \<open>undefined\<close> agent fields.\<close>

definition create_body :: "mock_user list \<Rightarrow> login_body \<Rightarrow> create_form \<Rightarrow> create_req" where
  "create_body agents u f =
    (let agent = find (\<lambda>a. u_id a = f_agentId f) agents
     in \<lparr>cr_title = Some (f_title f), cr_description = Some (f_description f),
         cr_priority = Some (f_priority f), cr_category = Some (f_category f),
         cr_creatorId = cu_id u, cr_creatorName = cu_fullName u, cr_creatorEmail = cu_email u,
         cr_creatorDept = cu_department u,
         cr_agentId = map_option u_id agent, cr_agentName = map_option u_fullName agent,
         cr_station = Some (f_station f), cr_area = Some (f_area f)\<rparr>)"

definition handleCreateTicket :: "clock \<Rightarrow> create_form \<Rightarrow> system \<Rightarrow> system" where
  "handleCreateTicket clk f cs =
    (case cs of (c, s) \<Rightarrow>
      (case cl_user c of
         None \<Rightarrow> (c, s)
       | Some u \<Rightarrow>
           (case handle clk (PostTicket (create_body (cl_agents c) u f)) s of
              (resp, s') \<Rightarrow>
                if res_ok resp then fetchTickets clk (c\<lparr>cl_isCreating := False\<rparr>, s') else (c, s'))))"

text \<open>A successful \<open>PATCH\<close> from the detail view: the returned ticket becomes
  the selected one (which reloads its comments), then the list is reloaded.\<close>

definition patch_from_ui :: "clock \<Rightarrow> string \<Rightarrow> patch_req \<Rightarrow> bool \<Rightarrow> system \<Rightarrow> system" where
  "patch_from_ui clk tid b with_stats cs =
    (case cs of (c, s) \<Rightarrow>
      (case handle clk (PatchTicket tid b) s of
         ((code, JTicket t), s') \<Rightarrow>
           if res_ok (code, JTicket t)
           then (let cs1 = selected_effect clk (c\<lparr>cl_selectedTicket := Some t\<rparr>, s');
                     cs2 = fetchTickets clk cs1
                 in if with_stats then fetchStats clk cs2 else cs2)
           else (c, s')
       | (_, s') \<Rightarrow> (c, s')))"

definition updateTicketStatus :: "clock \<Rightarrow> string \<Rightarrow> ticket_status \<Rightarrow> system \<Rightarrow> system" where
  "updateTicketStatus clk tid st cs =
    (case cl_user (fst cs) of
       None \<Rightarrow> cs
     | Some u \<Rightarrow>
         patch_from_ui clk tid
           \<lparr>p_status = Some st, p_agentId = None, p_agentName = None, p_priority = None,
            p_userId = cu_id u, p_userName = cu_fullName u\<rparr> True cs)"

definition assignToMe :: "clock \<Rightarrow> string \<Rightarrow> system \<Rightarrow> system" where
  "assignToMe clk tid cs =
    (case cl_user (fst cs) of
       None \<Rightarrow> cs
     | Some u \<Rightarrow>
         patch_from_ui clk tid
           \<lparr>p_status = Some IN_PROGRESS, p_agentId = cu_id u, p_agentName = cu_fullName u,
            p_priority = None, p_userId = cu_id u, p_userName = cu_fullName u\<rparr> False cs)"

text \<open>\<open>String.prototype.trim\<close> on the ASCII white space the text can hold.\<close>

definition js_space :: "char \<Rightarrow> bool" where
  "js_space ch \<longleftrightarrow> ch \<in> set [CHR '' '', CHR 0x09, CHR 0x0A, CHR 0x0B, CHR 0x0C, CHR 0x0D]"

definition js_trim :: "string \<Rightarrow> string" where
  "js_trim str = rev (dropWhile js_space (rev (dropWhile js_space str)))"

definition handleAddComment :: "clock \<Rightarrow> string \<Rightarrow> system \<Rightarrow> system" where
  "handleAddComment clk rnd cs =
    (case cs of (c, s) \<Rightarrow>
      (case (cl_user c, cl_selectedTicket c) of
         (Some u, Some t) \<Rightarrow>
           if js_trim (cl_commentText c) = [] then (c, s)
           else (case handle clk (PostComment (t_id t)
                          \<lparr>cm_userId = cu_id u, cm_userName = cu_fullName u,
                           cm_text = Some (cl_commentText c)\<rparr> rnd) s of
                   (resp, s') \<Rightarrow>
                     if res_ok resp then fetchComments clk (t_id t) (c\<lparr>cl_commentText := []\<rparr>, s')
                     else (c, s'))
       | _ \<Rightarrow> (c, s)))"

section \<open>What the detail view offers\<close>

text \<open>The toolbar of the detail view (status controls) is shown when the user
  is not a plain user and the ticket is not closed; "Tomar Ticket" when the
  ticket has no agent; the waiting and resolve buttons when the ticket's agent
  is the user (\<open>===\<close> on possibly \<open>undefined\<close> values).\<close>

definition controls_visible :: "login_body option \<Rightarrow> ticket \<Rightarrow> bool" where
  "controls_visible u t \<longleftrightarrow>
     map_option cu_role u \<noteq> Some (Some USER) \<and> t_status t \<noteq> CLOSED"

definition take_visible :: "login_body option \<Rightarrow> ticket \<Rightarrow> bool" where
  "take_visible u t \<longleftrightarrow> controls_visible u t \<and> \<not> truthy (t_agentId t)"

definition own_actions_visible :: "login_body option \<Rightarrow> ticket \<Rightarrow> bool" where
  "own_actions_visible u t \<longleftrightarrow>
     controls_visible u t \<and> t_agentId t = (case u of None \<Rightarrow> None | Some b \<Rightarrow> cu_id b)"

text \<open>The agent dashboard cards: active tickets and resolved tickets.\<close>

definition agent_active_count :: "ticket list \<Rightarrow> nat" where
  "agent_active_count ts = length (filter (\<lambda>t. t_status t \<noteq> RESOLVED \<and> t_status t \<noteq> CLOSED) ts)"

definition agent_resolved_count :: "ticket list \<Rightarrow> nat" where
  "agent_resolved_count ts = length (filter (\<lambda>t. t_status t = RESOLVED) ts)"

section \<open>Properties\<close>

lemma fetchTickets_user:
  "cl_user c = Some u \<Longrightarrow>
   fetchTickets clk (c, s) =
     (c\<lparr>cl_tickets := list_tickets (Some (js_show (cu_id u))) (Some (js_show (map_option role_str (cu_role u)))) s\<rparr>, s)"
  by (simp add: fetchTickets_def)

lemma fetchStats_admin:
  "cl_user c = Some u \<Longrightarrow> cu_role u = Some ADMIN \<Longrightarrow>
   fetchStats clk (c, s) = (c\<lparr>cl_stats := Some (get_stats (tickets s))\<rparr>, s)"
  by (simp add: fetchStats_def)

lemma fetchStats_other:
  "cl_user c = Some u \<Longrightarrow> cu_role u \<noteq> Some ADMIN \<Longrightarrow> fetchStats clk (c, s) = (c, s)"
  by (simp add: fetchStats_def)

lemma fetchComments_eq:
  "fetchComments clk tid (c, s) = (c\<lparr>cl_comments := list_comments tid s\<rparr>, s)"
  by (simp add: fetchComments_def)

lemma selected_effect_Some:
  "cl_selectedTicket c = Some t \<Longrightarrow>
   selected_effect clk (c, s) = (c\<lparr>cl_comments := list_comments (t_id t) s\<rparr>, s)"
  by (simp add: selected_effect_def fetchComments_eq)

lemma patch_from_ui_Inr:
  assumes "patch_ticket clk tid b s = Inr (t, s')" and "cl_user c = Some u"
  shows "patch_from_ui clk tid b with_stats (c, s) =
           (let c1 = c\<lparr>cl_selectedTicket := Some t, cl_comments := list_comments (t_id t) s',
                       cl_tickets := list_tickets (Some (js_show (cu_id u)))
                                       (Some (js_show (map_option role_str (cu_role u)))) s'\<rparr>
            in if with_stats then fetchStats clk (c1, s') else (c1, s'))"
  using assms by (simp add: patch_from_ui_def res_ok_def selected_effect_Some fetchTickets_user Let_def)

lemma patch_from_ui_Inl:
  "patch_ticket clk tid b s = Inl e \<Longrightarrow> patch_from_ui clk tid b with_stats (c, s) = (c, s)"
  by (cases e) (simp_all add: patch_from_ui_def error_response_def)

lemma create_ticket_creator: "create_ticket clk b s = (t, s') \<Longrightarrow> t_creatorId t = cr_creatorId b"
  by (auto simp: create_ticket_def new_ticket_def Let_def)

text \<open>(C29) An agent who takes ("Tomar Ticket") an existing ticket ends with that ticket selected, assigned to the agent, IN_PROGRESS, in the store and in the agent's own listing.\<close>

theorem assignToMe_takes_ticket:
  assumes u: "cl_user c = Some (LoggedIn u)" and ag: "u_role u = AGENT" and ne: "u_id u \<noteq> []"
    and t: "t \<in> set (tickets s)" and tid: "t_id t = tid"
    and r: "assignToMe clk tid (c, s) = (c', s')"
  shows "\<exists>t'. cl_selectedTicket c' = Some t' \<and> t_agentId t' = Some (u_id u) \<and>
              t_status t' = IN_PROGRESS \<and> t' \<in> set (cl_tickets c') \<and> t' \<in> set (tickets s')"
proof -
  let ?b = "\<lparr>p_status = Some IN_PROGRESS, p_agentId = Some (u_id u), p_agentName = Some (u_fullName u),
            p_priority = None, p_userId = Some (u_id u), p_userName = Some (u_fullName u)\<rparr>"
  have "patch_ticket clk tid ?b s \<noteq> Inl NotFound"
    using t tid by (auto simp: patch_ticket_Inl)
  then obtain t' s1 where p: "patch_ticket clk tid ?b s = Inr (t', s1)"
    by (metis (no_types) patch_ticket_Inl surj_pair sum.exhaust_sel)
  then obtain i where i: "i < length (tickets s)" "t' = apply_patch clk s ?b (tickets s ! i)"
      "tickets s1 = (tickets s)[i := t']"
    by (rule patch_ticket_Inr)
  have fields: "t_agentId t' = Some (u_id u)" "t_status t' = IN_PROGRESS"
    using i(2) ne by simp_all
  have mem: "t' \<in> set (tickets s1)"
    using i by (simp add: set_update_memI)
  have res: "assignToMe clk tid (c, s) =
      (c\<lparr>cl_selectedTicket := Some t', cl_comments := list_comments (t_id t') s1,
         cl_tickets := list_tickets (Some (u_id u)) (Some ''agent'') s1\<rparr>, s1)"
    using patch_from_ui_Inr [OF p u, of False] u ag by (simp add: assignToMe_def Let_def)
  from r res have "c' = c\<lparr>cl_selectedTicket := Some t', cl_comments := list_comments (t_id t') s1,
         cl_tickets := list_tickets (Some (u_id u)) (Some ''agent'') s1\<rparr> \<and> s' = s1" by auto
  with fields mem show ?thesis by (auto simp: list_tickets_def)
qed

theorem assignToMe_takes_ticket_witness:
  "let u = \<lparr>u_id = ''a1'', u_username = ''agente1'', u_fullName = ''Agente IT 1'', u_role = AGENT,
             u_department = ''IT Support'', u_email = ''agente1@enterprise.com''\<rparr>;
       r = assignToMe (\<lambda>n. n) ''T-1001'' (init_client\<lparr>cl_user := Some (LoggedIn u)\<rparr>, init_server (\<lambda>n. n))
   in \<exists>t'. cl_selectedTicket (fst r) = Some t' \<and> t_agentId t' = Some ''a1'' \<and> t_status t' = IN_PROGRESS"
proof -
  let ?u = "\<lparr>u_id = ''a1'', u_username = ''agente1'', u_fullName = ''Agente IT 1'', u_role = AGENT,
             u_department = ''IT Support'', u_email = ''agente1@enterprise.com''\<rparr>"
  let ?c = "init_client\<lparr>cl_user := Some (LoggedIn ?u)\<rparr>"
  have u: "cl_user ?c = Some (LoggedIn ?u)" and ag: "u_role ?u = AGENT" and ne: "u_id ?u \<noteq> []" by simp_all
  have t: "seed_ticket (\<lambda>n. n) \<in> set (tickets (init_server (\<lambda>n. n)))" by (simp add: init_server_def)
  have tid: "t_id (seed_ticket (\<lambda>n. n)) = ''T-1001''" by (simp add: seed_ticket_def)
  from assignToMe_takes_ticket [OF u ag ne t tid surjective_pairing, where clk = "\<lambda>n. n"]
  show ?thesis unfolding Let_def by auto
qed

text \<open>A plain user who submits the creation form closes the form and sees the new ticket, with the next id and the user as creator, last in the refreshed listing of their own tickets.\<close>

theorem create_then_listed:
  assumes u: "cl_user c = Some (LoggedIn u)" and role: "u_role u = USER"
    and r: "handleCreateTicket clk f (c, s) = (c', s')"
  shows "\<not> cl_isCreating c' \<and> cl_tickets c' = list_tickets (Some (u_id u)) (Some ''user'') s' \<and>
         cl_tickets c' \<noteq> [] \<and> t_id (last (cl_tickets c')) = ticket_id_of (length (tickets s)) \<and>
         t_creatorId (last (cl_tickets c')) = Some (u_id u)"
proof -
  let ?b = "create_body (cl_agents c) (LoggedIn u) f"
  obtain t s1 where cr: "create_ticket clk ?b s = (t, s1)" by (cases "create_ticket clk ?b s")
  from create_ticket_state [OF cr] have ts: "tickets s1 = tickets s @ [t]" by blast
  from create_ticket_new [OF cr] have tid: "t_id t = ticket_id_of (length (tickets s))" by blast
  have cre: "t_creatorId t = Some (u_id u)"
    using create_ticket_creator [OF cr] by (simp add: create_body_def Let_def)
  have "handleCreateTicket clk f (c, s) =
          (c\<lparr>cl_isCreating := False, cl_tickets := list_tickets (Some (u_id u)) (Some ''user'') s1\<rparr>, s1)"
    using u role cr by (simp add: handleCreateTicket_def res_ok_def fetchTickets_user)
  with r have c': "c' = c\<lparr>cl_isCreating := False, cl_tickets := list_tickets (Some (u_id u)) (Some ''user'') s1\<rparr>"
      and s': "s' = s1" by auto
  have "list_tickets (Some (u_id u)) (Some ''user'') s1 =
          filter (\<lambda>t. t_creatorId t = Some (u_id u)) (tickets s) @ [t]"
    using ts cre by (simp add: list_tickets_def)
  with c' s' tid cre show ?thesis by simp
qed

theorem create_then_listed_witness:
  "let u = \<lparr>u_id = ''u1'', u_username = ''user1'', u_fullName = ''Usuario 1'', u_role = USER,
             u_department = ''Marketing'', u_email = ''user1@enterprise.com''\<rparr>;
       f = \<lparr>f_title = ''Impresora'', f_description = ''No imprime'', f_priority = LOW,
            f_category = ''Hardware'', f_station = ''Estacion 1'', f_area = ''Caja'', f_agentId = []\<rparr>;
       r = handleCreateTicket (\<lambda>n. n) f (init_client\<lparr>cl_user := Some (LoggedIn u)\<rparr>, init_server (\<lambda>n. n))
   in t_id (last (cl_tickets (fst r))) = ''T-1002'' \<and> \<not> cl_isCreating (fst r)"
proof -
  let ?u = "\<lparr>u_id = ''u1'', u_username = ''user1'', u_fullName = ''Usuario 1'', u_role = USER,
             u_department = ''Marketing'', u_email = ''user1@enterprise.com''\<rparr>"
  let ?c = "init_client\<lparr>cl_user := Some (LoggedIn ?u)\<rparr>"
  let ?f = "\<lparr>f_title = ''Impresora'', f_description = ''No imprime'', f_priority = LOW,
            f_category = ''Hardware'', f_station = ''Estacion 1'', f_area = ''Caja'', f_agentId = []\<rparr>"
  have u: "cl_user ?c = Some (LoggedIn ?u)" and role: "u_role ?u = USER" by simp_all
  have n: "ticket_id_of (length (tickets (init_server (\<lambda>n. n)))) = ''T-1002''"
    by (simp add: init_server_def ticket_id_of_def dec_large digit_char_def)
  from create_then_listed [OF u role surjective_pairing, where clk = "\<lambda>n. n"
         and f = ?f and s = "init_server (\<lambda>n. n)"] n
  show ?thesis unfolding Let_def by auto
qed

text \<open>A comment whose text is empty after trimming is not sent: client and server are unchanged.\<close>

theorem blank_comment_not_sent:
  "js_trim (cl_commentText c) = [] \<Longrightarrow> handleAddComment clk rnd (c, s) = (c, s)"
  by (simp add: handleAddComment_def split: option.splits)

theorem blank_comment_not_sent_witness:
  "let c = init_client\<lparr>cl_user := Some EmptyObject, cl_selectedTicket := Some (seed_ticket (\<lambda>n. n)),
                       cl_commentText := ''  ''\<rparr>
   in handleAddComment (\<lambda>n. n) ''rnd1'' (c, init_server (\<lambda>n. n)) = (c, init_server (\<lambda>n. n))"
proof -
  have "js_trim ''  '' = []" by (simp add: js_trim_def js_space_def)
  then show ?thesis unfolding Let_def by (intro blank_comment_not_sent) simp
qed

text \<open>Sending a non-blank comment on the selected ticket clears the input and refreshes the comment list, which ends with the new comment; the ticket store is unchanged.\<close>

theorem add_comment_shown:
  assumes u: "cl_user c = Some u" and t: "cl_selectedTicket c = Some t"
    and nb: "js_trim (cl_commentText c) \<noteq> []" and r: "handleAddComment clk rnd (c, s) = (c', s')"
  shows "cl_commentText c' = [] \<and> cl_comments c' = list_comments (t_id t) s' \<and>
         cl_comments c' \<noteq> [] \<and> c_text (last (cl_comments c')) = Some (cl_commentText c) \<and>
         tickets s' = tickets s"
proof -
  let ?b = "\<lparr>cm_userId = cu_id u, cm_userName = cu_fullName u, cm_text = Some (cl_commentText c)\<rparr>"
  obtain cm s1 where a: "add_comment clk rnd (t_id t) ?b s = (cm, s1)"
    by (cases "add_comment clk rnd (t_id t) ?b s")
  from add_comment_state [OF a] have st: "comments s1 = comments s @ [cm]" "tickets s1 = tickets s"
      "c_ticketId cm = t_id t" by blast+
  have ctext: "c_text cm = Some (cl_commentText c)" using a by (auto simp: add_comment_def Let_def)
  have "handleAddComment clk rnd (c, s) = (c\<lparr>cl_commentText := [], cl_comments := list_comments (t_id t) s1\<rparr>, s1)"
    using u t nb a by (simp add: handleAddComment_def res_ok_def fetchComments_eq)
  with r have c': "c' = c\<lparr>cl_commentText := [], cl_comments := list_comments (t_id t) s1\<rparr>" and "s' = s1"
    by auto
  moreover have "list_comments (t_id t) s1 = list_comments (t_id t) s @ [cm]"
    using st by (simp add: list_comments_def)
  ultimately show ?thesis using st(2) ctext by simp
qed

theorem add_comment_shown_witness:
  "let c = init_client\<lparr>cl_user := Some EmptyObject, cl_selectedTicket := Some (seed_ticket (\<lambda>n. n)),
                       cl_commentText := ''Gracias''\<rparr>;
       r = handleAddComment (\<lambda>n. n) ''k3x9a1'' (c, init_server (\<lambda>n. n))
   in cl_commentText (fst r) = [] \<and> c_text (last (cl_comments (fst r))) = Some ''Gracias''"
proof -
  let ?c = "init_client\<lparr>cl_user := Some EmptyObject, cl_selectedTicket := Some (seed_ticket (\<lambda>n. n)),
                       cl_commentText := ''Gracias''\<rparr>"
  have u: "cl_user ?c = Some EmptyObject" and t: "cl_selectedTicket ?c = Some (seed_ticket (\<lambda>n. n))"
    by simp_all
  have nb: "js_trim (cl_commentText ?c) \<noteq> []" by (simp add: js_trim_def js_space_def)
  from add_comment_shown [OF u t nb surjective_pairing, where clk = "\<lambda>n. n" and rnd = "''k3x9a1''"
         and s = "init_server (\<lambda>n. n)"]
  show ?thesis unfolding Let_def by auto
qed

text \<open>When an admin changes the status of an existing ticket, the selected ticket carries the new status, the listing is the whole store and the statistics are recomputed from the updated store.\<close>

theorem updateTicketStatus_admin:
  assumes u: "cl_user c = Some (LoggedIn u)" and adm: "u_role u = ADMIN"
    and t: "t \<in> set (tickets s)" and tid: "t_id t = tid"
    and r: "updateTicketStatus clk tid st (c, s) = (c', s')"
  shows "cl_stats c' = Some (get_stats (tickets s')) \<and> cl_tickets c' = tickets s' \<and>
         (\<exists>t'. cl_selectedTicket c' = Some t' \<and> t_status t' = st \<and> t' \<in> set (tickets s'))"
proof -
  let ?b = "\<lparr>p_status = Some st, p_agentId = None, p_agentName = None, p_priority = None,
            p_userId = Some (u_id u), p_userName = Some (u_fullName u)\<rparr>"
  have "patch_ticket clk tid ?b s \<noteq> Inl NotFound"
    using t tid by (auto simp: patch_ticket_Inl)
  then obtain t' s1 where p: "patch_ticket clk tid ?b s = Inr (t', s1)"
    by (metis (no_types) patch_ticket_Inl surj_pair sum.exhaust_sel)
  then obtain i where i: "i < length (tickets s)" "t' = apply_patch clk s ?b (tickets s ! i)"
      "tickets s1 = (tickets s)[i := t']"
    by (rule patch_ticket_Inr)
  have st': "t_status t' = st" using i(2) by simp
  have mem: "t' \<in> set (tickets s1)" using i by (simp add: set_update_memI)
  have "updateTicketStatus clk tid st (c, s) =
      (c\<lparr>cl_selectedTicket := Some t', cl_comments := list_comments (t_id t') s1,
         cl_tickets := tickets s1, cl_stats := Some (get_stats (tickets s1))\<rparr>, s1)"
    using patch_from_ui_Inr [OF p u, of True] u adm
    by (simp add: updateTicketStatus_def Let_def list_tickets_def fetchStats_admin)
  with r st' mem show ?thesis by auto
qed

theorem updateTicketStatus_admin_witness:
  "let u = \<lparr>u_id = ''admin1'', u_username = ''admin1'', u_fullName = ''Administrador 1'', u_role = ADMIN,
             u_department = ''IT Management'', u_email = ''admin1@enterprise.com''\<rparr>;
       r = updateTicketStatus (\<lambda>n. n) ''T-1001'' RESOLVED (init_client\<lparr>cl_user := Some (LoggedIn u)\<rparr>, init_server (\<lambda>n. n))
   in cl_stats (fst r) = Some (get_stats (tickets (snd r))) \<and>
      (\<exists>t'. cl_selectedTicket (fst r) = Some t' \<and> t_status t' = RESOLVED)"
proof -
  let ?u = "\<lparr>u_id = ''admin1'', u_username = ''admin1'', u_fullName = ''Administrador 1'', u_role = ADMIN,
             u_department = ''IT Management'', u_email = ''admin1@enterprise.com''\<rparr>"
  let ?c = "init_client\<lparr>cl_user := Some (LoggedIn ?u)\<rparr>"
  have u: "cl_user ?c = Some (LoggedIn ?u)" and adm: "u_role ?u = ADMIN" by simp_all
  have t: "seed_ticket (\<lambda>n. n) \<in> set (tickets (init_server (\<lambda>n. n)))" by (simp add: init_server_def)
  have tid: "t_id (seed_ticket (\<lambda>n. n)) = ''T-1001''" by (simp add: seed_ticket_def)
  from updateTicketStatus_admin [OF u adm t tid surjective_pairing, where clk = "\<lambda>n. n" and st = RESOLVED]
  show ?thesis unfolding Let_def by auto
qed

text \<open>Logging in with the name of an Object.prototype member (e.g. "toString") opens the dashboard with the empty object as user; the listing is the tickets whose creatorId is the string "undefined", and the server is unchanged.\<close>

theorem login_prototype_dashboard:
  assumes k: "k \<in> set object_prototype_keys" and r: "handleLogin clk k (c, s) = (c', s')"
  shows "cl_view c' = Dashboard \<and> cl_user c' = Some EmptyObject \<and> s' = s \<and>
         cl_tickets c' = filter (\<lambda>t. t_creatorId t = Some ''undefined'') (tickets s)"
proof -
  from login_inherited [OF k] have l: "login (Some k) = Inr EmptyObject" .
  have "handleLogin clk k (c, s) =
          (c\<lparr>cl_user := Some EmptyObject, cl_view := Dashboard,
             cl_tickets := filter (\<lambda>t. t_creatorId t = Some ''undefined'') (tickets s),
             cl_agents := get_agents\<rparr>, s)"
    using l by (simp add: handleLogin_def res_ok_def dashboard_effect_def fetchTickets_user
                          fetchStats_other fetchAgents_def list_tickets_def)
  with r show ?thesis by auto
qed

theorem login_prototype_dashboard_witness:
  "let r = handleLogin (\<lambda>n. n) ''toString'' (init_client, init_server (\<lambda>n. n))
   in cl_view (fst r) = Dashboard \<and> cl_user (fst r) = Some EmptyObject \<and> cl_tickets (fst r) = []"
proof -
  have k: "''toString'' \<in> set object_prototype_keys" by (simp add: object_prototype_keys_def)
  obtain c' s' where r: "handleLogin (\<lambda>n. n) ''toString'' (init_client, init_server (\<lambda>n. n)) = (c', s')"
    by (cases "handleLogin (\<lambda>n. n) ''toString'' (init_client, init_server (\<lambda>n. n))")
  from login_prototype_dashboard [OF k r]
  have "cl_view c' = Dashboard \<and> cl_user c' = Some EmptyObject \<and> cl_tickets c' = []"
    by (simp add: init_server_def seed_ticket_def)
  with r show ?thesis by (simp add: Let_def)
qed

text \<open>For a logged-in user with a non-empty id, the detail view never offers "Tomar Ticket" together with the assigned agent's actions, and never offers status controls to a plain user.\<close>

theorem detail_controls_exclusive:
  assumes "u_id u \<noteq> []"
  shows "\<not> (take_visible (Some (LoggedIn u)) t \<and> own_actions_visible (Some (LoggedIn u)) t) \<and>
         (u_role u = USER \<longrightarrow> \<not> controls_visible (Some (LoggedIn u)) t)"
  using assms by (auto simp: take_visible_def own_actions_visible_def controls_visible_def)

theorem detail_controls_exclusive_witness:
  "let u = \<lparr>u_id = ''a1'', u_username = ''agente1'', u_fullName = ''Agente IT 1'', u_role = AGENT,
             u_department = ''IT Support'', u_email = ''agente1@enterprise.com''\<rparr>
   in \<not> (take_visible (Some (LoggedIn u)) (seed_ticket (\<lambda>n. n)) \<and>
          own_actions_visible (Some (LoggedIn u)) (seed_ticket (\<lambda>n. n)))"
  unfolding Let_def using detail_controls_exclusive by simp

end
