(* ===== verification/Session.thy ===== *)
theory Session
  imports Client
begin

text \<open>
  The user's session in the single-page client of \<open>src/src/App.tsx\<close>: the
  actions the rendered views offer (the role cards of the landing page, the
  login form, the sidebar buttons, the creation form, the rows of the ticket
  table, the toolbar and the comment form of the detail view), each one a
  step on the pair of client and server state, offered only when the view
  that renders it is shown. \<open>ui_reachable\<close> is the set of states one browser
  session reaches from a fresh server. The last group of lemmas runs an admin session
  (log in as \<open>admin1\<close>, select a ticket, set its status) as a sequence of
  actions.
\<close>

section \<open>Actions\<close>

datatype ui_action =
    ChooseRole user_role
  | BackToLanding
  | SubmitLogin string
  | ShowDashboard
  | NewTicket
  | RefreshList
  | ChangeStation string
  | SubmitCreate create_form
  | CancelCreate
  | SelectTicket nat
  | CloseDetail
  | TakeTicket
  | SetStatus ticket_status
  | TypeComment string
  | SendComment string

text \<open>The main panel of the dashboard: the creation form when \<open>isCreating\<close>,
  else the detail of \<open>selectedTicket\<close> when there is one, else the ticket table.\<close>

definition detail_open :: "client \<Rightarrow> bool" where
  "detail_open c \<longleftrightarrow> cl_view c = Dashboard \<and> \<not> cl_isCreating c \<and> cl_selectedTicket c \<noteq> None"

definition list_open :: "client \<Rightarrow> bool" where
  "list_open c \<longleftrightarrow> cl_view c = Dashboard \<and> \<not> cl_isCreating c \<and> cl_selectedTicket c = None"

definition form_open :: "client \<Rightarrow> bool" where
  "form_open c \<longleftrightarrow> cl_view c = Dashboard \<and> cl_isCreating c"

text \<open>The browser's constraint validation of the creation form, which blocks
  the submit event unless it holds: \<open>station\<close>, \<open>area\<close>, \<open>category\<close>,
  \<open>title\<close> and \<open>description\<close> are \<open>required\<close> (a non-empty value), a
  select's value is one of its options (the stations, \<open>availableAreas\<close>,
  \<open>CATEGORIES\<close>, the empty "Pendiente" option or an agent of \<open>agents\<close>),
  and the station select's value is the \<open>selectedStation\<close> its
  \<open>onChange\<close> last stored. The priority select offers every member of the
  enum, which \<open>f_priority\<close> ranges over.\<close>

definition form_valid :: "client \<Rightarrow> create_form \<Rightarrow> bool" where
  "form_valid c f \<longleftrightarrow>
     f_station f \<noteq> [] \<and> f_station f \<in> set station_options \<and> f_station f = cl_selectedStation c \<and>
     f_area f \<noteq> [] \<and> f_area f \<in> set (cl_availableAreas c) \<and> f_category f \<in> set CATEGORIES \<and>
     f_title f \<noteq> [] \<and> f_description f \<noteq> [] \<and>
     (f_agentId f = [] \<or> f_agentId f \<in> set (map u_id (cl_agents c)))"

text \<open>One action. The detail toolbar offers "Tomar Ticket" under
  \<open>take_visible\<close> and the status select (every status; the two shortcut
  buttons set \<open>WAITING\<close> and \<open>RESOLVED\<close>, which the select offers too) under
  \<open>controls_visible\<close>. The login field is \<open>required\<close>.\<close>

fun ui_step :: "clock \<Rightarrow> ui_action \<Rightarrow> system \<Rightarrow> system" where
  "ui_step clk (ChooseRole r) (c, s) =
    (if cl_view c = Landing then (c\<lparr>cl_selectedRole := Some r, cl_view := LoginView\<rparr>, s) else (c, s))"
| "ui_step clk BackToLanding (c, s) =
    (if cl_view c \<noteq> Landing then (c\<lparr>cl_view := Landing\<rparr>, s) else (c, s))"
| "ui_step clk (SubmitLogin n) (c, s) =
    (if cl_view c = LoginView \<and> n \<noteq> [] then handleLogin clk n (c, s) else (c, s))"
| "ui_step clk ShowDashboard (c, s) =
    (if cl_view c = Dashboard then (c\<lparr>cl_selectedTicket := None, cl_isCreating := False\<rparr>, s) else (c, s))"
| "ui_step clk NewTicket (c, s) =
    (if cl_view c = Dashboard then (c\<lparr>cl_isCreating := True, cl_selectedTicket := None\<rparr>, s) else (c, s))"
| "ui_step clk RefreshList (c, s) =
    (if cl_view c = Dashboard \<and> map_option cu_role (cl_user c) = Some (Some AGENT)
     then fetchTickets clk (c\<lparr>cl_selectedTicket := None, cl_isCreating := False\<rparr>, s) else (c, s))"
| "ui_step clk (ChangeStation st) (c, s) =
    (if form_open c then (handleStationChange st c, s) else (c, s))"
| "ui_step clk (SubmitCreate f) (c, s) =
    (if form_open c \<and> form_valid c f then handleCreateTicket clk f (c, s) else (c, s))"
| "ui_step clk CancelCreate (c, s) =
    (if form_open c then (c\<lparr>cl_isCreating := False\<rparr>, s) else (c, s))"
| "ui_step clk (SelectTicket i) (c, s) =
    (if list_open c \<and> i < length (cl_tickets c)
     then selected_effect clk (c\<lparr>cl_selectedTicket := Some (cl_tickets c ! i)\<rparr>, s) else (c, s))"
| "ui_step clk CloseDetail (c, s) =
    (if detail_open c then (c\<lparr>cl_selectedTicket := None\<rparr>, s) else (c, s))"
| "ui_step clk TakeTicket (c, s) =
    (case cl_selectedTicket c of
       Some t \<Rightarrow> if detail_open c \<and> take_visible (cl_user c) t then assignToMe clk (t_id t) (c, s) else (c, s)
     | None \<Rightarrow> (c, s))"
| "ui_step clk (SetStatus st) (c, s) =
    (case cl_selectedTicket c of
       Some t \<Rightarrow> if detail_open c \<and> controls_visible (cl_user c) t
                 then updateTicketStatus clk (t_id t) st (c, s) else (c, s)
     | None \<Rightarrow> (c, s))"
| "ui_step clk (TypeComment txt) (c, s) =
    (if detail_open c then (c\<lparr>cl_commentText := txt\<rparr>, s) else (c, s))"
| "ui_step clk (SendComment rnd) (c, s) =
    (if detail_open c then handleAddComment clk rnd (c, s) else (c, s))"

definition ui_run :: "clock \<Rightarrow> ui_action list \<Rightarrow> system \<Rightarrow> system" where
  "ui_run clk as cs = fold (ui_step clk) as cs"

inductive ui_reachable :: "clock \<Rightarrow> system \<Rightarrow> bool" for clk where
  init: "ui_reachable clk (init_client, init_server clk)"
| step: "ui_reachable clk cs \<Longrightarrow> ui_reachable clk (ui_step clk a cs)"

text \<open>What the client shows is current: every row of the table and the
  selected ticket are tickets of the store as they are now.\<close>

definition view_fresh :: "system \<Rightarrow> bool" where
  "view_fresh cs \<longleftrightarrow>
     set (cl_tickets (fst cs)) \<subseteq> set (tickets (snd cs)) \<and>
     set_option (cl_selectedTicket (fst cs)) \<subseteq> set (tickets (snd cs))"

text \<open>The first seeded admin account, as \<open>POST /api/auth/login\<close> returns it.\<close>

definition admin1 :: user where
  "admin1 = \<lparr>u_id = ''admin1'', u_username = ''admin1'', u_fullName = ''Administrador 1'',
             u_role = ADMIN, u_department = ''IT Management'', u_email = ''admin1@enterprise.com''\<rparr>"

section \<open>Properties\<close>

lemma fetch_server [simp]:
  "snd (fetchTickets clk cs) = snd cs" "snd (fetchStats clk cs) = snd cs"
  "snd (fetchComments clk tid cs) = snd cs" "snd (fetchAgents clk cs) = snd cs"
  by (cases cs; simp add: fetchTickets_def fetchStats_def fetchComments_def fetchAgents_def split: option.splits)+

lemma effect_server [simp]:
  "snd (selected_effect clk cs) = snd cs" "snd (dashboard_effect clk cs) = snd cs"
  by (simp_all add: selected_effect_def dashboard_effect_def split: option.splits)

lemma fetch_keeps_view [simp]:
  "cl_tickets (fst (fetchStats clk cs)) = cl_tickets (fst cs)"
  "cl_selectedTicket (fst (fetchStats clk cs)) = cl_selectedTicket (fst cs)"
  "cl_tickets (fst (fetchComments clk tid cs)) = cl_tickets (fst cs)"
  "cl_selectedTicket (fst (fetchComments clk tid cs)) = cl_selectedTicket (fst cs)"
  "cl_tickets (fst (fetchAgents clk cs)) = cl_tickets (fst cs)"
  "cl_selectedTicket (fst (fetchAgents clk cs)) = cl_selectedTicket (fst cs)"
  "cl_selectedTicket (fst (fetchTickets clk cs)) = cl_selectedTicket (fst cs)"
  "cl_user (fst (fetchStats clk cs)) = cl_user (fst cs)"
  "cl_user (fst (fetchComments clk tid cs)) = cl_user (fst cs)"
  "cl_user (fst (fetchTickets clk cs)) = cl_user (fst cs)"
  by (cases cs; simp add: fetchTickets_def fetchStats_def fetchComments_def fetchAgents_def split: option.splits)+

lemma fetchTickets_rows:
  "set (cl_tickets (fst (fetchTickets clk cs))) \<subseteq> set (cl_tickets (fst cs)) \<union> set (tickets (snd cs))"
  by (cases cs) (auto simp: fetchTickets_def list_tickets_def split: option.splits)

lemma fresh_fetch [intro]:
  "view_fresh cs \<Longrightarrow> view_fresh (fetchTickets clk cs)"
  "view_fresh cs \<Longrightarrow> view_fresh (fetchStats clk cs)"
  "view_fresh cs \<Longrightarrow> view_fresh (fetchComments clk tid cs)"
  "view_fresh cs \<Longrightarrow> view_fresh (fetchAgents clk cs)"
  using fetchTickets_rows [of clk cs] by (auto simp: view_fresh_def)

lemma fresh_effect [intro]:
  "view_fresh cs \<Longrightarrow> view_fresh (selected_effect clk cs)"
  "view_fresh cs \<Longrightarrow> view_fresh (dashboard_effect clk cs)"
  by (auto simp: selected_effect_def dashboard_effect_def split: option.splits)

lemma handleLogin_cases:
  "handleLogin clk n (c, s) = (c, s) \<or>
   (\<exists>u. handleLogin clk n (c, s) = dashboard_effect clk (c\<lparr>cl_user := Some u, cl_view := Dashboard\<rparr>, s))"
  by (auto simp: handleLogin_def res_ok_def error_response_def split: sum.splits login_body.splits)

lemma fresh_handleLogin: "view_fresh cs \<Longrightarrow> view_fresh (handleLogin clk n cs)"
proof (cases cs)
  case (Pair c s)
  assume f: "view_fresh cs"
  have "\<And>u. view_fresh (c\<lparr>cl_user := u, cl_view := Dashboard\<rparr>, s)"
    using f Pair by (simp add: view_fresh_def)
  with handleLogin_cases [of clk n c s] f Pair show ?thesis
    by (metis fresh_effect(2))
qed

lemma handleCreateTicket_cases:
  "handleCreateTicket clk f (c, s) = (c, s) \<or>
   (\<exists>b t s'. create_ticket clk b s = (t, s') \<and>
      handleCreateTicket clk f (c, s) = fetchTickets clk (c\<lparr>cl_isCreating := False\<rparr>, s'))"
  by (auto simp: handleCreateTicket_def res_ok_def split: option.splits prod.splits)

lemma fresh_handleCreateTicket: "view_fresh cs \<Longrightarrow> view_fresh (handleCreateTicket clk f cs)"
proof (cases cs)
  case (Pair c s)
  assume f: "view_fresh cs"
  have "\<And>b t s'. create_ticket clk b s = (t, s') \<Longrightarrow> view_fresh (c\<lparr>cl_isCreating := False\<rparr>, s')"
    using f Pair by (auto simp: view_fresh_def dest!: create_ticket_state)
  with handleCreateTicket_cases [of clk f c s] f Pair show ?thesis
    by (metis fresh_fetch(1))
qed

lemma server_handleCreateTicket:
  "snd (handleCreateTicket clk f cs) = snd cs \<or> (\<exists>r. snd (handleCreateTicket clk f cs) = snd (handle clk r (snd cs)))"
proof (cases cs)
  case (Pair c s)
  from handleCreateTicket_cases [of clk f c s] show ?thesis
  proof (elim disjE exE conjE)
    fix b t s' assume "create_ticket clk b s = (t, s')"
      and "handleCreateTicket clk f (c, s) = fetchTickets clk (c\<lparr>cl_isCreating := False\<rparr>, s')"
    then have "snd (handleCreateTicket clk f cs) = snd (handle clk (PostTicket b) (snd cs))"
      using Pair by simp
    then show ?thesis by blast
  qed (simp add: Pair)
qed

lemma server_patch_from_ui:
  "snd (patch_from_ui clk tid b w cs) = snd (handle clk (PatchTicket tid b) (snd cs))"
  by (cases cs) (auto simp: patch_from_ui_def Let_def split: prod.splits json.splits)

lemma fresh_patch_from_ui:
  assumes f: "view_fresh (c, s)" and u: "cl_user c = Some u"
  shows "view_fresh (patch_from_ui clk tid b w (c, s))"
proof (cases "patch_ticket clk tid b s")
  case (Inl e)
  then show ?thesis using f by (simp add: patch_from_ui_Inl)
next
  case (Inr r)
  then obtain t s' where p: "patch_ticket clk tid b s = Inr (t, s')" by (cases r) auto
  then obtain i where i: "i < length (tickets s)" "tickets s' = (tickets s)[i := t]"
    by (rule patch_ticket_Inr)
  have "view_fresh (c\<lparr>cl_selectedTicket := Some t, cl_comments := list_comments (t_id t) s',
                     cl_tickets := list_tickets (Some (js_show (cu_id u)))
                                     (Some (js_show (map_option role_str (cu_role u)))) s'\<rparr>, s')"
    using i by (auto simp: view_fresh_def list_tickets_def set_update_memI)
  then show ?thesis
    using patch_from_ui_Inr [OF p u, of w] by (auto simp: Let_def)
qed

lemma handleAddComment_cases:
  "handleAddComment clk rnd (c, s) = (c, s) \<or>
   (\<exists>tid b cm s'. add_comment clk rnd tid b s = (cm, s') \<and>
      (handleAddComment clk rnd (c, s) = fetchComments clk tid (c\<lparr>cl_commentText := []\<rparr>, s') \<or>
       handleAddComment clk rnd (c, s) = (c, s')))"
  by (auto simp: handleAddComment_def split: option.splits prod.splits)

lemma fresh_handleAddComment: "view_fresh cs \<Longrightarrow> view_fresh (handleAddComment clk rnd cs)"
proof (cases cs)
  case (Pair c s)
  assume f: "view_fresh cs"
  have "\<And>tid b cm s'. add_comment clk rnd tid b s = (cm, s') \<Longrightarrow>
          view_fresh (c\<lparr>cl_commentText := []\<rparr>, s') \<and> view_fresh (c, s')"
    using f Pair by (auto simp: view_fresh_def dest!: add_comment_state)
  with handleAddComment_cases [of clk rnd c s] f Pair show ?thesis
    by (metis fresh_fetch(3))
qed

lemma server_handleAddComment:
  "snd (handleAddComment clk rnd cs) = snd cs \<or> (\<exists>r. snd (handleAddComment clk rnd cs) = snd (handle clk r (snd cs)))"
proof (cases cs)
  case (Pair c s)
  from handleAddComment_cases [of clk rnd c s] show ?thesis
  proof (elim disjE exE conjE)
    fix tid b cm s' assume a: "add_comment clk rnd tid b s = (cm, s')"
    then have "snd (handle clk (PostComment tid b rnd) s) = s'" by simp
    moreover assume "handleAddComment clk rnd (c, s) = fetchComments clk tid (c\<lparr>cl_commentText := []\<rparr>, s')"
    ultimately show ?thesis using Pair by (metis fetch_server(3) snd_conv)
  next
    fix tid b cm s' assume a: "add_comment clk rnd tid b s = (cm, s')"
    then have "snd (handle clk (PostComment tid b rnd) s) = s'" by simp
    moreover assume "handleAddComment clk rnd (c, s) = (c, s')"
    ultimately show ?thesis using Pair by (metis snd_conv)
  qed (simp add: Pair)
qed

lemma fresh_updateTicketStatus: "view_fresh cs \<Longrightarrow> view_fresh (updateTicketStatus clk tid st cs)"
  by (cases cs) (auto simp: updateTicketStatus_def intro: fresh_patch_from_ui split: option.splits)

lemma fresh_assignToMe: "view_fresh cs \<Longrightarrow> view_fresh (assignToMe clk tid cs)"
  by (cases cs) (auto simp: assignToMe_def intro: fresh_patch_from_ui split: option.splits)

lemma server_updateTicketStatus:
  "snd (updateTicketStatus clk tid st cs) = snd cs \<or> (\<exists>r. snd (updateTicketStatus clk tid st cs) = snd (handle clk r (snd cs)))"
proof (cases "cl_user (fst cs)")
  case None
  then show ?thesis by (simp add: updateTicketStatus_def)
next
  case (Some u)
  then show ?thesis unfolding updateTicketStatus_def Some option.case using server_patch_from_ui by blast
qed

lemma server_assignToMe:
  "snd (assignToMe clk tid cs) = snd cs \<or> (\<exists>r. snd (assignToMe clk tid cs) = snd (handle clk r (snd cs)))"
proof (cases "cl_user (fst cs)")
  case None
  then show ?thesis by (simp add: assignToMe_def)
next
  case (Some u)
  then show ?thesis unfolding assignToMe_def Some option.case using server_patch_from_ui by blast
qed

lemma server_handleLogin: "snd (handleLogin clk n cs) = snd cs"
  using handleLogin_cases [of clk n "fst cs" "snd cs"] by auto

lemma ui_step_server:
  "snd (ui_step clk a (c, s)) = s \<or> (\<exists>r. snd (ui_step clk a (c, s)) = snd (handle clk r s))"
proof (cases a)
  case (SubmitLogin n)
  then show ?thesis using server_handleLogin [of clk n "(c, s)"] by simp
next
  case (SubmitCreate f)
  then show ?thesis using server_handleCreateTicket [of clk f "(c, s)"] by auto
next
  case TakeTicket
  then show ?thesis using server_assignToMe [of clk _ "(c, s)"] by (auto split: option.splits)
next
  case (SetStatus st)
  then show ?thesis using server_updateTicketStatus [of clk _ st "(c, s)"] by (auto split: option.splits)
next
  case (SendComment rnd)
  then show ?thesis using server_handleAddComment [of clk rnd "(c, s)"] by auto
qed simp_all

lemma ui_step_fresh:
  assumes f: "view_fresh (c, s)"
  shows "view_fresh (ui_step clk a (c, s))"
proof (cases a)
  case (SelectTicket i)
  have "i < length (cl_tickets c) \<Longrightarrow> view_fresh (c\<lparr>cl_selectedTicket := Some (cl_tickets c ! i)\<rparr>, s)"
    using f nth_mem [of i "cl_tickets c"] by (auto simp: view_fresh_def)
  with f SelectTicket show ?thesis by (auto intro: fresh_effect(1))
next
  case (SubmitLogin n)
  with f show ?thesis by (simp add: fresh_handleLogin)
next
  case (SubmitCreate fm)
  with f show ?thesis by (simp add: fresh_handleCreateTicket)
next
  case TakeTicket
  with f show ?thesis by (simp add: fresh_assignToMe split: option.splits)
next
  case (SetStatus st)
  with f show ?thesis by (simp add: fresh_updateTicketStatus split: option.splits)
next
  case (SendComment rnd)
  with f show ?thesis by (simp add: fresh_handleAddComment)
next
  case RefreshList
  have "view_fresh (c\<lparr>cl_selectedTicket := None, cl_isCreating := False\<rparr>, s)"
    using f by (simp add: view_fresh_def)
  with f RefreshList show ?thesis by (simp add: fresh_fetch(1))
qed (use f in \<open>simp_all add: view_fresh_def handleStationChange_def\<close>)

lemma ui_reachable_reachable: "ui_reachable clk cs \<Longrightarrow> reachable clk (snd cs)"
proof (induction rule: ui_reachable.induct)
  case init
  show ?case by (simp add: reachable.init)
next
  case (step cs a)
  obtain c s where cs: "cs = (c, s)" by (cases cs)
  from ui_step_server [of clk a c s] step.IH cs show ?case
    by (auto intro: reachable.step [OF _ surjective_pairing])
qed

lemma ui_reachable_run: "ui_reachable clk cs \<Longrightarrow> ui_reachable clk (ui_run clk as cs)"
proof (induction as arbitrary: cs)
  case Nil
  then show ?case by (simp add: ui_run_def)
next
  case (Cons a as)
  then show ?case by (simp add: ui_run_def ui_reachable.step)
qed

lemma ui_reachable_view_fresh: "ui_reachable clk cs \<Longrightarrow> view_fresh cs"
proof (induction rule: ui_reachable.induct)
  case init
  show ?case by (simp add: view_fresh_def init_client_def)
next
  case (step cs a)
  then show ?case by (cases cs) (simp add: ui_step_fresh)
qed

lemma ui_run_append: "ui_run clk (as @ bs) cs = ui_run clk bs (ui_run clk as cs)"
  by (simp add: ui_run_def)

lemma reachable_ids_distinct: "reachable clk s \<Longrightarrow> distinct (map t_id (tickets s))"
proof -
  assume "reachable clk s"
  from reachable_invs [OF this]
  have "map t_id (tickets s) = map ticket_id_of [0..<length (tickets s)]"
    by (simp add: ids_inv_def)
  moreover have "inj ticket_id_of" by (rule injI) (simp add: ticket_id_of_inj)
  ultimately show ?thesis by (simp add: distinct_map inj_on_subset [of _ UNIV])
qed

lemma ui_reachable_ids_distinct: "ui_reachable clk cs \<Longrightarrow> distinct (map t_id (tickets (snd cs)))"
  by (rule reachable_ids_distinct [OF ui_reachable_reachable])

subsection \<open>An admin session\<close>

lemma login_admin1: "login (Some ''admin1'') = Inr (LoggedIn admin1)"
proof -
  have m: "(''admin'' @ dec 1, mk_admin 1) \<in> set MOCK_USERS"
    unfolding MOCK_USERS_enum set_append set_map by (intro UnI2 imageI) simp
  have "''admin'' @ dec 1 = ''admin1''" by (simp add: digit_char_def)
  with map_of_is_SomeI [OF MOCK_USERS_keys_distinct m] show ?thesis
    by (simp add: login_own mk_admin_def admin1_def digit_char_def user.truncate_def)
qed

lemma admin_session_open:
  "\<exists>c'. ui_run clk [BackToLanding, ChooseRole ADMIN, SubmitLogin ''admin1'', ShowDashboard] (c, s) = (c', s) \<and>
        cl_user c' = Some (LoggedIn admin1) \<and> cl_tickets c' = tickets s \<and> list_open c'"
  by (simp add: ui_run_def handleLogin_def login_admin1 res_ok_def dashboard_effect_def fetchTickets_def
                fetchStats_def fetchAgents_def list_tickets_def list_open_def admin1_def)

lemma admin_sets_selected:
  assumes u: "cl_user c = Some (LoggedIn admin1)" and l: "cl_tickets c = tickets s" and o: "list_open c"
    and i: "i < length (tickets s)" and d: "distinct (map t_id (tickets s))"
    and st: "t_status (tickets s ! i) \<noteq> CLOSED"
  shows "tickets (snd (ui_run clk [SelectTicket i, SetStatus st'] (c, s))) =
           (tickets s)[i := apply_patch clk s
              \<lparr>p_status = Some st', p_agentId = None, p_agentName = None, p_priority = None,
               p_userId = Some ''admin1'', p_userName = Some ''Administrador 1''\<rparr> (tickets s ! i)]"
proof -
  let ?t = "tickets s ! i"
  let ?b = "\<lparr>p_status = Some st', p_agentId = None, p_agentName = None, p_priority = None,
            p_userId = Some ''admin1'', p_userName = Some ''Administrador 1''\<rparr>"
  let ?c1 = "c\<lparr>cl_selectedTicket := Some ?t, cl_comments := list_comments (t_id ?t) s\<rparr>"
  have sel: "ui_step clk (SelectTicket i) (c, s) = (?c1, s)"
    using o i l by (simp add: selected_effect_Some fetchComments_eq)
  have f: "findIndex (\<lambda>t. t_id t = t_id ?t) (tickets s) = Some i"
    using findIndex_distinct [OF d i] .
  have "snd (ui_step clk (SetStatus st') (?c1, s)) = snd (handle clk (PatchTicket (t_id ?t) ?b) s)"
    using o u st by (simp add: list_open_def detail_open_def controls_visible_def updateTicketStatus_def
                               server_patch_from_ui admin1_def del: handle.simps)
  with sel f show ?thesis by (simp add: ui_run_def patch_ticket_def Let_def)
qed

lemma patch_keeps_other:
  assumes "t \<in> set (tickets s)" and "t_id t \<noteq> tid"
  shows "t \<in> set (tickets (snd (handle clk (PatchTicket tid b) s)))"
proof (cases "patch_ticket clk tid b s")
  case (Inl e)
  with assms show ?thesis by simp
next
  case (Inr p)
  then obtain t' s' where p: "patch_ticket clk tid b s = Inr (t', s')" by (cases p) auto
  then obtain i where i: "t_id (tickets s ! i) = tid" "tickets s' = (tickets s)[i := t']"
    by (rule patch_ticket_Inr)
  from assms(1) obtain k where k: "k < length (tickets s)" "tickets s ! k = t"
    by (auto simp: in_set_conv_nth)
  with i assms(2) have "k \<noteq> i" by auto
  with k i have "tickets s' ! k = t" "k < length (tickets s')" by simp_all
  with p show ?thesis by (auto simp: in_set_conv_nth)
qed

lemma closed_not_patched:
  assumes d: "distinct (map t_id (tickets s))" and t: "t \<in> set (tickets s)" and cl: "t_status t = CLOSED"
    and t1: "t1 \<in> set (tickets s)" and o: "t_status t1 \<noteq> CLOSED"
  shows "t \<in> set (tickets (snd (handle clk (PatchTicket (t_id t1) b) s)))"
proof -
  have "t_id t \<noteq> t_id t1"
  proof
    assume "t_id t = t_id t1"
    with d t t1 have "t = t1" by (auto simp: distinct_map inj_on_def)
    with cl o show False by simp
  qed
  with t show ?thesis by (rule patch_keeps_other)
qed

lemma admin_closes_seed:
  "let W = ui_run (\<lambda>n. n) [BackToLanding, ChooseRole ADMIN, SubmitLogin ''admin1'', ShowDashboard,
                              SelectTicket 0, SetStatus CLOSED] (init_client, init_server (\<lambda>n. n))
   in ui_reachable (\<lambda>n. n) (fst W, snd W) \<and> tickets (snd W) \<noteq> [] \<and> t_status (tickets (snd W) ! 0) = CLOSED"
proof -
  let ?s = "init_server (\<lambda>n. n)"
  obtain c' where c': "ui_run (\<lambda>n. n) [BackToLanding, ChooseRole ADMIN, SubmitLogin ''admin1'', ShowDashboard]
                         (init_client, ?s) = (c', ?s)"
      "cl_user c' = Some (LoggedIn admin1)" "cl_tickets c' = tickets ?s" "list_open c'"
    using admin_session_open by blast
  have i: "0 < length (tickets ?s)" and d: "distinct (map t_id (tickets ?s))"
    and st: "t_status (tickets ?s ! 0) \<noteq> CLOSED" by (simp_all add: init_server_def seed_ticket_def)
  have r: "ui_reachable (\<lambda>n. n) (ui_run (\<lambda>n. n) [BackToLanding, ChooseRole ADMIN, SubmitLogin ''admin1'',
             ShowDashboard, SelectTicket 0, SetStatus CLOSED] (init_client, ?s))"
    by (rule ui_reachable_run [OF ui_reachable.init])
  from admin_sets_selected [OF c'(2,3,4) i d st, of "\<lambda>n. n" CLOSED] c'(1) i r show ?thesis
    by (simp add: Let_def ui_run_append [of "\<lambda>n. n" "[BackToLanding, ChooseRole ADMIN, SubmitLogin ''admin1'', ShowDashboard]"
                                  "[SelectTicket 0, SetStatus CLOSED]", simplified])
qed

end
