(* ===== verification/Typing.thy ===== *)
theory Typing
  imports Session
begin

text \<open>
  The interfaces of \<open>src/src/types.ts\<close> as well-formedness predicates on the
  model's values: a field that the interface declares without \<open>?\<close> must not
  be \<open>undefined\<close>. The server copies request-body fields into the store
  without checking them, so the store is well typed only as long as the
  requests are; the client builds well-typed requests when a real account
  is logged in.
\<close>

section \<open>The interfaces\<close>

text \<open>\<open>Ticket.history[i]\<close>: \<open>userId\<close> and \<open>userName\<close> are strings.\<close>

definition wf_entry :: "history_entry \<Rightarrow> bool" where
  "wf_entry h \<longleftrightarrow> h_userId h \<noteq> None \<and> h_userName h \<noteq> None"

text \<open>\<open>interface Ticket\<close>: \<open>station\<close>, \<open>area\<close>, \<open>agentId\<close>, \<open>agentName\<close> and
  \<open>resolvedAt\<close> are optional, every other field is required.\<close>

definition wf_ticket :: "ticket \<Rightarrow> bool" where
  "wf_ticket t \<longleftrightarrow>
     t_title t \<noteq> None \<and> t_description t \<noteq> None \<and> t_priority t \<noteq> None \<and>
     t_category t \<noteq> None \<and> t_creatorId t \<noteq> None \<and> t_creatorName t \<noteq> None \<and>
     t_creatorEmail t \<noteq> None \<and> t_creatorDept t \<noteq> None \<and> list_all wf_entry (t_history t)"

text \<open>\<open>interface TicketComment\<close>: every field is required.\<close>

definition wf_comment :: "comment \<Rightarrow> bool" where
  "wf_comment c \<longleftrightarrow> c_userId c \<noteq> None \<and> c_userName c \<noteq> None \<and> c_text c \<noteq> None"

definition wf_server :: "server \<Rightarrow> bool" where
  "wf_server s \<longleftrightarrow> list_all wf_ticket (tickets s) \<and> list_all wf_comment (comments s)"

text \<open>A request body carries the fields the stored value requires.\<close>

definition create_req_wf :: "create_req \<Rightarrow> bool" where
  "create_req_wf b \<longleftrightarrow>
     cr_title b \<noteq> None \<and> cr_description b \<noteq> None \<and> cr_priority b \<noteq> None \<and>
     cr_category b \<noteq> None \<and> cr_creatorId b \<noteq> None \<and> cr_creatorName b \<noteq> None \<and>
     cr_creatorEmail b \<noteq> None \<and> cr_creatorDept b \<noteq> None"

definition patch_req_wf :: "patch_req \<Rightarrow> bool" where
  "patch_req_wf b \<longleftrightarrow> p_userId b \<noteq> None \<and> p_userName b \<noteq> None"

definition comment_req_wf :: "comment_req \<Rightarrow> bool" where
  "comment_req_wf b \<longleftrightarrow> cm_userId b \<noteq> None \<and> cm_userName b \<noteq> None \<and> cm_text b \<noteq> None"

fun req_wf :: "api_request \<Rightarrow> bool" where
  "req_wf (PostTicket b) = create_req_wf b"
| "req_wf (PatchTicket tid b) = patch_req_wf b"
| "req_wf (PostComment tid b rnd) = comment_req_wf b"
| "req_wf _ = True"

section \<open>Properties\<close>

lemma wf_create_ticket:
  assumes "create_ticket clk b s = (t, s')"
  shows "wf_ticket t \<longleftrightarrow> create_req_wf b"
  using assms by (cases "truthy (cr_agentId b)")
    (auto simp: create_ticket_def new_ticket_def Let_def wf_ticket_def wf_entry_def create_req_wf_def)

lemma wf_apply_patch:
  "wf_ticket t \<Longrightarrow> patch_req_wf b \<Longrightarrow> wf_ticket (apply_patch clk s b t)"
  by (simp add: apply_patch_def Let_def wf_ticket_def wf_entry_def patch_req_wf_def split: option.splits)

lemma wf_handle:
  assumes wf: "wf_server s" and r: "req_wf r"
  shows "wf_server (snd (handle clk r s))"
proof -
  obtain resp s' where h: "handle clk r s = (resp, s')" by (cases "handle clk r s")
  have "wf_server s'"
  proof (cases r)
    case (PostTicket b)
    obtain t s1 where c: "create_ticket clk b s = (t, s1)" by (cases "create_ticket clk b s")
    with h PostTicket have "s' = s1" by simp
    with create_ticket_state [OF c] wf_create_ticket [OF c] wf r PostTicket show ?thesis
      by (simp add: wf_server_def)
  next
    case (PatchTicket tid b)
    show ?thesis
    proof (cases "patch_ticket clk tid b s")
      case (Inl e)
      with h PatchTicket wf show ?thesis by simp
    next
      case (Inr p)
      then obtain t s1 where p: "patch_ticket clk tid b s = Inr (t, s1)" by (cases p) auto
      then obtain i where i: "i < length (tickets s)" "t = apply_patch clk s b (tickets s ! i)"
          "tickets s1 = (tickets s)[i := t]" "comments s1 = comments s"
        by (rule patch_ticket_Inr)
      from h PatchTicket p have "s' = s1" by simp
      moreover have "wf_ticket t"
        using i wf r PatchTicket by (simp add: wf_server_def list_all_length wf_apply_patch)
      ultimately show ?thesis using i wf by (simp add: wf_server_def list_all_update)
    qed
  next
    case (PostComment tid b rnd)
    obtain cm s1 where a: "add_comment clk rnd tid b s = (cm, s1)" by (cases "add_comment clk rnd tid b s")
    with h PostComment have "s' = s1" by simp
    moreover have "wf_comment cm"
      using a r PostComment by (auto simp: add_comment_def Let_def wf_comment_def comment_req_wf_def)
    ultimately show ?thesis using add_comment_state [OF a] wf by (simp add: wf_server_def)
  qed (use h wf in \<open>auto split: sum.splits login_body.splits\<close>)
  with h show ?thesis by simp
qed

lemma create_body_wf: "create_req_wf (create_body ags (LoggedIn u) f)"
  by (simp add: create_body_def create_req_wf_def Let_def)

lemma server_handleCreateTicket_user:
  "cl_user c = Some u \<Longrightarrow>
   snd (handleCreateTicket clk f (c, s)) = snd (handle clk (PostTicket (create_body (cl_agents c) u f)) s)"
  by (auto simp: handleCreateTicket_def split: prod.splits)

lemma server_handleAddComment_user:
  assumes "cl_user c = Some u" and "cl_selectedTicket c = Some t"
  shows "snd (handleAddComment clk rnd (c, s)) = s \<or>
         snd (handleAddComment clk rnd (c, s)) =
           snd (handle clk (PostComment (t_id t) \<lparr>cm_userId = cu_id u, cm_userName = cu_fullName u,
                                                   cm_text = Some (cl_commentText c)\<rparr> rnd) s)"
  using assms by (auto simp: handleAddComment_def split: prod.splits)

lemma ui_step_requests_wf:
  assumes "cl_user c \<noteq> Some EmptyObject"
  shows "snd (ui_step clk a (c, s)) = s \<or> (\<exists>r. req_wf r \<and> snd (ui_step clk a (c, s)) = snd (handle clk r s))"
proof (cases a)
  case (SubmitLogin n)
  then show ?thesis using server_handleLogin [of clk n "(c, s)"] by simp
next
  case (SubmitCreate f)
  show ?thesis
  proof (cases "cl_user c")
    case (Some u)
    with assms obtain x where "u = LoggedIn x" by (cases u) auto
    then have "req_wf (PostTicket (create_body (cl_agents c) u f))" by (simp add: create_body_wf)
    moreover have "snd (ui_step clk a (c, s)) = s \<or>
        snd (ui_step clk a (c, s)) = snd (handle clk (PostTicket (create_body (cl_agents c) u f)) s)"
      using server_handleCreateTicket_user [OF Some, of clk f s] SubmitCreate
      by (simp del: handle.simps)
    ultimately show ?thesis by blast
  qed (simp add: SubmitCreate handleCreateTicket_def)
next
  case TakeTicket
  show ?thesis
  proof (cases "cl_user c")
    case (Some u)
    with assms obtain x where "u = LoggedIn x" by (cases u) auto
    with Some TakeTicket show ?thesis
      by (force simp: assignToMe_def server_patch_from_ui patch_req_wf_def simp del: handle.simps split: option.splits)
  qed (auto simp: TakeTicket assignToMe_def split: option.splits)
next
  case (SetStatus st)
  show ?thesis
  proof (cases "cl_user c")
    case (Some u)
    with assms obtain x where "u = LoggedIn x" by (cases u) auto
    with Some SetStatus show ?thesis
      by (force simp: updateTicketStatus_def server_patch_from_ui patch_req_wf_def simp del: handle.simps split: option.splits)
  qed (auto simp: SetStatus updateTicketStatus_def split: option.splits)
next
  case (SendComment rnd)
  show ?thesis
  proof (cases "cl_user c")
    case (Some u)
    with assms obtain x where x: "u = LoggedIn x" by (cases u) auto
    show ?thesis
    proof (cases "cl_selectedTicket c")
      case (Some t)
      from server_handleAddComment_user [OF \<open>cl_user c = Some u\<close> Some, of clk rnd s] x SendComment
      show ?thesis by (force simp: comment_req_wf_def simp del: handle.simps)
    qed (simp add: SendComment handleAddComment_def split: option.splits)
  qed (simp add: SendComment handleAddComment_def)
qed simp_all

text \<open>(C14) While a real account is logged in, every action of the session keeps the store well typed: the client sends every field the Ticket and TicketComment interfaces require.\<close>

theorem session_keeps_store_typed:
  assumes "wf_server s" and "cl_user c \<noteq> Some EmptyObject"
  shows "wf_server (snd (ui_step clk a (c, s)))"
  using ui_step_requests_wf [OF assms(2), of clk a s] wf_handle [OF assms(1)] assms(1) by auto

theorem session_keeps_store_typed_witness:
  "wf_server (snd (ui_step (\<lambda>n. n) (ChooseRole USER) (init_client, init_server (\<lambda>n. n))))"
proof -
  have "wf_server (init_server (\<lambda>n. n))"
    by (simp add: wf_server_def init_server_def seed_ticket_def wf_ticket_def wf_entry_def)
  moreover have "cl_user init_client \<noteq> Some EmptyObject" by (simp add: init_client_def)
  ultimately show ?thesis by (rule session_keeps_store_typed)
qed

text \<open>(C24) The server does not validate a creation body: a body missing a field the Ticket interface requires is stored as a ticket with that field undefined.\<close>

theorem create_unvalidated:
  assumes "\<not> create_req_wf b"
  shows "\<not> wf_server (snd (handle clk (PostTicket b) s))"
proof -
  obtain t s' where c: "create_ticket clk b s = (t, s')" by (cases "create_ticket clk b s")
  with wf_create_ticket [OF c] assms have "\<not> wf_ticket t" by simp
  with create_ticket_state [OF c] c show ?thesis by (simp add: wf_server_def)
qed

theorem create_unvalidated_witness:
  "\<not> wf_server (snd (handle (\<lambda>n. n) (PostTicket
      \<lparr>cr_title = None, cr_description = None, cr_priority = None, cr_category = None,
       cr_creatorId = None, cr_creatorName = None, cr_creatorEmail = None, cr_creatorDept = None,
       cr_agentId = None, cr_agentName = None, cr_station = None, cr_area = None\<rparr>) (init_server (\<lambda>n. n))))"
  by (rule create_unvalidated) (simp add: create_req_wf_def)

end
