(* ===== verification/Views.thy ===== *)
theory Views
  imports Typing
begin

text \<open>
  What the dashboard of \<open>src/src/App.tsx\<close> renders from the client state:
  the header title, the sidebar avatar, the admin statistics cards, the
  ticket table, and the detail view with its comments and history. Rendering
  is a function into \<open>render_error + _\<close>: the JSX reads
  \<open>x.charAt(0)\<close> on \<open>creatorName\<close>, \<open>userName\<close> and \<open>user?.fullName\<close>, and
  on an \<open>undefined\<close> value that call throws a \<open>TypeError\<close>, which unmounts
  the whole React tree. Markup and CSS classes are left out.
\<close>

section \<open>Rendering primitives\<close>

datatype render_error = TypeError

text \<open>\<open>s.charAt(0)\<close>: the first character, \<open>''''\<close> on the empty string, a
  \<open>TypeError\<close> on \<open>undefined\<close>.\<close>

definition charAt0 :: "jstr \<Rightarrow> render_error + string" where
  "charAt0 v = (case v of None \<Rightarrow> Inl TypeError | Some s \<Rightarrow> Inr (take 1 s))"

text \<open>\<open>v || d\<close> on a string-or-undefined.\<close>

definition or_default :: "jstr \<Rightarrow> string \<Rightarrow> string" where
  "or_default v d = (case v of Some s \<Rightarrow> if s \<noteq> [] then s else d | None \<Rightarrow> d)"

text \<open>\<open>xs.map(f)\<close> where \<open>f\<close> may throw: the first exception propagates.\<close>

fun render_all :: "('a \<Rightarrow> render_error + 'b) \<Rightarrow> 'a list \<Rightarrow> render_error + 'b list" where
  "render_all f [] = Inr []"
| "render_all f (x # xs) =
    (case f x of
       Inl e \<Rightarrow> Inl e
     | Inr y \<Rightarrow> (case render_all f xs of Inl e \<Rightarrow> Inl e | Inr ys \<Rightarrow> Inr (y # ys)))"

text \<open>\<open>user?.fullName.charAt(0)\<close>: optional chaining makes the whole
  expression \<open>undefined\<close> when there is no user, but not when the user is an
  object without \<open>fullName\<close>.\<close>

definition user_initial :: "login_body option \<Rightarrow> render_error + string" where
  "user_initial u = (case u of None \<Rightarrow> Inr [] | Some b \<Rightarrow> charAt0 (cu_fullName b))"

section \<open>Badges\<close>

text \<open>The colour tables of \<open>src/src/constants.ts\<close>: object literals whose
  computed keys are the enum values.\<close>

definition PRIORITY_COLORS :: "(string \<times> string) list" where
  "PRIORITY_COLORS =
    [(priority_str LOW, ''bg-blue-100 text-blue-800 border-blue-200''),
     (priority_str MEDIUM, ''bg-yellow-100 text-yellow-800 border-yellow-200''),
     (priority_str HIGH, ''bg-orange-100 text-orange-800 border-orange-200''),
     (priority_str CRITICAL, ''bg-red-100 text-red-800 border-red-200'')]"

definition STATUS_COLORS :: "(string \<times> string) list" where
  "STATUS_COLORS =
    [(status_str OPEN, ''bg-emerald-100 text-emerald-800 border-emerald-200''),
     (status_str IN_PROGRESS, ''bg-blue-100 text-blue-800 border-blue-200''),
     (status_str WAITING, ''bg-amber-100 text-amber-800 border-amber-200''),
     (status_str ESCALATED, ''bg-purple-100 text-purple-800 border-purple-200''),
     (status_str RESOLVED, ''bg-gray-100 text-gray-800 border-gray-200''),
     (status_str CLOSED, ''bg-slate-200 text-slate-900 border-slate-300'')]"

text \<open>\<open>Badge\<close>: its \<open>className\<close> is interpolated into the template literal,
  so a missing class renders as the word \<open>undefined\<close>.\<close>

definition badge_class :: "jstr \<Rightarrow> string" where
  "badge_class cls = ''px-2.5 py-0.5 rounded-full text-xs font-medium border '' @ js_show cls"

text \<open>\<open>STATUS_COLORS[ticket.status]\<close> and \<open>PRIORITY_COLORS[ticket.priority]\<close>:
  a missing priority is looked up under the key \<open>undefined\<close>. No key looked
  up is a property of \<open>Object.prototype\<close> (\<open>badge_keys_own\<close>), so the
  lookup is that of the own properties.\<close>

definition status_badge :: "ticket \<Rightarrow> string" where
  "status_badge t = badge_class (map_of STATUS_COLORS (status_str (t_status t)))"

definition priority_badge :: "ticket \<Rightarrow> string" where
  "priority_badge t = badge_class (map_of PRIORITY_COLORS (js_show (map_option priority_str (t_priority t))))"

section \<open>The dashboard\<close>

text \<open>The header title.\<close>

definition header_title :: "client \<Rightarrow> string" where
  "header_title c =
    (if cl_isCreating c then ''Crear Nuevo Ticket''
     else case cl_selectedTicket c of Some t \<Rightarrow> ''Ticket '' @ t_id t | None \<Rightarrow> ''Dashboard Principal'')"

text \<open>The four statistics cards, shown to an admin once \<open>stats\<close> is loaded.\<close>

definition admin_cards :: "client \<Rightarrow> (string \<times> nat) list" where
  "admin_cards c =
    (case (map_option cu_role (cl_user c), cl_stats c) of
       (Some (Some ADMIN), Some st) \<Rightarrow>
         [(''Total Tickets'', st_total st), (''Abiertos'', st_open st),
          (''En Proceso'', st_inProgress st), (''Resueltos'', st_resolved st)]
     | _ \<Rightarrow> [])"

text \<open>The heading of the ticket table, by role.\<close>

definition table_title :: "login_body option \<Rightarrow> string" where
  "table_title u =
    (case map_option cu_role u of
       Some (Some USER) \<Rightarrow> ''Mis Requerimientos''
     | Some (Some AGENT) \<Rightarrow> ''Bandeja de Entrada IT''
     | _ \<Rightarrow> ''Gesti'' @ o_acute @ ''n de Incidentes Global'')"

text \<open>One row of the ticket table.\<close>

record table_row =
  r_id :: string
  r_title :: jstr
  r_category :: jstr
  r_status :: ticket_status
  r_priority :: "ticket_priority option"
  r_statusBadge :: string
  r_priorityBadge :: string
  r_initial :: string
  r_creator :: jstr
  r_agent :: string
  r_date :: timestamp

definition ticket_row :: "ticket \<Rightarrow> render_error + table_row" where
  "ticket_row t =
    (case charAt0 (t_creatorName t) of
       Inl e \<Rightarrow> Inl e
     | Inr i \<Rightarrow> Inr \<lparr>r_id = t_id t, r_title = t_title t, r_category = t_category t,
                    r_status = t_status t, r_priority = t_priority t,
                    r_statusBadge = status_badge t, r_priorityBadge = priority_badge t, r_initial = i,
                    r_creator = t_creatorName t, r_agent = or_default (t_agentName t) ''Pendiente'',
                    r_date = t_createdAt t\<rparr>)"

text \<open>A comment of the detail view; \<open>own\<close> selects the highlighted style.\<close>

record comment_item =
  ci_initial :: string
  ci_own :: bool
  ci_userName :: jstr
  ci_text :: jstr
  ci_date :: timestamp

definition comment_view :: "login_body option \<Rightarrow> comment \<Rightarrow> render_error + comment_item" where
  "comment_view u cm =
    (case charAt0 (c_userName cm) of
       Inl e \<Rightarrow> Inl e
     | Inr i \<Rightarrow> Inr \<lparr>ci_initial = i,
                    ci_own = (c_userId cm = (case u of None \<Rightarrow> None | Some b \<Rightarrow> cu_id b)),
                    ci_userName = c_userName cm, ci_text = c_text cm, ci_date = c_createdAt cm\<rparr>)"

text \<open>The detail view of the selected ticket: the ticket card, the comment
  list (or its empty-state text), the comment form's avatar, the details
  card and the history timeline.\<close>

record detail_view =
  d_title :: jstr
  d_status :: ticket_status
  d_priority :: "ticket_priority option"
  d_statusBadge :: string
  d_priorityBadge :: string
  d_description :: jstr
  d_comments :: "comment_item list"
  d_avatar :: string
  d_category :: jstr
  d_creator :: jstr
  d_dept :: jstr
  d_agent :: string
  d_history :: "(string \<times> jstr) list"

definition render_detail :: "login_body option \<Rightarrow> comment list \<Rightarrow> ticket \<Rightarrow> render_error + detail_view" where
  "render_detail u cms t =
    (case render_all (comment_view u) cms of
       Inl e \<Rightarrow> Inl e
     | Inr items \<Rightarrow>
         (case user_initial u of
            Inl e \<Rightarrow> Inl e
          | Inr a \<Rightarrow> Inr \<lparr>d_title = t_title t, d_status = t_status t, d_priority = t_priority t,
                         d_statusBadge = status_badge t, d_priorityBadge = priority_badge t,
                         d_description = t_description t, d_comments = items, d_avatar = a,
                         d_category = t_category t, d_creator = t_creatorName t, d_dept = t_creatorDept t,
                         d_agent = or_default (t_agentName t) ''Sin asignar'',
                         d_history = map (\<lambda>h. (h_action h, h_userName h)) (t_history t)\<rparr>))"

text \<open>The content area: the creation form, the detail view, or the table
  (with the admin cards above it).\<close>

text \<open>The creation form: the requester block (\<open>user?.fullName\<close>,
  \<open>user?.department\<close>, \<open>user?.email\<close>), and the options of its selects as
  (value, label) pairs: stations, the areas of the selected station (the
  select is disabled while no station is selected), categories, the values
  of \<open>TicketPriority\<close>, and the agents after "Pendiente de Asignaci\<open>\<dots>\<close>n".\<close>

record form_view =
  fv_fullName :: jstr
  fv_department :: jstr
  fv_email :: jstr
  fv_stations :: "string list"
  fv_areaEnabled :: bool
  fv_areas :: "string list"
  fv_categories :: "string list"
  fv_priorities :: "string list"
  fv_agents :: "(string \<times> string) list"

definition render_form :: "client \<Rightarrow> form_view" where
  "render_form c =
    \<lparr>fv_fullName = (case cl_user c of None \<Rightarrow> None | Some u \<Rightarrow> cu_fullName u),
     fv_department = (case cl_user c of None \<Rightarrow> None | Some u \<Rightarrow> cu_department u),
     fv_email = (case cl_user c of None \<Rightarrow> None | Some u \<Rightarrow> cu_email u),
     fv_stations = station_options,
     fv_areaEnabled = (cl_selectedStation c \<noteq> []),
     fv_areas = [] # cl_availableAreas c,
     fv_categories = CATEGORIES,
     fv_priorities = map priority_str enum_class.enum,
     fv_agents = ([], ''Pendiente de Asignaci'' @ o_acute @ ''n'') #
                 map (\<lambda>a. (u_id a, u_fullName a)) (cl_agents c)\<rparr>"

datatype main_view =
    CreateForm form_view
  | Detail detail_view
  | Table "(string \<times> nat) list" string "table_row list"

definition render_main :: "client \<Rightarrow> render_error + main_view" where
  "render_main c =
    (if cl_isCreating c then Inr (CreateForm (render_form c))
     else case cl_selectedTicket c of
       Some t \<Rightarrow> (case render_detail (cl_user c) (cl_comments c) t of
                   Inl e \<Rightarrow> Inl e | Inr d \<Rightarrow> Inr (Detail d))
     | None \<Rightarrow> (case render_all ticket_row (cl_tickets c) of
                 Inl e \<Rightarrow> Inl e
               | Inr rows \<Rightarrow> Inr (Table (admin_cards c) (table_title (cl_user c)) rows)))"

text \<open>The dashboard: sidebar avatar, header title, content area.\<close>

definition render_dashboard :: "client \<Rightarrow> render_error + (string \<times> string \<times> main_view)" where
  "render_dashboard c =
    (case user_initial (cl_user c) of
       Inl e \<Rightarrow> Inl e
     | Inr a \<Rightarrow> (case render_main c of Inl e \<Rightarrow> Inl e | Inr m \<Rightarrow> Inr (a, header_title c, m)))"

section \<open>The landing and login pages\<close>

text \<open>The three role cards of the landing page.\<close>

record landing_card =
  lc_role :: user_role
  lc_title :: string
  lc_desc :: string

definition landing_cards :: "landing_card list" where
  "landing_cards =
    [\<lparr>lc_role = USER, lc_title = ''Usuario Final'', lc_desc = ''Crear y seguir mis tickets''\<rparr>,
     \<lparr>lc_role = AGENT, lc_title = ''Agente IT'', lc_desc = ''Gestionar tickets asignados''\<rparr>,
     \<lparr>lc_role = ADMIN, lc_title = ''Administrador'',
      lc_desc = ''Visi'' @ o_acute @ ''n global y m'' @ e_acute @ ''tricas''\<rparr>]"

text \<open>The login card: the chosen role, the placeholder of the user-name field
  and the submit button.\<close>

record login_page =
  lp_role :: string
  lp_placeholder :: string
  lp_button :: string

definition login_placeholder :: "user_role option \<Rightarrow> string" where
  "login_placeholder r =
    (if r = Some USER then ''user1...user20''
     else if r = Some AGENT then ''agente1...agente4'' else ''admin1...admin3'')"

definition render_login :: "client \<Rightarrow> login_page" where
  "render_login c =
    \<lparr>lp_role = (case cl_selectedRole c of None \<Rightarrow> [] | Some r \<Rightarrow> role_str r),
     lp_placeholder = login_placeholder (cl_selectedRole c),
     lp_button = (if cl_loading c then ''Cargando...'' else ''Entrar al Sistema'')\<rparr>"

text \<open>The page \<open>App\<close> returns for the current view.\<close>

datatype page =
    LandingPage "landing_card list"
  | LoginPage login_page
  | DashboardPage string string main_view

definition render_page :: "client \<Rightarrow> render_error + page" where
  "render_page c =
    (case cl_view c of
       Landing \<Rightarrow> Inr (LandingPage landing_cards)
     | LoginView \<Rightarrow> Inr (LoginPage (render_login c))
     | Dashboard \<Rightarrow> (case render_dashboard c of Inl e \<Rightarrow> Inl e | Inr (a, h, m) \<Rightarrow> Inr (DashboardPage a h m)))"

text \<open>Changing the role chosen on the landing page.\<close>

abbreviation set_role :: "user_role option \<Rightarrow> system \<Rightarrow> system" where
  "set_role r \<equiv> apfst (\<lambda>c. c\<lparr>cl_selectedRole := r\<rparr>)"

section \<open>Properties\<close>

lemma render_all_Inr:
  "list_all (\<lambda>x. \<exists>y. f x = Inr y) xs \<Longrightarrow> \<exists>ys. render_all f xs = Inr ys \<and> length ys = length xs"
  by (induction xs) auto

lemma render_all_Inl: "(\<exists>e. render_all f xs = Inl e) \<longleftrightarrow> (\<exists>x \<in> set xs. \<exists>e. f x = Inl e)"
  by (induction xs) (auto split: sum.splits)

lemma ticket_row_Inl: "(\<exists>e. ticket_row t = Inl e) \<longleftrightarrow> t_creatorName t = None"
  by (auto simp: ticket_row_def charAt0_def split: option.splits)

lemma comment_view_Inr: "c_userName cm \<noteq> None \<Longrightarrow> \<exists>y. comment_view u cm = Inr y"
  by (auto simp: comment_view_def charAt0_def)

lemma user_initial_Inr: "u \<noteq> Some EmptyObject \<Longrightarrow> \<exists>a. user_initial u = Inr a"
  by (cases u; cases "the u") (auto simp: user_initial_def charAt0_def)

text \<open>(C18) When the user is a real account (or nobody) and every ticket and comment the client holds is well typed, the dashboard renders without an exception, with the header title of the state.\<close>

theorem dashboard_renders:
  assumes u: "cl_user c \<noteq> Some EmptyObject" and ts: "list_all wf_ticket (cl_tickets c)"
    and cs: "list_all wf_comment (cl_comments c)"
  shows "\<exists>a m. render_dashboard c = Inr (a, header_title c, m)"
proof -
  obtain a where a: "user_initial (cl_user c) = Inr a" using user_initial_Inr [OF u] by blast
  have "list_all (\<lambda>t. \<exists>y. ticket_row t = Inr y) (cl_tickets c)"
    using ts by (auto simp: list_all_iff wf_ticket_def ticket_row_def charAt0_def)
  then obtain rows where rows: "render_all ticket_row (cl_tickets c) = Inr rows"
    using render_all_Inr by blast
  have "list_all (\<lambda>cm. \<exists>y. comment_view (cl_user c) cm = Inr y) (cl_comments c)"
    using cs by (auto simp: list_all_iff wf_comment_def intro: comment_view_Inr)
  then obtain items where items: "render_all (comment_view (cl_user c)) (cl_comments c) = Inr items"
    using render_all_Inr by blast
  have "\<exists>m. render_main c = Inr m"
    using a rows items by (auto simp: render_main_def render_detail_def split: option.splits)
  with a show ?thesis by (auto simp: render_dashboard_def)
qed

theorem dashboard_renders_witness:
  "let cm = \<lparr>c_id = ''c1'', c_ticketId = ''T-1001'', c_userId = Some ''a1'', c_userName = Some ''Agente IT 1'',
              c_text = Some ''Revisando la VPN'', c_createdAt = 3\<rparr>;
       c = init_client\<lparr>cl_view := Dashboard, cl_user := Some (LoggedIn admin1),
                       cl_tickets := [seed_ticket (\<lambda>n. n)], cl_selectedTicket := Some (seed_ticket (\<lambda>n. n)),
                       cl_comments := [cm]\<rparr>
   in list_all wf_ticket (cl_tickets c) \<and> list_all wf_comment (cl_comments c) \<and>
      (\<exists>a m. render_dashboard c = Inr (a, header_title c, m)) \<and>
      (\<exists>a m. render_dashboard (c\<lparr>cl_selectedTicket := None\<rparr>) =
               Inr (a, header_title (c\<lparr>cl_selectedTicket := None\<rparr>), m))"
proof -
  let ?cm = "\<lparr>c_id = ''c1'', c_ticketId = ''T-1001'', c_userId = Some ''a1'', c_userName = Some ''Agente IT 1'',
              c_text = Some ''Revisando la VPN'', c_createdAt = 3\<rparr>"
  let ?c = "init_client\<lparr>cl_view := Dashboard, cl_user := Some (LoggedIn admin1),
                       cl_tickets := [seed_ticket (\<lambda>n. n)], cl_selectedTicket := Some (seed_ticket (\<lambda>n. n)),
                       cl_comments := [?cm]\<rparr>"
  have u: "cl_user ?c \<noteq> Some EmptyObject" by simp
  have ts: "list_all wf_ticket (cl_tickets ?c)"
    by (simp add: wf_ticket_def wf_entry_def seed_ticket_def)
  have cs: "list_all wf_comment (cl_comments ?c)" by (simp add: wf_comment_def)
  have d: "\<exists>a m. render_dashboard ?c = Inr (a, header_title ?c, m)"
    by (rule dashboard_renders [OF u ts cs])
  have l: "\<exists>a m. render_dashboard (?c\<lparr>cl_selectedTicket := None\<rparr>) =
              Inr (a, header_title (?c\<lparr>cl_selectedTicket := None\<rparr>), m)"
    by (rule dashboard_renders) (use ts cs in simp_all)
  from ts cs d l show ?thesis by (simp only: Let_def)
qed

text \<open>(C26) The ticket table throws exactly when one of its tickets has no creatorName: the row renders creatorName.charAt(0).\<close>

theorem table_fails_iff:
  "(\<exists>e. render_all ticket_row ts = Inl e) \<longleftrightarrow> (\<exists>t \<in> set ts. t_creatorName t = None)"
  by (simp add: render_all_Inl ticket_row_Inl)

theorem table_fails_iff_witness:
  "\<exists>e. render_all ticket_row [(seed_ticket (\<lambda>n. n))\<lparr>t_creatorName := None\<rparr>] = Inl e"
  using table_fails_iff [of "[(seed_ticket (\<lambda>n. n))\<lparr>t_creatorName := None\<rparr>]"] by simp

subsection \<open>Login\<close>

lemma fetch_set_role_pair:
  "fetchTickets clk (c\<lparr>cl_selectedRole := r\<rparr>, s) = set_role r (fetchTickets clk (c, s))"
  "fetchStats clk (c\<lparr>cl_selectedRole := r\<rparr>, s) = set_role r (fetchStats clk (c, s))"
  "fetchAgents clk (c\<lparr>cl_selectedRole := r\<rparr>, s) = set_role r (fetchAgents clk (c, s))"
proof -
  show "fetchTickets clk (c\<lparr>cl_selectedRole := r\<rparr>, s) = set_role r (fetchTickets clk (c, s))"
  proof (cases "cl_user c")
    case (Some u)
    obtain code j s' where h: "handle clk (GetTickets (Some (js_show (cu_id u)))
        (Some (js_show (map_option role_str (cu_role u))))) s = ((code, j), s')" by (metis prod.exhaust)
    show ?thesis using Some by (cases j) (simp_all add: fetchTickets_def h del: handle.simps)
  qed (simp add: fetchTickets_def)
  show "fetchStats clk (c\<lparr>cl_selectedRole := r\<rparr>, s) = set_role r (fetchStats clk (c, s))"
  proof -
    obtain code j s' where h: "handle clk GetStats s = ((code, j), s')" by (metis prod.exhaust)
    show ?thesis by (cases j) (auto simp: fetchStats_def h simp del: handle.simps)
  qed
  show "fetchAgents clk (c\<lparr>cl_selectedRole := r\<rparr>, s) = set_role r (fetchAgents clk (c, s))"
  proof -
    obtain code j s' where h: "handle clk GetAgents s = ((code, j), s')" by (metis prod.exhaust)
    show ?thesis by (cases j) (simp_all add: fetchAgents_def h del: handle.simps)
  qed
qed

lemma fetch_set_role:
  "fetchTickets clk (set_role r cs) = set_role r (fetchTickets clk cs)"
  "fetchStats clk (set_role r cs) = set_role r (fetchStats clk cs)"
  "fetchAgents clk (set_role r cs) = set_role r (fetchAgents clk cs)"
  by (cases cs; simp add: fetch_set_role_pair)+

lemma dashboard_effect_set_role:
  "dashboard_effect clk (set_role r cs) = set_role r (dashboard_effect clk cs)"
proof -
  have "cl_view (fst (set_role r cs)) = cl_view (fst cs)" by (cases cs) simp
  then show ?thesis by (simp add: dashboard_effect_def fetch_set_role)
qed

lemma login_user1: "login (Some ''user1'') = Inr (LoggedIn (user.truncate (mk_user 1)))"
proof -
  have m: "(''user'' @ dec 1, mk_user 1) \<in> set MOCK_USERS"
    unfolding MOCK_USERS_enum set_append set_map by (intro UnI1 imageI) simp
  have "''user'' @ dec 1 = ''user1''" by (simp add: digit_char_def)
  with map_of_is_SomeI [OF MOCK_USERS_keys_distinct m] show ?thesis
    by (simp add: login_own)
qed

text \<open>(C23) \<open>handleLogin\<close> never reads the role chosen on the landing page: logging in with another role selected gives the same server and the same client, up to the selected role.\<close>

theorem login_ignores_role:
  "handleLogin clk n (c\<lparr>cl_selectedRole := r\<rparr>, s) = set_role r (handleLogin clk n (c, s))"
proof -
  have e: "dashboard_effect clk (c\<lparr>cl_selectedRole := r, cl_user := x, cl_view := Dashboard\<rparr>, s') =
           set_role r (dashboard_effect clk (c\<lparr>cl_user := x, cl_view := Dashboard\<rparr>, s'))" for x s'
  proof -
    have q: "c\<lparr>cl_selectedRole := r, cl_user := x, cl_view := Dashboard\<rparr> =
             c\<lparr>cl_user := x, cl_view := Dashboard\<rparr>\<lparr>cl_selectedRole := r\<rparr>" by simp
    show ?thesis
      unfolding q using dashboard_effect_set_role [of clk r "(c\<lparr>cl_user := x, cl_view := Dashboard\<rparr>, s')"]
      by (simp only: apfst_conv)
  qed
  obtain code j s' where h: "handle clk (Login (Some n)) s = ((code, j), s')"
    by (metis prod.exhaust)
  show ?thesis
    by (cases j) (simp_all add: handleLogin_def h e del: handle.simps)
qed


subsection \<open>Badges\<close>

lemma priority_option_cases: "p \<in> {None, Some LOW, Some MEDIUM, Some HIGH, Some CRITICAL}"
proof (cases p)
  case (Some q)
  then show ?thesis by (cases q) simp_all
qed simp

lemma badge_keys_own:
  "status_str st \<notin> set object_prototype_keys"
  "js_show (map_option priority_str p) \<notin> set object_prototype_keys"
  using priority_option_cases [of p] by (cases st; auto simp: object_prototype_keys_def)+

text \<open>(C30) The badges tell tickets apart exactly as their fields do: two tickets get the same status badge iff they have the same status, the same priority badge iff they have the same priority, and the priority badge ends in the word undefined exactly for a ticket without a priority.\<close>

theorem badges_faithful:
  "(status_badge t = status_badge t' \<longleftrightarrow> t_status t = t_status t') \<and>
   (priority_badge t = priority_badge t' \<longleftrightarrow> t_priority t = t_priority t') \<and>
   (priority_badge t = ''px-2.5 py-0.5 rounded-full text-xs font-medium border undefined'' \<longleftrightarrow>
      t_priority t = None)"
proof -
  have s: "status_badge t = status_badge t' \<longleftrightarrow> t_status t = t_status t'"
    by (cases "t_status t"; cases "t_status t'") (simp_all add: status_badge_def badge_class_def STATUS_COLORS_def)
  have p: "priority_badge t = priority_badge t' \<longleftrightarrow> t_priority t = t_priority t'"
    using priority_option_cases [of "t_priority t"] priority_option_cases [of "t_priority t'"]
    by (auto simp: priority_badge_def badge_class_def PRIORITY_COLORS_def)
  have u: "priority_badge t = ''px-2.5 py-0.5 rounded-full text-xs font-medium border undefined'' \<longleftrightarrow>
             t_priority t = None"
    using priority_option_cases [of "t_priority t"]
    by (auto simp: priority_badge_def badge_class_def PRIORITY_COLORS_def)
  from s p u show ?thesis by blast
qed

subsection \<open>The creation form\<close>

text \<open>The browser's validation and the rendered form agree: a form that
  passes validation chose a station, an area and a category the form offers,
  with the area select enabled, and no agent or an agent it offers.\<close>

lemma form_valid_offered:
  assumes "form_valid c f"
  shows "f_station f \<in> set (fv_stations (render_form c)) \<and> fv_areaEnabled (render_form c) \<and>
         f_area f \<in> set (fv_areas (render_form c)) \<and> f_category f \<in> set (fv_categories (render_form c)) \<and>
         f_agentId f \<in> fst ` set (fv_agents (render_form c))"
  using assms by (auto simp: form_valid_def render_form_def image_iff)

end
