(* ===== verification/Locations.thy ===== *)
theory Locations
  imports Typing
begin

text \<open>
  Where a ticket created through the client says the incident is: the
  creation form of \<open>src/src/App.tsx\<close> offers the four stations, the areas
  \<open>STATION_AREAS\<close> lists for the station selected last, and the categories
  of \<open>src/src/constants.ts\<close>; \<open>handleStationChange\<close> keeps the offered areas
  in step with the selected station. The server checks none of this, so the
  property holds of the tickets a session creates, not of every request.
\<close>

section \<open>Definitions\<close>

text \<open>The areas offered are those of the selected station
  (\<open>STATION_AREAS[station] || []\<close>).\<close>

definition areas_consistent :: "client \<Rightarrow> bool" where
  "areas_consistent c \<longleftrightarrow>
     cl_availableAreas c = (case map_of STATION_AREAS (cl_selectedStation c) of Some as \<Rightarrow> as | None \<Rightarrow> [])"

text \<open>A ticket without a station (the seeded one, or one posted by another
  client) says nothing; one with a station names a station of
  \<open>STATION_AREAS\<close>, an area of that station and a category of
  \<open>CATEGORIES\<close>.\<close>

definition ticket_location_ok :: "ticket \<Rightarrow> bool" where
  "ticket_location_ok t \<longleftrightarrow>
     (case t_station t of
        None \<Rightarrow> True
      | Some st \<Rightarrow> (case map_of STATION_AREAS st of
                     None \<Rightarrow> False
                   | Some as \<Rightarrow> t_area t \<in> Some ` set as \<and> t_category t \<in> Some ` set CATEGORIES))"

text \<open>A session that opens the form, picks the first station and files a
  ticket in its area Caja.\<close>

definition demo_form :: create_form where
  "demo_form = \<lparr>f_title = ''Impresora'', f_description = ''No imprime'', f_priority = LOW,
     f_category = ''Hardware'', f_station = station_name 1, f_area = ''Caja'', f_agentId = []\<rparr>"

definition demo_flow :: "ui_action list" where
  "demo_flow = [ChooseRole USER, SubmitLogin ''user1'', NewTicket, ChangeStation (station_name 1),
     SubmitCreate demo_form]"

section \<open>Properties\<close>

lemma fetch_keeps_station [simp]:
  "cl_selectedStation (fst (fetchTickets clk cs)) = cl_selectedStation (fst cs)"
  "cl_availableAreas (fst (fetchTickets clk cs)) = cl_availableAreas (fst cs)"
  "cl_selectedStation (fst (fetchStats clk cs)) = cl_selectedStation (fst cs)"
  "cl_availableAreas (fst (fetchStats clk cs)) = cl_availableAreas (fst cs)"
  "cl_selectedStation (fst (fetchComments clk tid cs)) = cl_selectedStation (fst cs)"
  "cl_availableAreas (fst (fetchComments clk tid cs)) = cl_availableAreas (fst cs)"
  "cl_selectedStation (fst (fetchAgents clk cs)) = cl_selectedStation (fst cs)"
  "cl_availableAreas (fst (fetchAgents clk cs)) = cl_availableAreas (fst cs)"
  by (cases cs; simp add: fetchTickets_def fetchStats_def fetchComments_def fetchAgents_def split: option.splits)+

lemma effect_keeps_station [simp]:
  "cl_selectedStation (fst (selected_effect clk cs)) = cl_selectedStation (fst cs)"
  "cl_availableAreas (fst (selected_effect clk cs)) = cl_availableAreas (fst cs)"
  "cl_selectedStation (fst (dashboard_effect clk cs)) = cl_selectedStation (fst cs)"
  "cl_availableAreas (fst (dashboard_effect clk cs)) = cl_availableAreas (fst cs)"
  by (simp_all add: selected_effect_def dashboard_effect_def split: option.splits)

lemma patch_from_ui_keeps_station:
  "areas_consistent (fst (patch_from_ui clk tid b w (c, s))) = areas_consistent c"
  by (auto simp: patch_from_ui_def Let_def areas_consistent_def split: prod.splits json.splits)

lemma ui_step_areas:
  assumes "areas_consistent c"
  shows "areas_consistent (fst (ui_step clk a (c, s)))"
proof (cases a)
  case (SubmitLogin n)
  with assms show ?thesis using handleLogin_cases [of clk n c s]
    by (auto simp: areas_consistent_def)
next
  case (SubmitCreate f)
  with assms show ?thesis using handleCreateTicket_cases [of clk f c s]
    by (auto simp: areas_consistent_def)
next
  case (SendComment rnd)
  with assms show ?thesis using handleAddComment_cases [of clk rnd c s]
    by (auto simp: areas_consistent_def)
next
  case TakeTicket
  with assms show ?thesis
    by (auto simp: assignToMe_def patch_from_ui_keeps_station split: option.splits)
next
  case (SetStatus st)
  with assms show ?thesis
    by (auto simp: updateTicketStatus_def patch_from_ui_keeps_station split: option.splits)
next
  case RefreshList
  with assms show ?thesis by (simp add: areas_consistent_def)
next
  case (SelectTicket i)
  with assms show ?thesis by (simp add: areas_consistent_def)
qed (use assms in \<open>simp_all add: areas_consistent_def handleStationChange_def\<close>)

lemma apply_patch_location [simp]:
  "t_station (apply_patch clk s b t) = t_station t"
  "t_area (apply_patch clk s b t) = t_area t"
  "t_category (apply_patch clk s b t) = t_category t"
  by (simp_all add: apply_patch_def Let_def split: option.splits)

lemma ticket_location_ok_apply_patch [simp]:
  "ticket_location_ok (apply_patch clk s b t) = ticket_location_ok t"
  by (simp only: ticket_location_ok_def apply_patch_location)

lemma location_patch:
  assumes "list_all ticket_location_ok (tickets s)"
  shows "list_all ticket_location_ok (tickets (snd (handle clk (PatchTicket tid b) s)))"
proof (cases "patch_ticket clk tid b s")
  case (Inl e)
  with assms show ?thesis by simp
next
  case (Inr p)
  then obtain t s' where p: "patch_ticket clk tid b s = Inr (t, s')" by (cases p) auto
  then obtain i where i: "i < length (tickets s)" "t = apply_patch clk s b (tickets s ! i)"
      "tickets s' = (tickets s)[i := t]"
    by (rule patch_ticket_Inr)
  have "ticket_location_ok (tickets s ! i)"
    using assms i(1) by (simp add: list_all_length)
  then have "ticket_location_ok t"
    by (simp add: i(2))
  with p i(3) assms show ?thesis by (simp add: list_all_update)
qed

lemma location_create_form:
  assumes v: "form_valid c f" and a: "areas_consistent c"
    and cr: "create_ticket clk (create_body ags u f) s = (t, s')"
  shows "ticket_location_ok t"
proof -
  have t: "t_station t = Some (f_station f)" "t_area t = Some (f_area f)" "t_category t = Some (f_category f)"
    using cr by (auto simp: create_ticket_def new_ticket_def create_body_def Let_def split: if_splits)
  from v a obtain as where "map_of STATION_AREAS (f_station f) = Some as" "f_area f \<in> set as"
    by (auto simp: form_valid_def areas_consistent_def split: option.splits)
  with v t show ?thesis by (simp add: ticket_location_ok_def form_valid_def)
qed

lemma ui_step_location:
  assumes a: "areas_consistent c" and ok: "list_all ticket_location_ok (tickets s)"
  shows "list_all ticket_location_ok (tickets (snd (ui_step clk a' (c, s))))"
proof (cases a')
  case (SubmitLogin n)
  with ok show ?thesis using server_handleLogin [of clk n "(c, s)"] by simp
next
  case (SubmitCreate f)
  show ?thesis
  proof (cases "form_open c \<and> form_valid c f")
    case True
    show ?thesis
    proof (cases "cl_user c")
      case (Some u)
      obtain t s' where cr: "create_ticket clk (create_body (cl_agents c) u f) s = (t, s')"
        by (cases "create_ticket clk (create_body (cl_agents c) u f) s")
      have "ticket_location_ok t" using True a cr by (blast intro: location_create_form)
      with ok cr create_ticket_state [OF cr] server_handleCreateTicket_user [OF Some, of clk f s]
        SubmitCreate True show ?thesis by simp
    qed (use ok SubmitCreate True in \<open>simp add: handleCreateTicket_def\<close>)
  qed (use ok SubmitCreate in auto)
next
  case (SendComment rnd)
  from handleAddComment_cases [of clk rnd c s] ok SendComment show ?thesis
    by (auto dest!: add_comment_state)
next
  case TakeTicket
  with ok show ?thesis
    by (auto simp: assignToMe_def server_patch_from_ui location_patch simp del: handle.simps
             split: option.splits)
next
  case (SetStatus st)
  with ok show ?thesis
    by (auto simp: updateTicketStatus_def server_patch_from_ui location_patch simp del: handle.simps
             split: option.splits)
qed (use ok in simp_all)

text \<open>(C15) In every state a browser session reaches, the areas the creation form offers are those of the selected station, and every ticket of the store that names a station names one of the four stations, one of its areas and one of the categories.\<close>

theorem ui_reachable_locations:
  assumes "ui_reachable clk cs"
  shows "areas_consistent (fst cs) \<and> list_all ticket_location_ok (tickets (snd cs))"
  using assms
proof (induction rule: ui_reachable.induct)
  case init
  show ?case
    by (simp add: areas_consistent_def init_client_def STATION_AREAS_def station_name_def o_acute_def
                  init_server_def seed_ticket_def ticket_location_ok_def)
next
  case (step cs a)
  obtain c0 s0 where cs: "cs = (c0, s0)" by (cases cs)
  with step.IH have "areas_consistent c0" "list_all ticket_location_ok (tickets s0)" by auto
  with cs show ?case
    using ui_step_areas [of c0 clk a s0] ui_step_location [of c0 s0 clk a] by simp
qed

theorem ui_reachable_locations_witness:
  "let cs = ui_run (\<lambda>n. n) demo_flow (init_client, init_server (\<lambda>n. n))
   in length (tickets (snd cs)) = 2 \<and>
      areas_consistent (fst cs) \<and> list_all ticket_location_ok (tickets (snd cs))"
proof -
  let ?cs = "ui_run (\<lambda>n. n) demo_flow (init_client, init_server (\<lambda>n. n))"
  have r: "ui_reachable (\<lambda>n. n) ?cs"
    using ui_reachable_run [OF ui_reachable.init] .
  have n: "length (tickets (snd ?cs)) = 2" by code_simp
  from ui_reachable_locations [OF r] n show ?thesis by (simp add: Let_def)
qed

end
