(* ===== verification/Browsers.thy ===== *)
theory Browsers
  imports Session
begin

text \<open>
  Several browsers open \<open>App\<close> against the one server of \<open>src/server.ts\<close>.
  Each browser has its own React state; the server state is shared. Node
  runs one request handler at a time and each browser runs one action at a
  time, so a run of the whole system is an interleaving of the actions of
  the browsers. Here an action of one browser is atomic (all its requests
  are sent before another browser acts), which is one of the schedules the
  real system allows: what goes wrong under it goes wrong in the real
  system, and the server invariants, which hold after every single request,
  hold under every finer interleaving as well.
\<close>

section \<open>Definitions\<close>

type_synonym browsers = "client list \<times> server"

text \<open>Browser \<open>i\<close> performs action \<open>a\<close>; an index without a browser does nothing.\<close>

fun browser_step :: "clock \<Rightarrow> nat \<times> ui_action \<Rightarrow> browsers \<Rightarrow> browsers" where
  "browser_step clk (i, a) (cs, s) =
    (if i < length cs
     then (case ui_step clk a (cs ! i, s) of (c', s') \<Rightarrow> (cs[i := c'], s'))
     else (cs, s))"

definition browser_run :: "clock \<Rightarrow> (nat \<times> ui_action) list \<Rightarrow> browsers \<Rightarrow> browsers" where
  "browser_run clk steps bs = fold (browser_step clk) steps bs"

inductive browsers_reachable :: "clock \<Rightarrow> browsers \<Rightarrow> bool" for clk where
  init: "browsers_reachable clk (replicate n init_client, init_server clk)"
| step: "browsers_reachable clk bs \<Longrightarrow> browsers_reachable clk (browser_step clk w bs)"

text \<open>Two admins: each opens the dashboard and selects the seeded ticket;
  then the second closes it.\<close>

definition admin_open :: "ui_action list" where
  "admin_open = [BackToLanding, ChooseRole ADMIN, SubmitLogin ''admin1'', ShowDashboard, SelectTicket 0]"

definition two_admins :: "(nat \<times> ui_action) list" where
  "two_admins = map (Pair 0) admin_open @ map (Pair 1) admin_open @ [(1, SetStatus CLOSED)]"

section \<open>Properties\<close>

lemma browser_step_server:
  "snd (browser_step clk w (cs, s)) = s \<or> (\<exists>r. snd (browser_step clk w (cs, s)) = snd (handle clk r s))"
proof -
  obtain i a where w: "w = (i, a)" by (cases w)
  show ?thesis
  proof (cases "i < length cs")
    case True
    obtain c' s' where u: "ui_step clk a (cs ! i, s) = (c', s')" by (cases "ui_step clk a (cs ! i, s)")
    from ui_step_server [of clk a "cs ! i" s] u True w show ?thesis by simp
  qed (simp add: w)
qed

lemma browsers_reachable_server: "browsers_reachable clk bs \<Longrightarrow> reachable clk (snd bs)"
proof (induction rule: browsers_reachable.induct)
  case init
  show ?case by (simp add: reachable.init)
next
  case (step bs w)
  obtain cs s where bs: "bs = (cs, s)" by (cases bs)
  from browser_step_server [of clk w cs s] step.IH bs show ?case
    by (auto intro: reachable.step [OF _ surjective_pairing])
qed

lemma browsers_reachable_run:
  "browsers_reachable clk bs \<Longrightarrow> browsers_reachable clk (browser_run clk ws bs)"
proof (induction ws arbitrary: bs)
  case Nil
  then show ?case by (simp add: browser_run_def)
next
  case (Cons w ws)
  from Cons.IH [OF browsers_reachable.step [OF Cons.prems]] show ?case
    by (simp add: browser_run_def)
qed

text \<open>(C17) The server applies a status change to the stored ticket whatever the stored status is, and the browser guards it only with its own copy of the ticket. So, under any interleaving of browsers, a browser whose copy of a ticket shows it open (controls visible) sets the stored ticket to the chosen status even when another browser has closed it meanwhile: a closed ticket is final only within one browser.\<close>

theorem status_change_ignores_stored_status:
  assumes r: "browsers_reachable clk (cs, s)" and j: "j < length cs"
    and sel: "cl_selectedTicket (cs ! j) = Some t" and d: "detail_open (cs ! j)"
    and u: "cl_user (cs ! j) = Some u" and v: "controls_visible (Some u) t"
    and i: "i < length (tickets s)" and tid: "t_id (tickets s ! i) = t_id t"
  shows "t_status (tickets (snd (browser_step clk (j, SetStatus st) (cs, s))) ! i) = st"
proof -
  let ?b = "\<lparr>p_status = Some st, p_agentId = None, p_agentName = None, p_priority = None,
             p_userId = cu_id u, p_userName = cu_fullName u\<rparr>"
  have dist: "distinct (map t_id (tickets s))"
    using reachable_ids_distinct [OF browsers_reachable_server [OF r]] by simp
  have f: "findIndex (\<lambda>x. t_id x = t_id t) (tickets s) = Some i"
    using findIndex_distinct [OF dist i] tid by simp
  have "snd (browser_step clk (j, SetStatus st) (cs, s)) = snd (handle clk (PatchTicket (t_id t) ?b) s)"
    using j sel d u v server_patch_from_ui [of clk "t_id t" ?b True "(cs ! j, s)"]
    by (auto simp: updateTicketStatus_def split: prod.split simp del: handle.simps)
  with f i show ?thesis by (simp add: patch_ticket_def Let_def)
qed

theorem status_change_ignores_stored_status_witness:
  "let bs = browser_run (\<lambda>n. n) two_admins (replicate 2 init_client, init_server (\<lambda>n. n))
   in t_status (tickets (snd bs) ! 0) = CLOSED \<and>
      cl_selectedTicket (fst bs ! 0) = Some (seed_ticket (\<lambda>n. n)) \<and>
      t_status (seed_ticket (\<lambda>n. n)) = OPEN \<and>
      t_status (tickets (snd (browser_step (\<lambda>n. n) (0, SetStatus OPEN) bs)) ! 0) = OPEN"
proof -
  let ?bs = "browser_run (\<lambda>n. n) two_admins (replicate 2 init_client, init_server (\<lambda>n. n))"
  have r: "browsers_reachable (\<lambda>n. n) (fst ?bs, snd ?bs)"
    using browsers_reachable_run [OF browsers_reachable.init [of "\<lambda>n. n" 2]] by simp
  have facts: "0 < length (fst ?bs) \<and> cl_selectedTicket (fst ?bs ! 0) = Some (seed_ticket (\<lambda>n. n)) \<and>
      detail_open (fst ?bs ! 0) \<and> cl_user (fst ?bs ! 0) = Some (LoggedIn admin1) \<and>
      0 < length (tickets (snd ?bs)) \<and> t_id (tickets (snd ?bs) ! 0) = t_id (seed_ticket (\<lambda>n. n)) \<and>
      t_status (tickets (snd ?bs) ! 0) = CLOSED"
    by code_simp
  have v: "controls_visible (Some (LoggedIn admin1)) (seed_ticket (\<lambda>n. n))"
    by (simp add: controls_visible_def admin1_def seed_ticket_def)
  have o: "t_status (seed_ticket (\<lambda>n. n)) = OPEN" by (simp add: seed_ticket_def)
  have "t_status (tickets (snd (browser_step (\<lambda>n. n) (0, SetStatus OPEN) (fst ?bs, snd ?bs))) ! 0) = OPEN"
    using facts v
    by (intro status_change_ignores_stored_status [OF r, of 0 "seed_ticket (\<lambda>n. n)" "LoggedIn admin1"]) auto
  with facts o show ?thesis by (simp add: Let_def)
qed

end
