(* ===== verification/Spec2Isabelle.thy ===== *)
theory Spec2Isabelle
  imports Views Locations Browsers
begin

text \<open>
  A verification development of the IT help-desk ticketing application of
  this repository: the Express server \<open>src/server.ts\<close> (an in-memory ticket
  store, comment store and user directory behind a small REST surface), the
  interfaces and enums of \<open>src/src/types.ts\<close>, and the single-page React
  client \<open>src/src/App.tsx\<close> with the constants of \<open>src/src/constants.ts\<close>.
  The client talks to the server only through HTTP requests; here every
  request is a value of \<open>Api.api_request\<close> and the server is the function
  \<open>Api.handle\<close>, so client and server compose as functions on the pair of
  their states.

  \<^bold>\<open>Theories.\<close>
  \<^item> \<open>Prelude\<close>: JavaScript values read from request bodies (\<open>undefined\<close>
    is \<open>None\<close>; \<open>truthy\<close>; \<open>js_show\<close>, the rendering of a value in a template
    literal), decimal rendering \<open>dec\<close> of numbers with its inverse
    \<open>parse_dec\<close>, the wall clock, \<open>findIndex\<close>, the counting loop
    \<open>for (let i = lo; i <= n; i++)\<close> as the function \<open>for_upto\<close> with its
    termination proof, and the list lemmas the components share.
  \<^item> \<open>Data_Model\<close>: the enums \<open>UserRole\<close>, \<open>TicketStatus\<close>,
    \<open>TicketPriority\<close> as datatypes (with their string values and
    \<open>enum\<close> instances; \<open>priority_str\<close> keeps the mis-encoded bytes of
    \<open>CRITICAL\<close>), the interfaces \<open>User\<close>, \<open>Comment\<close>,
    \<open>TicketHistory\<close>, \<open>Ticket\<close> as records, the server state \<open>server\<close>
    (the arrays \<open>tickets\<close> and \<open>comments\<close> of \<open>startServer\<close> and the number
    of clock reads so far) and the seeded ticket \<open>T-1001\<close>.
  \<^item> \<open>Tickets\<close>: \<open>GET/POST /api/tickets\<close>, \<open>PATCH /api/tickets/:id\<close>,
    \<open>GET /api/stats\<close> (\<open>list_tickets\<close>, \<open>create_ticket\<close>, \<open>patch_ticket\<close>,
    \<open>get_stats\<close>); the abstract view of the store as a map from ids to
    tickets and the visibility policy of the spec.
  \<^item> \<open>Users\<close>: the \<open>MOCK_USERS\<close> object built by three \<open>for_upto\<close>
    loops, the property lookup of a plain JavaScript object (own keys, then
    \<open>Object.prototype\<close>), \<open>POST /api/auth/login\<close> and \<open>GET /api/agents\<close>.
  \<^item> \<open>Comments\<close>: the comment endpoints.
  \<^item> \<open>Api\<close>: the dispatcher \<open>handle\<close> (one equation per route, status code
    and JSON body), sequences of requests \<open>run\<close>, the inductive set
    \<open>reachable\<close> of server states and its invariants.
  \<^item> \<open>Client\<close>: the React state of \<open>App\<close> as the record \<open>client\<close>, and each
    handler of \<open>App.tsx\<close> (\<open>handleLogin\<close>, \<open>fetchTickets\<close>,
    \<open>fetchStats\<close>, \<open>fetchComments\<close>, \<open>fetchAgents\<close>,
    \<open>handleCreateTicket\<close>, \<open>updateTicketStatus\<close>, \<open>assignToMe\<close>,
    \<open>handleAddComment\<close>, \<open>handleStationChange\<close>) as a function on
    \<open>client \<times> server\<close> that sends its requests through \<open>handle\<close>, the
    \<open>useEffect\<close> hooks included; the conditions under which the detail view
    offers its buttons.
  \<^item> \<open>Session\<close>: the actions the rendered views offer (\<open>ui_step\<close>), and the
    states one browser session reaches (\<open>ui_reachable\<close>); an admin session
    as a sequence of actions. Submitting the creation form goes through the
    browser's validation (\<open>form_valid\<close>: the \<open>required\<close> fields and the
    options of the station, area, category and agent selects).
  \<^item> \<open>Typing\<close>: the interfaces of \<open>types.ts\<close> as well-formedness predicates
    (\<open>wf_ticket\<close>, \<open>wf_comment\<close>: every field declared without \<open>?\<close> is
    defined), and which requests keep the store well typed.
  \<^item> \<open>Views\<close>: what the dashboard JSX computes from the client state
    (\<open>render_dashboard\<close>: sidebar avatar, header title, admin cards, ticket
    table, detail view with comments and history, the creation form with
    its requester block and select options), with the \<open>TypeError\<close>
    that \<open>charAt(0)\<close> on \<open>undefined\<close> throws as the left value; the
    landing role cards, the login card and the view switch of \<open>App\<close>
    (\<open>render_page\<close>); the colour tables of \<open>constants.ts\<close> and the
    \<open>Badge\<close> class of the status and priority badges; that
    \<open>handleLogin\<close> never reads the selected role.
  \<^item> \<open>Locations\<close>: the station, area and category a ticket filed through the
    form carries, and the consistency of the offered areas with the selected
    station (\<open>handleStationChange\<close>) along a session.
  \<^item> \<open>Browsers\<close>: any number of browsers, each with its own \<open>client\<close> state,
    sharing one server (\<open>browser_step\<close> runs one browser's action, and
    \<open>browsers_reachable\<close> collects every interleaving); what the one-session
    guarantees become when browsers share the server.

  \<^bold>\<open>State and effects.\<close> Handlers return the updated state with their
  result; an error (\<open>404\<close> of an unknown ticket, \<open>401\<close> of an unknown user)
  is the left value of a sum and leaves the state unchanged. Each
  \<open>new Date()\<close> is a read of a clock \<open>clk :: nat \<Rightarrow> nat\<close> at the index of the
  read (the field \<open>reads\<close> counts them), so two reads in one handler may
  or may not give the same time; properties of time order assume only that
  the clock is monotone. The random comment id is a parameter. The client's
  \<open>await\<close>s are sequential composition: one browser session sends one request
  at a time, and the server handles requests one at a time, as Node does.

  \<^bold>\<open>What the lemmas show.\<close> The ticket handlers: the status and history of
  a new ticket, the role policy of the listing and its refinement of the
  spec's policy, the single history entry of a patch and its message, when
  \<open>resolvedAt\<close> is set, that a patch refines an update of the abstract map,
  the status buckets of the statistics. The users: login of every seeded
  name, of unknown names, and of names of \<open>Object.prototype\<close> members. The
  dispatcher: invariants of every reachable state (ids
  \<open>T-1001, T-1002, ...\<close> in order, a creation entry heading each history,
  \<open>resolvedAt\<close> set on resolved tickets, histories in time order), and
  the bounds below. The client: the effect of each handler on both states.
  Typing: the session of a real account keeps the store well typed, while
  the server accepts ill-typed bodies. Locations: every ticket a session
  files names a real station, one of its areas and a category. Browsers:
  the server applies a status change whatever the stored status, so under
  interleaved browsers a browser with a stale copy reopens a ticket another
  browser closed. Views: rendering succeeds on well-typed data and throws
  exactly on a missing \<open>creatorName\<close> (table) or \<open>fullName\<close> (avatar);
  \<open>handleLogin\<close> ignores the chosen role; the badges determine status and
  priority, and show the class \<open>undefined\<close> for a missing one. This theory:
  every state a session reaches shows only current tickets (safety); from
  every such state an admin can resolve any ticket that is not closed
  (liveness); within one session a closed ticket is final in the UI; and
  the places where the code and the spec part, among them two paths to a
  crashed client. The session results assume, as the model does, that each
  UI action finishes before the next starts; a user who sends a second
  status change while the first is in flight is not modelled.

  \<^bold>\<open>Bounds.\<close> No loop of the program can run forever: the seeding loops
  are \<open>for_upto\<close>, a \<open>function\<close> whose termination is proved with the
  measure \<open>Suc n - i\<close>; every other operation is a total function by
  structural recursion, so no fuel is needed. Along any sequence of requests
  (\<open>Api.run_bounds\<close>) the server answers once per request, reads the clock
  at most four times per request (a creation with an agent: createdAt,
  updatedAt and two history entries) and never goes back, and the two
  arrays grow by exactly the number of creations and comments. Numbers
  (lengths, counts, ticket numbers) are \<open>nat\<close>: the JavaScript doubles they
  stand for are exact far beyond any array this in-memory store can hold.

  \<^bold>\<open>Not modelled.\<close> The Vite middleware, static file serving and
  \<open>app.listen\<close> (hosting); JSX markup and styling other than the badge
  classes; the loading flag's timing. Several browsers interleave at the
  granularity of whole actions (the requests of one handler are not
  interleaved with another browser's); the server invariants hold after
  every request, so they hold under finer interleavings too, and the stale
  reopening needs no finer one. JSON
  \<open>null\<close> and a missing field are both \<open>undefined\<close>; enum fields of request
  bodies are assumed to carry enum values (\<open>Object.values\<close> of the enum, as
  the client sends); a repeated query parameter (an array in Express) is not
  modelled; \<open>trim\<close> removes ASCII white space only. A render exception
  unmounts the React tree and ends the session; \<open>ui_reachable\<close> still lets
  the session act afterwards, an over-approximation under which its safety
  properties hold a fortiori. Date formatting (\<open>toLocaleString\<close>), the fixed
  SLA card, and the inert search box and filter button are not modelled.
\<close>

section \<open>Data\<close>

text \<open>A creation body as the client sends it, with a given priority.\<close>

definition demo_req :: "ticket_priority \<Rightarrow> create_req" where
  "demo_req p = \<lparr>cr_title = Some ''Demo'', cr_description = Some ''Demo'', cr_priority = Some p,
      cr_category = Some ''Software'', cr_creatorId = Some ''u1'', cr_creatorName = Some ''Usuario 1'',
      cr_creatorEmail = Some ''user1@enterprise.com'', cr_creatorDept = Some ''Marketing'',
      cr_agentId = None, cr_agentName = None, cr_station = None, cr_area = None\<rparr>"

section \<open>Properties of a session\<close>

text \<open>(C11) What a browser session shows is never stale, and acting on it hits the ticket shown: in every state it reaches, each row of the table and the selected ticket are tickets of the current store, and the store's first ticket with the selected ticket's id is that very ticket.\<close>

theorem ui_reachable_fresh:
  assumes "ui_reachable clk (c, s)"
  shows "view_fresh (c, s) \<and>
         (\<forall>t. cl_selectedTicket c = Some t \<longrightarrow>
              (\<exists>i. findIndex (\<lambda>x. t_id x = t_id t) (tickets s) = Some i \<and> tickets s ! i = t))"
proof -
  have f: "view_fresh (c, s)" using ui_reachable_view_fresh [OF assms] .
  have d: "distinct (map t_id (tickets s))" using ui_reachable_ids_distinct [OF assms] by simp
  have "findIndex (\<lambda>x. t_id x = t_id t) (tickets s) = Some i \<and> tickets s ! i = t"
    if "i < length (tickets s)" "tickets s ! i = t" for t i
    using findIndex_distinct [OF d that(1)] that by simp
  with f show ?thesis by (auto simp: view_fresh_def in_set_conv_nth)
qed

theorem ui_reachable_fresh_witness:
  "let cs = ui_run (\<lambda>n. n) [ChooseRole AGENT, SubmitLogin ''agente1'', SelectTicket 0, TakeTicket,
                 SetStatus RESOLVED] (init_client, init_server (\<lambda>n. n))
   in view_fresh (fst cs, snd cs)"
proof -
  let ?cs = "ui_run (\<lambda>n. n) [ChooseRole AGENT, SubmitLogin ''agente1'', SelectTicket 0, TakeTicket,
                 SetStatus RESOLVED] (init_client, init_server (\<lambda>n. n))"
  have "ui_reachable (\<lambda>n. n) (fst ?cs, snd ?cs)"
    using ui_reachable_run [OF ui_reachable.init] by simp
  from ui_reachable_fresh [OF this] show ?thesis by (simp add: Let_def)
qed

section \<open>Progress and finality of a session\<close>

text \<open>(C12) From any state a session reaches, an admin can drive any ticket that is not closed to RESOLVED with a resolution time, by logging in as admin1, selecting it and setting its status.\<close>

theorem admin_can_resolve:
  assumes r: "ui_reachable clk (c, s)" and i: "i < length (tickets s)"
    and st: "t_status (tickets s ! i) \<noteq> CLOSED"
  shows "\<exists>as. t_status (tickets (snd (ui_run clk as (c, s))) ! i) = RESOLVED \<and>
              t_resolvedAt (tickets (snd (ui_run clk as (c, s))) ! i) \<noteq> None"
proof -
  obtain c' where c': "ui_run clk [BackToLanding, ChooseRole ADMIN, SubmitLogin ''admin1'', ShowDashboard] (c, s) = (c', s)"
      "cl_user c' = Some (LoggedIn admin1)" "cl_tickets c' = tickets s" "list_open c'"
    using admin_session_open by blast
  have d: "distinct (map t_id (tickets s))" using ui_reachable_ids_distinct [OF r] by simp
  from admin_sets_selected [OF c'(2,3,4) i d st, of clk RESOLVED] c'(1) i
  show ?thesis
    by (intro exI [of _ "[BackToLanding, ChooseRole ADMIN, SubmitLogin ''admin1'', ShowDashboard,
                          SelectTicket i, SetStatus RESOLVED]"])
       (simp add: resolves_def ui_run_append [of clk "[BackToLanding, ChooseRole ADMIN, SubmitLogin ''admin1'', ShowDashboard]"
                                  "[SelectTicket i, SetStatus RESOLVED]", simplified])
qed

theorem admin_can_resolve_witness:
  "\<exists>as. t_status (tickets (snd (ui_run (\<lambda>n. n) as (init_client, init_server (\<lambda>n. n)))) ! 0) = RESOLVED \<and>
        t_resolvedAt (tickets (snd (ui_run (\<lambda>n. n) as (init_client, init_server (\<lambda>n. n)))) ! 0) \<noteq> None"
  by (rule admin_can_resolve [OF ui_reachable.init]) (simp_all add: init_server_def seed_ticket_def)

text \<open>(C13) A closed ticket is final in the UI of one session: no action of a session changes or removes it, since the detail view offers no status control or take button on a closed ticket and every PATCH it sends addresses the selected ticket.\<close>

theorem closed_is_final:
  assumes r: "ui_reachable clk (c, s)" and t: "t \<in> set (tickets s)" and cl: "t_status t = CLOSED"
  shows "t \<in> set (tickets (snd (ui_step clk a (c, s))))"
proof -
  have d: "distinct (map t_id (tickets s))" using ui_reachable_ids_distinct [OF r] by simp
  have sel: "t1 \<in> set (tickets s)" if "cl_selectedTicket c = Some t1" for t1
    using ui_reachable_view_fresh [OF r] that by (auto simp: view_fresh_def)
  show ?thesis
  proof (cases a)
    case (SubmitLogin n)
    then show ?thesis using server_handleLogin [of clk n "(c, s)"] t by simp
  next
    case (SubmitCreate f)
    from handleCreateTicket_cases [of clk f c s] t SubmitCreate show ?thesis
      by (auto dest!: create_ticket_state)
  next
    case (SendComment rnd)
    from handleAddComment_cases [of clk rnd c s] t SendComment show ?thesis
      by (auto dest!: add_comment_state)
  next
    case TakeTicket
    then show ?thesis
      using t closed_not_patched [OF d t cl sel]
      by (auto simp: assignToMe_def take_visible_def controls_visible_def server_patch_from_ui
               simp del: handle.simps split: option.splits)
  next
    case (SetStatus st)
    then show ?thesis
      using t closed_not_patched [OF d t cl sel]
      by (auto simp: updateTicketStatus_def controls_visible_def server_patch_from_ui
               simp del: handle.simps split: option.splits)
  qed (use t in simp_all)
qed

theorem closed_is_final_witness:
  "let W = ui_run (\<lambda>n. n) [BackToLanding, ChooseRole ADMIN, SubmitLogin ''admin1'', ShowDashboard,
                              SelectTicket 0, SetStatus CLOSED] (init_client, init_server (\<lambda>n. n))
   in tickets (snd W) ! 0 \<in> set (tickets (snd (ui_step (\<lambda>n. n) (SetStatus OPEN) (fst W, snd W))))"
  using admin_closes_seed unfolding Let_def
  by (intro closed_is_final) (simp_all add: nth_mem)

section \<open>Where the code and the spec part\<close>

text \<open>(C31) "Tomar Ticket" does not refresh the statistics: after an admin takes a ticket, the dashboard still shows the counts from before the status change (updateTicketStatus refreshes them, assignToMe does not).\<close>

theorem assignToMe_keeps_stats:
  assumes u: "cl_user c = Some (LoggedIn u)" and r: "assignToMe clk tid (c, s) = (c', s')"
  shows "cl_stats c' = cl_stats c"
proof (cases "patch_ticket clk tid
                \<lparr>p_status = Some IN_PROGRESS, p_agentId = Some (u_id u), p_agentName = Some (u_fullName u),
                 p_priority = None, p_userId = Some (u_id u), p_userName = Some (u_fullName u)\<rparr> s")
  case (Inl e)
  then show ?thesis using u r by (simp add: assignToMe_def patch_from_ui_Inl)
next
  case (Inr p)
  then obtain t s1 where p: "patch_ticket clk tid
                \<lparr>p_status = Some IN_PROGRESS, p_agentId = Some (u_id u), p_agentName = Some (u_fullName u),
                 p_priority = None, p_userId = Some (u_id u), p_userName = Some (u_fullName u)\<rparr> s = Inr (t, s1)"
    by (cases p) auto
  show ?thesis using patch_from_ui_Inr [OF p u, of False] u r by (auto simp: assignToMe_def Let_def)
qed

theorem assignToMe_keeps_stats_witness:
  "let u = \<lparr>u_id = ''admin1'', u_username = ''admin1'', u_fullName = ''Administrador 1'', u_role = ADMIN,
             u_department = ''IT Management'', u_email = ''admin1@enterprise.com''\<rparr>;
       s = init_server (\<lambda>n. n);
       c = init_client\<lparr>cl_user := Some (LoggedIn u), cl_view := Dashboard,
                       cl_stats := Some (get_stats (tickets s))\<rparr>;
       r = assignToMe (\<lambda>n. n) ''T-1001'' (c, s)
   in cl_stats (fst r) = Some (get_stats (tickets s)) \<and> st_open (get_stats (tickets s)) = 1 \<and>
      st_open (get_stats (tickets (snd r))) = 0"
proof -
  let ?u = "\<lparr>u_id = ''admin1'', u_username = ''admin1'', u_fullName = ''Administrador 1'', u_role = ADMIN,
             u_department = ''IT Management'', u_email = ''admin1@enterprise.com''\<rparr>"
  let ?s = "init_server (\<lambda>n. n)"
  let ?c = "init_client\<lparr>cl_user := Some (LoggedIn ?u), cl_view := Dashboard,
                       cl_stats := Some (get_stats (tickets ?s))\<rparr>"
  have u: "cl_user ?c = Some (LoggedIn ?u)" by simp
  have k: "cl_stats (fst (assignToMe (\<lambda>n. n) ''T-1001'' (?c, ?s))) = Some (get_stats (tickets ?s))"
    using assignToMe_keeps_stats [OF u surjective_pairing] by simp
  have o1: "st_open (get_stats (tickets ?s)) = 1"
    by (simp add: get_stats_def init_server_def seed_ticket_def)
  have o0: "st_open (get_stats (tickets (snd (assignToMe (\<lambda>n. n) ''T-1001'' (?c, ?s))))) = 0"
    by (simp add: assignToMe_def patch_from_ui_def Let_def patch_ticket_def init_server_def
                  seed_ticket_def get_stats_def res_ok_def)
  from k o1 o0 show ?thesis by (simp add: Let_def)
qed

text \<open>A new ticket's createdAt and updatedAt are two separate clock reads; they are equal only when the clock did not advance between them, while the spec says they are stamped equal.\<close>

theorem create_timestamps_two_reads:
  assumes "handle clk (PostTicket b) s = ((201, JTicket t), s')"
  shows "t_createdAt t = clk (reads s) \<and> t_updatedAt t = clk (Suc (reads s)) \<and>
         (t_createdAt t = t_updatedAt t \<longleftrightarrow> clk (reads s) = clk (Suc (reads s)))"
proof -
  obtain t1 s1 where c: "create_ticket clk b s = (t1, s1)" by (cases "create_ticket clk b s")
  with assms have "t1 = t" by simp
  with create_ticket_new [OF c] show ?thesis by simp
qed

theorem create_timestamps_two_reads_witness:
  "let b = \<lparr>cr_title = Some ''Monitor'', cr_description = Some ''No enciende'', cr_priority = Some LOW,
            cr_category = Some ''Hardware'', cr_creatorId = Some ''u2'', cr_creatorName = Some ''Usuario 2'',
            cr_creatorEmail = Some ''user2@enterprise.com'', cr_creatorDept = Some ''Ventas'',
            cr_agentId = None, cr_agentName = None, cr_station = None, cr_area = None\<rparr>;
       r = handle (\<lambda>n. n) (PostTicket b) (init_server (\<lambda>n. n))
   in \<exists>t. snd (fst r) = JTicket t \<and> t_createdAt t = 3 \<and> t_updatedAt t = 4"
proof -
  let ?b = "\<lparr>cr_title = Some ''Monitor'', cr_description = Some ''No enciende'', cr_priority = Some LOW,
            cr_category = Some ''Hardware'', cr_creatorId = Some ''u2'', cr_creatorName = Some ''Usuario 2'',
            cr_creatorEmail = Some ''user2@enterprise.com'', cr_creatorDept = Some ''Ventas'',
            cr_agentId = None, cr_agentName = None, cr_station = None, cr_area = None\<rparr>"
  obtain t s' where c: "create_ticket (\<lambda>n. n) ?b (init_server (\<lambda>n. n)) = (t, s')"
    by (cases "create_ticket (\<lambda>n. n) ?b (init_server (\<lambda>n. n))")
  then have h: "handle (\<lambda>n. n) (PostTicket ?b) (init_server (\<lambda>n. n)) = ((201, JTicket t), s')" by simp
  have "reads (init_server (\<lambda>n. n)) = 3" by (simp add: init_server_def)
  with create_timestamps_two_reads [OF h] h show ?thesis by (simp add: Let_def)
qed

text \<open>On a fresh server, creating tickets of priorities LOW, HIGH, HIGH and asking for the statistics gives HIGH = 3, not 2 as the spec's example says: the seeded ticket T-1001 is HIGH and is counted.\<close>

theorem stats_after_three_creates:
  "\<exists>st. last (fst (run clk [PostTicket (demo_req LOW), PostTicket (demo_req HIGH),
                            PostTicket (demo_req HIGH), GetStats] (init_server clk))) = (200, JStats st) \<and>
        st_byPriority st HIGH = 3 \<and> st_byPriority st LOW = 1 \<and> st_total st = 4"
  by (simp add: demo_req_def create_ticket_def Let_def new_ticket_def init_server_def seed_ticket_def
                get_stats_def)

text \<open>A ticket listing with role=agent and no userId returns every ticket without an agent: the query userId is undefined and t.agentId === undefined holds for unassigned tickets.\<close>

theorem agent_listing_without_user:
  "handle clk (GetTickets None (Some ''agent'')) s =
     ((200, JTickets (filter (\<lambda>t. t_agentId t = None) (tickets s))), s)"
  by (simp add: list_tickets_def)

text \<open>(C22) Logging in with the name of an Object.prototype member crashes the client: the dashboard renders user?.fullName.charAt(0) on the empty object the server returns, which throws a TypeError.\<close>

theorem prototype_login_crashes:
  assumes k: "k \<in> set object_prototype_keys" and v: "cl_view c = LoginView"
  shows "render_dashboard (fst (ui_step clk (SubmitLogin k) (c, s))) = Inl TypeError"
proof -
  have "k \<noteq> []" using k by (auto simp: object_prototype_keys_def)
  with v login_inherited [OF k] show ?thesis
    by (simp add: handleLogin_def res_ok_def dashboard_effect_def fetchTickets_def fetchStats_def
                  fetchAgents_def render_dashboard_def user_initial_def charAt0_def)
qed

theorem prototype_login_crashes_witness:
  "render_dashboard (fst (ui_step (\<lambda>n. n) (SubmitLogin ''toString'')
      (init_client\<lparr>cl_view := LoginView\<rparr>, init_server (\<lambda>n. n)))) = Inl TypeError"
  by (rule prototype_login_crashes) (simp_all add: object_prototype_keys_def)

text \<open>(C25) One creation request without creatorName, which the server stores unchecked, makes every later admin dashboard throw: the admin table renders creatorName.charAt(0) for every ticket.\<close>

theorem nameless_ticket_crashes_admin:
  assumes "cr_creatorName b = None"
  shows "render_dashboard (fst (ui_run clk [BackToLanding, ChooseRole ADMIN, SubmitLogin ''admin1'', ShowDashboard]
           (c, snd (handle clk (PostTicket b) s)))) = Inl TypeError"
proof -
  let ?s = "snd (handle clk (PostTicket b) s)"
  obtain c' where c': "ui_run clk [BackToLanding, ChooseRole ADMIN, SubmitLogin ''admin1'', ShowDashboard]
                         (c, ?s) = (c', ?s)"
      "cl_user c' = Some (LoggedIn admin1)" "cl_tickets c' = tickets ?s" "list_open c'"
    using admin_session_open by blast
  obtain t s' where cr: "create_ticket clk b s = (t, s')" by (cases "create_ticket clk b s")
  have "t_creatorName t = None" using cr assms by (auto simp: create_ticket_def new_ticket_def Let_def)
  moreover have "t \<in> set (cl_tickets c')" using c'(3) cr create_ticket_state [OF cr] by simp
  ultimately have "\<exists>e. render_all ticket_row (cl_tickets c') = Inl e"
    by (auto simp: render_all_Inl ticket_row_Inl)
  then have "render_all ticket_row (cl_tickets c') = Inl TypeError"
    by (metis render_error.exhaust)
  with c' show ?thesis
    by (simp add: render_dashboard_def render_main_def list_open_def user_initial_def charAt0_def admin1_def)
qed

theorem nameless_ticket_crashes_admin_witness:
  "render_dashboard (fst (ui_run (\<lambda>n. n) [BackToLanding, ChooseRole ADMIN, SubmitLogin ''admin1'', ShowDashboard]
     (init_client, snd (handle (\<lambda>n. n) (PostTicket
        \<lparr>cr_title = Some ''x'', cr_description = Some ''x'', cr_priority = Some LOW, cr_category = Some ''Red'',
         cr_creatorId = Some ''u1'', cr_creatorName = None, cr_creatorEmail = None, cr_creatorDept = None,
         cr_agentId = None, cr_agentName = None, cr_station = None, cr_area = None\<rparr>) (init_server (\<lambda>n. n)))))) =
   Inl TypeError"
  by (rule nameless_ticket_crashes_admin) simp

end
